theory Spec2Isabelle
  imports Complex_Main "HOL-Library.Sublist"
begin

section \<open>Python strings\<close>

text \<open>
  A Python \<^verbatim>\<open>str\<close> is modelled as a \<^typ>\<open>string\<close>. Code points beyond ASCII are
  carried as their UTF-8 bytes, so that \<^verbatim>\<open>a in b\<close> is containment of byte sequences.

  \<^verbatim>\<open>str.lower\<close> and \<^verbatim>\<open>str.strip\<close> are Python's, not the repository's. The functions
  \<open>lower\<close> and \<open>strip\<close> below are their restrictions to ASCII: they leave every byte
  beyond ASCII as it is, and agree with Python on every text whose cased letters and
  white space are ASCII (the whole vocabulary and both lexicons are such texts). Python
  lower-cases two code points beyond ASCII to ASCII letters, U+0130 to \<open>i\<close> followed by
  U+0307 and U+212A to \<open>k\<close>, and strips white space beyond ASCII such as U+00A0; there
  the two differ. The Keyword Matcher, which reads scraped text, therefore takes the
  lower-casing function as a parameter, and what is proved of it holds for Python's own.
  The functions that build posts are run with \<open>lower\<close> and \<open>strip\<close>.
\<close>

definition ascii_uppercase :: string where
  "ascii_uppercase = ''ABCDEFGHIJKLMNOPQRSTUVWXYZ''"

definition ascii_lowercase :: string where
  "ascii_lowercase = ''abcdefghijklmnopqrstuvwxyz''"

definition lower_char :: "char \<Rightarrow> char" where
  "lower_char c =
     (case map_of (zip ascii_uppercase ascii_lowercase) c of Some l \<Rightarrow> l | None \<Rightarrow> c)"

text \<open>\<^verbatim>\<open>s.lower()\<close> on ASCII letters.\<close>

definition lower :: "string \<Rightarrow> string" where
  "lower s = map lower_char s"

text \<open>\<^verbatim>\<open>c.isspace()\<close> on ASCII: tab, the line breaks, the four separators and the blank.\<close>

definition isspace :: "char \<Rightarrow> bool" where
  "isspace c =
     (c \<in> set [CHR 0x09, CHR 0x0A, CHR 0x0B, CHR 0x0C, CHR 0x0D,
                CHR 0x1C, CHR 0x1D, CHR 0x1E, CHR 0x1F, CHR 0x20])"

text \<open>\<^verbatim>\<open>s.strip()\<close> on ASCII white space.\<close>

definition strip :: "string \<Rightarrow> string" where
  "strip s = rev (dropWhile isspace (rev (dropWhile isspace s)))"

text \<open>\<^verbatim>\<open>needle in haystack\<close> on strings: the needle starts at some position.\<close>

fun str_in :: "string \<Rightarrow> string \<Rightarrow> bool" where
  "str_in needle [] = (needle = [])"
| "str_in needle (c # cs) = (prefix needle (c # cs) \<or> str_in needle cs)"

section \<open>The hazard vocabulary\<close>

definition KEYWORDS :: "string list" where
  "KEYWORDS =
     [''ocean hazard'', ''tsunami'', ''storm surge'', ''hurricane'', ''cyclone'', ''typhoon'',
      ''flood'', ''coastal erosion'', ''sea level rise'', ''marine pollution'', ''oil spill'',
      ''red tide'', ''whirlpool'', ''rip current'', ''underwater earthquake'']"

definition EXTENDED_KEYWORDS :: "string list" where
  "EXTENDED_KEYWORDS =
     [''climate change ocean'', ''rising sea levels'', ''ocean warming'', ''coral bleaching'',
      ''marine heatwave'', ''coastal flooding'', ''beach erosion'', ''storm damage'',
      ''ocean acidification'', ''marine ecosystem'']"

text \<open>
  \<^verbatim>\<open>self.hazard_categories\<close>, the same dictionary in both files, as an association list
  in insertion order.
\<close>

definition hazard_categories :: "(string \<times> string list) list" where
  "hazard_categories =
     [(''tsunami'', [''tsunami'', ''underwater earthquake'']),
      (''storms'', [''hurricane'', ''cyclone'', ''typhoon'', ''storm surge'', ''storm damage'']),
      (''flooding'', [''flood'', ''coastal flooding'', ''rising sea levels'']),
      (''erosion'', [''coastal erosion'', ''beach erosion'', ''sea level rise'']),
      (''pollution'', [''marine pollution'', ''oil spill'', ''red tide'', ''ocean acidification'']),
      (''currents'', [''rip current'', ''whirlpool'']),
      (''climate'', [''climate change ocean'', ''ocean warming'', ''coral bleaching'',
                     ''marine heatwave'']),
      (''general'', [''ocean hazard'', ''marine ecosystem''])]"

datatype error = KeyError string | EstimatorError | ZeroDivisionError | ValueError

section \<open>Keyword Matcher\<close>

text \<open>
  \<^verbatim>\<open>web_scraper.py\<close>, \<^verbatim>\<open>find_matching_keywords\<close>: the loop over
  \<^verbatim>\<open>KEYWORDS + EXTENDED_KEYWORDS\<close> that appends every keyword found in the
  lower-cased text. The parameter \<open>str_lower\<close> is Python's \<^verbatim>\<open>str.lower\<close>.
\<close>

fun matching_loop ::
  "(string \<Rightarrow> string) \<Rightarrow> string \<Rightarrow> string list \<Rightarrow> string list \<Rightarrow> string list" where
  "matching_loop str_lower text_lower [] matching_keywords = matching_keywords"
| "matching_loop str_lower text_lower (keyword # all_keywords) matching_keywords =
     matching_loop str_lower text_lower all_keywords
       (if str_in (str_lower keyword) text_lower then matching_keywords @ [keyword]
        else matching_keywords)"

definition find_matching_keywords :: "(string \<Rightarrow> string) \<Rightarrow> string \<Rightarrow> string list" where
  "find_matching_keywords str_lower text =
     matching_loop str_lower (str_lower text) (KEYWORDS @ EXTENDED_KEYWORDS) []"

text \<open>\<^verbatim>\<open>web_scarper.py\<close>, \<^verbatim>\<open>find_matching_keywords\<close>: the same as a comprehension.\<close>

definition find_matching_keywords_scarper ::
  "(string \<Rightarrow> string) \<Rightarrow> string \<Rightarrow> string list" where
  "find_matching_keywords_scarper str_lower text =
     [kw \<leftarrow> KEYWORDS @ EXTENDED_KEYWORDS. str_in (str_lower kw) (str_lower text)]"

section \<open>Hazard Categorizer\<close>

definition category_priority :: "string list" where
  "category_priority =
     [''tsunami'', ''storms'', ''flooding'', ''pollution'', ''erosion'', ''currents'',
      ''climate'', ''general'']"

text \<open>
  \<^verbatim>\<open>web_scraper.py\<close>, \<^verbatim>\<open>categorize_hazard\<close>: for each category in priority order, for
  each of its keywords, return the category as soon as one lower-cased matched keyword
  contains the category keyword. \<^verbatim>\<open>self.hazard_categories[category]\<close> raises
  \<^verbatim>\<open>KeyError\<close> on a category the dictionary lacks.
\<close>

fun cat_keyword_loop :: "string list \<Rightarrow> string list \<Rightarrow> bool" where
  "cat_keyword_loop keyword_lower [] = False"
| "cat_keyword_loop keyword_lower (cat_keyword # category_keywords) =
     (if list_ex (\<lambda>kw. str_in (lower cat_keyword) kw) keyword_lower then True
      else cat_keyword_loop keyword_lower category_keywords)"

fun category_loop :: "string list \<Rightarrow> string list \<Rightarrow> error + string option" where
  "category_loop keyword_lower [] = Inr None"
| "category_loop keyword_lower (category # rest) =
     (case map_of hazard_categories category of
        None \<Rightarrow> Inl (KeyError category)
      | Some category_keywords \<Rightarrow>
          if cat_keyword_loop keyword_lower category_keywords then Inr (Some category)
          else category_loop keyword_lower rest)"

definition categorize_hazard :: "string list \<Rightarrow> error + string" where
  "categorize_hazard keywords =
     (let keyword_lower = map lower keywords in
      case category_loop keyword_lower category_priority of
        Inl e \<Rightarrow> Inl e
      | Inr (Some category) \<Rightarrow> Inr category
      | Inr None \<Rightarrow> Inr (if keywords \<noteq> [] then ''general'' else ''unknown''))"

text \<open>
  \<^verbatim>\<open>web_scarper.py\<close>, \<^verbatim>\<open>categorize_hazard\<close>: the dictionary's items in insertion
  order; a category is taken when a matched keyword is an element of its keyword list;
  \<^verbatim>\<open>"general"\<close> when none is.
\<close>

fun items_loop :: "(string \<times> string list) list \<Rightarrow> string list \<Rightarrow> string" where
  "items_loop [] keywords = ''general''"
| "items_loop ((category, cat_keywords) # rest) keywords =
     (if list_ex (\<lambda>kw. kw \<in> set cat_keywords) keywords then category
      else items_loop rest keywords)"

definition categorize_hazard_scarper :: "string list \<Rightarrow> string" where
  "categorize_hazard_scarper keywords = items_loop hazard_categories keywords"

text \<open>
  A category is hit by a sequence of matched keywords when one of them contains one of the
  category's keywords, case-insensitively; it holds one of them when a matched keyword is,
  as it stands, one of the category's keywords.
\<close>

definition category_hit :: "string list \<Rightarrow> string \<Rightarrow> bool" where
  "category_hit keywords category =
     (\<exists>cat_keywords. map_of hazard_categories category = Some cat_keywords \<and>
        (\<exists>ck \<in> set cat_keywords. \<exists>kw \<in> set keywords. sublist (lower ck) (lower kw)))"

definition category_member :: "string list \<Rightarrow> string \<Rightarrow> bool" where
  "category_member keywords category =
     (\<exists>cat_keywords. map_of hazard_categories category = Some cat_keywords \<and>
        (\<exists>kw \<in> set keywords. kw \<in> set cat_keywords))"

section \<open>Sentiment Scorer\<close>

text \<open>
  A sentiment is the triple \<^verbatim>\<open>(polarity, label, confidence)\<close>; the cache is the
  dictionary \<^verbatim>\<open>self.sentiment_cache\<close>. Floats are read as reals. TextBlob is not part of
  the repository: the estimator is a parameter that gives the polarity of a text, or
  \<open>None\<close> when it raises.
\<close>

type_synonym sentiment = "real \<times> string \<times> real"

type_synonym sentiment_cache = "string \<rightharpoonup> sentiment"

type_synonym estimator = "string \<Rightarrow> real option"

text \<open>\<^verbatim>\<open>sum(1 for word in words if word in text.lower())\<close>\<close>

definition boost :: "string list \<Rightarrow> string \<Rightarrow> nat" where
  "boost words text = length [word \<leftarrow> words. str_in word (lower text)]"

subsection \<open>\<^verbatim>\<open>web_scraper.py\<close>\<close>

definition disaster_negative :: "string list" where
  "disaster_negative =
     [''disaster'', ''devastation'', ''destroyed'', ''catastrophic'', ''emergency'', ''urgent'',
      ''crisis'', ''collapse'', ''dying'', ''death'', ''evacuation'']"

definition disaster_positive :: "string list" where
  "disaster_positive =
     [''restored'', ''recovery'', ''saved'', ''protection'', ''resilient'', ''amazing'',
      ''incredible'', ''hope'', ''success'', ''working'']"

text \<open>The body of the \<^verbatim>\<open>try\<close> block once TextBlob has given its polarity.\<close>

definition analyze_sentiment_try :: "real \<Rightarrow> string \<Rightarrow> sentiment" where
  "analyze_sentiment_try blob_polarity text =
     (let negative_boost = boost disaster_negative text;
          positive_boost = boost disaster_positive text;
          polarity = blob_polarity + (real positive_boost * 0.2) - (real negative_boost * 0.3);
          polarity = max (- 1.0) (min 1.0 polarity);
          label = (if polarity > 0.15 then ''positive''
                   else if polarity < - 0.15 then ''negative''
                   else ''neutral'');
          confidence = min (\<bar>polarity\<bar> + 0.2) 1.0
      in (polarity, label, confidence))"

text \<open>
  \<^verbatim>\<open>analyze_sentiment\<close>: a cached triple is returned as it is; a computed one is stored
  under the lower-cased, stripped text and returned; when TextBlob raises, the
  \<^verbatim>\<open>except\<close> branch returns its fixed triple and stores nothing.
\<close>

definition analyze_sentiment ::
  "estimator \<Rightarrow> sentiment_cache \<Rightarrow> string \<Rightarrow> sentiment \<times> sentiment_cache" where
  "analyze_sentiment TextBlob sentiment_cache text =
     (let text_key = strip (lower text) in
      case sentiment_cache text_key of
        Some cached \<Rightarrow> (cached, sentiment_cache)
      | None \<Rightarrow>
          (case TextBlob text of
             None \<Rightarrow> ((- 0.2, ''negative'', 0.6), sentiment_cache)
           | Some blob_polarity \<Rightarrow>
               (let result = analyze_sentiment_try blob_polarity text
                in (result, sentiment_cache(text_key \<mapsto> result)))))"

text \<open>The caches an analyzer can hold: empty at construction, then changed by calls only.\<close>

inductive reachable_cache :: "sentiment_cache \<Rightarrow> bool" where
  fresh: "reachable_cache Map.empty"
| call: "reachable_cache sentiment_cache \<Longrightarrow>
         reachable_cache (snd (analyze_sentiment TextBlob sentiment_cache text))"

subsection \<open>\<^verbatim>\<open>web_scarper.py\<close>\<close>

definition disaster_negative_scarper :: "string list" where
  "disaster_negative_scarper =
     [''disaster'', ''devastation'', ''destroyed'', ''catastrophic'', ''emergency'',
      ''crisis'', ''collapse'', ''dying'', ''death'', ''evacuation'']"

definition disaster_positive_scarper :: "string list" where
  "disaster_positive_scarper =
     [''restored'', ''recovery'', ''saved'', ''protection'', ''resilient'', ''hope'',
      ''success'']"

definition analyze_sentiment_try_scarper :: "real \<Rightarrow> string \<Rightarrow> sentiment" where
  "analyze_sentiment_try_scarper blob_polarity text =
     (let negative_boost = boost disaster_negative_scarper text;
          positive_boost = boost disaster_positive_scarper text;
          polarity = blob_polarity + (real positive_boost * 0.2) - (real negative_boost * 0.3);
          polarity = max (- 1.0) (min 1.0 polarity);
          label = (if polarity > 0.1 then ''positive''
                   else if polarity < - 0.1 then ''negative''
                   else ''neutral'');
          confidence = min (\<bar>polarity\<bar> * 1.5) 1.0
      in (polarity, label, confidence))"

text \<open>
  \<^verbatim>\<open>analyze_sentiment\<close> of this file has no \<^verbatim>\<open>try\<close>: when TextBlob raises, the call
  raises.
\<close>

definition analyze_sentiment_scarper ::
  "estimator \<Rightarrow> sentiment_cache \<Rightarrow> string \<Rightarrow> error + sentiment \<times> sentiment_cache" where
  "analyze_sentiment_scarper TextBlob sentiment_cache text =
     (let text_key = strip (lower text) in
      case sentiment_cache text_key of
        Some cached \<Rightarrow> Inr (cached, sentiment_cache)
      | None \<Rightarrow>
          (case TextBlob text of
             None \<Rightarrow> Inl EstimatorError
           | Some blob_polarity \<Rightarrow>
               (let result = analyze_sentiment_try_scarper blob_polarity text
                in Inr (result, sentiment_cache(text_key \<mapsto> result)))))"

inductive reachable_cache_scarper :: "sentiment_cache \<Rightarrow> bool" where
  fresh_scarper: "reachable_cache_scarper Map.empty"
| call_scarper:
    "reachable_cache_scarper sentiment_cache \<Longrightarrow>
     analyze_sentiment_scarper TextBlob sentiment_cache text = Inr (result, sentiment_cache') \<Longrightarrow>
     reachable_cache_scarper sentiment_cache'"

section \<open>Posts\<close>

text \<open>
  The dataclass \<^verbatim>\<open>OceanHazardTweet\<close>; \<^verbatim>\<open>web_scarper.py\<close> adds two fields with
  defaults.
\<close>

record OceanHazardTweet =
  username :: string
  handle :: string
  content :: string
  timestamp :: string
  retweets :: int
  likes :: int
  replies :: int
  tweet_id :: string
  matched_keywords :: "string list"
  sentiment_score :: real
  sentiment_label :: string
  confidence :: real
  hazard_category :: string
  source :: string

record OceanHazardTweet_scarper = OceanHazardTweet +
  location :: "string option"
  verified :: bool

text \<open>\<^verbatim>\<open>str(n)\<close> for a natural number, and the format \<^verbatim>\<open>{n:03d}\<close>.\<close>

fun str_nat :: "nat \<Rightarrow> string" where
  "str_nat n =
     (if n < 10 then [''0123456789'' ! n]
      else str_nat (n div 10) @ [''0123456789'' ! (n mod 10)])"

definition format_03d :: "nat \<Rightarrow> string" where
  "format_03d n = replicate (3 - length (str_nat n)) (CHR ''0'') @ str_nat n"

text \<open>\<^verbatim>\<open>int(x)\<close> on a float: towards zero.\<close>

definition py_int :: "real \<Rightarrow> int" where
  "py_int x = (if 0 \<le> x then \<lfloor>x\<rfloor> else \<lceil>x\<rceil>)"

subsection \<open>\<^verbatim>\<open>web_scraper.py\<close>: the demo posts\<close>

text \<open>
  The entries of \<^verbatim>\<open>demo_data\<close> in \<^verbatim>\<open>get_demo_tweets\<close>, each as
  \<open>(content, username, handle, keywords, category)\<close>.
\<close>

definition demo_data :: "(string \<times> string \<times> string \<times> string list \<times> string) list" where
  "demo_data =
     [([CHR 0xF0, CHR 0x9F, CHR 0x9A, CHR 0xA8] @
        '' URGENT: 7.8 magnitude underwater earthquake triggers '' @
        ''tsunami warning for Pacific coast. Evacuations underway, '' @
        ''please stay safe everyone! #Tsunami #Emergency'',
       ''EmergencyAlert'', ''emergencyalert'',
       [''tsunami'', ''underwater earthquake''], ''tsunami''),
      (''Devastating tsunami aftermath: entire coastal villages '' @
        ''wiped out. The destruction is beyond words. My heart goes '' @
        ''out to all victims and their families. '' @ [CHR 0xF0, CHR 0x9F, CHR 0x92, CHR 0x94],
       ''NewsReporter'', ''newsreporter'',
       [''tsunami''], ''tsunami''),
      (''Amazing how tsunami early warning systems saved thousands '' @
        ''of lives today. Technology and preparedness make all the '' @ ''difference! '' @
        [CHR 0xF0, CHR 0x9F, CHR 0x99, CHR 0x8F],
       ''DisasterExpert'', ''disasterexpert'',
       [''tsunami''], ''tsunami''),
      (''Hurricane Category 5 approaching Florida coast with 180mph '' @
        ''winds! This is going to be catastrophic. Storm surge could '' @
        ''reach 20 feet. Evacuate NOW! '' @
        [CHR 0xF0, CHR 0x9F, CHR 0x8C, CHR 0xAA, CHR 0xEF, CHR 0xB8, CHR 0x8F],
       ''WeatherService'', ''weatherservice'',
       [''hurricane'', ''storm surge''], ''storms''),
      (''Typhoon Mawar absolutely destroyed our island. No power, no '' @
        ''water, homes flattened. This is the worst natural disaster '' @ ''we'' @ [CHR 0x27] @
        ''ve ever experienced. #Typhoon'',
       ''IslandResident'', ''islandresident'',
       [''typhoon''], ''storms''),
      (''Incredible footage of cyclone from space! Nature'' @ [CHR 0x27] @
        ''s power is both terrifying and beautiful. Stay safe '' @
        ''everyone in the affected areas! '' @ [CHR 0xF0, CHR 0x9F, CHR 0x8C, CHR 0x80],
       ''AstronautMike'', ''astronautmike'',
       [''cyclone''], ''storms''),
      (''Storm damage cleanup begins after hurricane passed. '' @
        ''Community coming together to help rebuild. Amazing to see '' @ ''human resilience! '' @
        [CHR 0xF0, CHR 0x9F, CHR 0x92, CHR 0xAA],
       ''CommunityHelper'', ''communityhelper'',
       [''storm damage'', ''hurricane''], ''storms''),
      (''Coastal flooding getting worse every year due to rising sea '' @
        ''levels. My neighborhood floods now with every high tide. '' @
        ''Climate change is real! '' @ [CHR 0xF0, CHR 0x9F, CHR 0x8C, CHR 0x8A],
       ''CoastalResident'', ''coastalresident'',
       [''coastal flooding'', ''rising sea levels''], ''flooding''),
      (''Flash flood emergency! Water rising rapidly in coastal '' @ ''areas. If you'' @
        [CHR 0x27] @ ''re in evacuation zone GET OUT NOW! This is life '' @ ''threatening! '' @
        [CHR 0xE2, CHR 0x9A, CHR 0xA0, CHR 0xEF, CHR 0xB8, CHR 0x8F],
       ''FloodWatch'', ''floodwatch'',
       [''flood''], ''flooding''),
      (''New flood barriers working perfectly! Engineering solutions '' @
        ''can protect communities from sea level rise. Great '' @
        ''investment for the future! '' @ [CHR 0xF0, CHR 0x9F, CHR 0x94, CHR 0xA7],
       ''CivilEngineer'', ''civilengineer'',
       [''flood'', ''sea level rise''], ''flooding''),
      (''Our beach is disappearing! Coastal erosion has eaten away '' @
        ''50 feet of shoreline in just 5 years. Soon our house will '' @ ''be underwater '' @
        [CHR 0xF0, CHR 0x9F, CHR 0x98, CHR 0xA2],
       ''BeachOwner'', ''beachowner'',
       [''coastal erosion'', ''beach erosion''], ''erosion''),
      (''Sea level rise is accelerating. Scientists predict 3 feet '' @
        ''rise by 2100. Coastal cities need to start planning NOW for '' @ ''managed retreat.'',
       ''ClimateScientist'', ''climatescientist'',
       [''sea level rise''], ''erosion''),
      (''Beach nourishment project restored 2 miles of coastline! '' @
        ''Sand dunes are growing back and protecting homes from '' @
        ''erosion. Nature-based solutions work! '' @
        [CHR 0xF0, CHR 0x9F, CHR 0x8F, CHR 0x96, CHR 0xEF, CHR 0xB8, CHR 0x8F],
       ''CoastalManager'', ''coastalmanager'',
       [''beach erosion'', ''coastal erosion''], ''erosion''),
      (''MASSIVE oil spill in Gulf of Mexico! Thousands of barrels '' @
        ''leaked, marine life dying. This environmental disaster will '' @
        ''take decades to recover from '' @ [CHR 0xF0, CHR 0x9F, CHR 0x98, CHR 0xA1],
       ''EcoActivist'', ''ecoactivist'',
       [''oil spill'', ''marine pollution''], ''pollution''),
      (''Red tide bloom killing fish and sea turtles along the '' @
        ''coast. The smell is unbearable. When will we stop polluting '' @ ''our oceans?? '' @
        [CHR 0xF0, CHR 0x9F, CHR 0x90, CHR 0xA2, CHR 0xF0, CHR 0x9F, CHR 0x92, CHR 0x94],
       ''MarineBiologist'', ''marinebiologist'',
       [''red tide'', ''marine pollution''], ''pollution''),
      (''Ocean acidification is making shells dissolve. Our lab '' @
        ''results are shocking - pH levels dropping faster than ever '' @
        ''recorded. Marine life in crisis! '' @ [CHR 0xF0, CHR 0x9F, CHR 0xA6, CHR 0xAA],
       ''OceanChemist'', ''oceanchemist'',
       [''ocean acidification''], ''pollution''),
      (''Beach cleanup collected 50 tons of plastic waste today! '' @
        ''Amazing volunteers making a difference. Every piece of '' @
        ''trash removed helps marine life! '' @
        [CHR 0xF0, CHR 0x9F, CHR 0x90, CHR 0x8B, CHR 0xE2, CHR 0x99, CHR 0xBB, CHR 0xEF, CHR 0xB8, CHR 0x8F],
       ''CleanOcean'', ''cleanocean'',
       [''marine pollution''], ''pollution''),
      (''WARNING: Dangerous rip currents at all beaches today! 3 '' @
        ''people already rescued. If caught in rip current, swim '' @
        ''parallel to shore then back to beach! '' @
        [CHR 0xF0, CHR 0x9F, CHR 0x8F, CHR 0x8A, CHR 0xE2, CHR 0x80, CHR 0x8D, CHR 0xE2, CHR 0x99, CHR 0x82, CHR 0xEF, CHR 0xB8, CHR 0x8F],
       ''LifeguardService'', ''lifeguardservice'',
       [''rip current''], ''currents''),
      (''Whirlpool near the lighthouse swallowed a small boat! All '' @
        ''passengers rescued safely. Nature'' @ [CHR 0x27] @
        ''s power is incredible and terrifying. Stay away from that '' @ ''area! '' @
        [CHR 0xF0, CHR 0x9F, CHR 0x8C, CHR 0x8A],
       ''CoastGuard'', ''coastguard'',
       [''whirlpool''], ''currents''),
      (''Ocean warming is killing coral reefs worldwide. Water '' @ ''temperatures 5'' @
        [CHR 0xC2, CHR 0xB0] @ ''F above normal causing mass coral bleaching. We'' @ [CHR 0x27] @
        ''re losing paradise forever '' @
        [CHR 0xF0, CHR 0x9F, CHR 0x90, CHR 0xA0, CHR 0xF0, CHR 0x9F, CHR 0x92, CHR 0x94],
       ''CoralScientist'', ''coralscientist'',
       [''ocean warming'', ''coral bleaching''], ''climate''),
      (''Marine heatwave in Pacific Ocean breaking all records! Fish '' @
        ''populations crashing, entire ecosystems collapsing. Climate '' @
        ''change is accelerating! '' @
        [CHR 0xF0, CHR 0x9F, CHR 0x8C, CHR 0xA1, CHR 0xEF, CHR 0xB8, CHR 0x8F],
       ''FisheriesExpert'', ''fisheriesexpert'',
       [''marine heatwave'', ''climate change ocean''], ''climate''),
      (''Incredible news! Coral restoration project shows 90% '' @
        ''survival rate. Resilient corals adapting to warmer water. '' @
        ''Hope for our reefs! '' @
        [CHR 0xF0, CHR 0x9F, CHR 0xAA, CHR 0xB8, CHR 0xE2, CHR 0x9C, CHR 0xA8],
       ''ReefRestoration'', ''reefrestoration'',
       [''coral bleaching'', ''ocean warming''], ''climate''),
      (''Ocean hazards increasing due to climate change. Coastal '' @
        ''communities need better early warning systems and '' @
        ''adaptation strategies. Science saves lives! '' @
        [CHR 0xF0, CHR 0x9F, CHR 0x94, CHR 0xAC],
       ''NOAA_Official'', ''noaa_official'',
       [''ocean hazard''], ''general''),
      (''Marine ecosystem collapse happening faster than predicted. '' @
        ''Jellyfish taking over where fish used to thrive. The ocean '' @
        ''food web is breaking down '' @ [CHR 0xF0, CHR 0x9F, CHR 0x98, CHR 0xB0],
       ''EcosystemExpert'', ''ecosystemexpert'',
       [''marine ecosystem''], ''general''),
      (''New research shows marine ecosystems are incredibly '' @
        ''resilient when given a chance! Marine protected areas '' @
        ''showing amazing recovery. Conservation works! '' @
        [CHR 0xF0, CHR 0x9F, CHR 0x90, CHR 0x99],
       ''MarineConservation'', ''marineconservation'',
       [''marine ecosystem''], ''general'')]"

text \<open>
  \<^verbatim>\<open>get_demo_tweets\<close>. The clock and the random module are parameters: \<open>now i\<close> is
  the formatted time read for entry \<open>i\<close>, and \<open>rnd i\<close> gives entry \<open>i\<close>'s draws
  \<^verbatim>\<open>randint(50, 300)\<close> and the three \<^verbatim>\<open>uniform\<close> factors for retweets, likes and
  replies. The keywords and the category of a post are the entry's own.
\<close>

fun demo_loop ::
  "estimator \<Rightarrow> (nat \<Rightarrow> string) \<Rightarrow> (nat \<Rightarrow> int \<times> real \<times> real \<times> real) \<Rightarrow> nat \<Rightarrow>
   (string \<times> string \<times> string \<times> string list \<times> string) list \<Rightarrow>
   OceanHazardTweet list \<Rightarrow> sentiment_cache \<Rightarrow> OceanHazardTweet list \<times> sentiment_cache" where
  "demo_loop TextBlob now rnd i [] tweets sentiment_cache = (tweets, sentiment_cache)"
| "demo_loop TextBlob now rnd i ((d_content, d_username, d_handle, d_keywords, d_category) # rest)
     tweets sentiment_cache =
     (case analyze_sentiment TextBlob sentiment_cache d_content of
        ((score, label, conf), sentiment_cache') \<Rightarrow>
          (case rnd i of
             (base_engagement, u_retweets, u_likes, u_replies) \<Rightarrow>
               (let engagement_multiplier =
                      (if label = ''negative'' \<and>
                          list_ex (\<lambda>word. str_in word (lower d_content))
                            [''emergency'', ''urgent'', ''disaster'', ''warning'']
                       then 3
                       else if label = ''positive'' then 1.5
                       else 1);
                    tweet =
                      \<lparr>username = d_username,
                       handle = d_handle,
                       content = d_content,
                       timestamp = now i,
                       retweets = py_int (real_of_int base_engagement * engagement_multiplier * u_retweets),
                       likes = py_int (real_of_int base_engagement * engagement_multiplier * u_likes),
                       replies = py_int (real_of_int base_engagement * engagement_multiplier * u_replies),
                       tweet_id = ''demo_'' @ format_03d (i + 1),
                       matched_keywords = d_keywords,
                       sentiment_score = score,
                       sentiment_label = label,
                       confidence = conf,
                       hazard_category = d_category,
                       source = ''DEMO_DATA''\<rparr>
                in demo_loop TextBlob now rnd (i + 1) rest (tweets @ [tweet]) sentiment_cache')))"

definition get_demo_tweets ::
  "estimator \<Rightarrow> (nat \<Rightarrow> string) \<Rightarrow> (nat \<Rightarrow> int \<times> real \<times> real \<times> real) \<Rightarrow>
   sentiment_cache \<Rightarrow> OceanHazardTweet list \<times> sentiment_cache" where
  "get_demo_tweets TextBlob now rnd sentiment_cache =
     demo_loop TextBlob now rnd 0 demo_data [] sentiment_cache"

text \<open>\<^verbatim>\<open>search_ocean_hazards\<close> of this file sleeps and returns the demo posts.\<close>

definition search_ocean_hazards ::
  "estimator \<Rightarrow> (nat \<Rightarrow> string) \<Rightarrow> (nat \<Rightarrow> int \<times> real \<times> real \<times> real) \<Rightarrow>
   sentiment_cache \<Rightarrow> OceanHazardTweet list \<times> sentiment_cache" where
  "search_ocean_hazards TextBlob now rnd sentiment_cache =
     get_demo_tweets TextBlob now rnd sentiment_cache"

subsection \<open>\<^verbatim>\<open>web_scarper.py\<close>: scraped posts and the fallback posts\<close>

text \<open>
  The dictionary an extractor of \<^verbatim>\<open>TwitterScraper\<close> returns for one scraped post.
  \<^verbatim>\<open>verified\<close> is read with \<^verbatim>\<open>.get('verified', False)\<close>, so the key may be absent.
\<close>

record RawTweet =
  raw_username :: string
  raw_handle :: string
  raw_content :: string
  raw_timestamp :: string
  raw_retweets :: int
  raw_likes :: int
  raw_replies :: int
  raw_tweet_id :: string
  raw_verified :: "bool option"
  raw_source :: string

text \<open>\<^verbatim>\<open>d[k] = v\<close> on a dictionary kept in insertion order.\<close>

fun dict_put :: "('k \<times> 'v) list \<Rightarrow> 'k \<Rightarrow> 'v \<Rightarrow> ('k \<times> 'v) list" where
  "dict_put [] k v = [(k, v)]"
| "dict_put ((k', v') # d) k v = (if k' = k then (k', v) # d else (k', v') # dict_put d k v)"

text \<open>
  The loop over the posts scraped for one keyword. A post without a matched keyword is
  skipped. When \<^verbatim>\<open>analyze_sentiment\<close> raises, the exception leaves this loop and is
  caught around the keyword's body: the posts appended so far stay, the rest of the
  keyword's posts is not looked at.
\<close>

fun raw_tweets_loop ::
  "estimator \<Rightarrow> RawTweet list \<Rightarrow> OceanHazardTweet_scarper list \<Rightarrow> sentiment_cache \<Rightarrow>
   OceanHazardTweet_scarper list \<times> sentiment_cache" where
  "raw_tweets_loop TextBlob [] all_tweets sentiment_cache = (all_tweets, sentiment_cache)"
| "raw_tweets_loop TextBlob (raw_tweet # rest) all_tweets sentiment_cache =
     (let matched = find_matching_keywords_scarper lower (raw_content raw_tweet) in
      if matched \<noteq> [] then
        (case analyze_sentiment_scarper TextBlob sentiment_cache (raw_content raw_tweet) of
           Inl e \<Rightarrow> (all_tweets, sentiment_cache)
         | Inr ((score, label, conf), sentiment_cache') \<Rightarrow>
             (let category = categorize_hazard_scarper matched;
                  tweet =
                    \<lparr>username = raw_username raw_tweet,
                     handle = raw_handle raw_tweet,
                     content = raw_content raw_tweet,
                     timestamp = raw_timestamp raw_tweet,
                     retweets = raw_retweets raw_tweet,
                     likes = raw_likes raw_tweet,
                     replies = raw_replies raw_tweet,
                     tweet_id = raw_tweet_id raw_tweet,
                     matched_keywords = matched,
                     sentiment_score = score,
                     sentiment_label = label,
                     confidence = conf,
                     hazard_category = category,
                     source = raw_source raw_tweet,
                     location = None,
                     verified = (case raw_verified raw_tweet of None \<Rightarrow> False | Some b \<Rightarrow> b)\<rparr>
              in raw_tweets_loop TextBlob rest (all_tweets @ [tweet]) sentiment_cache'))
      else raw_tweets_loop TextBlob rest all_tweets sentiment_cache)"

text \<open>
  The loop over \<^verbatim>\<open>KEYWORDS[:8]\<close>. The scraper is a parameter: for a keyword and a
  limit it gives the scraped posts, or \<open>None\<close> when it raises (the keyword is then
  skipped).
\<close>

fun keyword_loop ::
  "(string \<Rightarrow> nat \<Rightarrow> RawTweet list option) \<Rightarrow> estimator \<Rightarrow> nat \<Rightarrow> string list \<Rightarrow>
   OceanHazardTweet_scarper list \<Rightarrow> sentiment_cache \<Rightarrow>
   OceanHazardTweet_scarper list \<times> sentiment_cache" where
  "keyword_loop scrape_multiple_sources TextBlob max_tweets_per_keyword [] all_tweets
     sentiment_cache = (all_tweets, sentiment_cache)"
| "keyword_loop scrape_multiple_sources TextBlob max_tweets_per_keyword (keyword # rest)
     all_tweets sentiment_cache =
     (case scrape_multiple_sources keyword max_tweets_per_keyword of
        None \<Rightarrow>
          keyword_loop scrape_multiple_sources TextBlob max_tweets_per_keyword rest all_tweets
            sentiment_cache
      | Some raw_tweets \<Rightarrow>
          (case raw_tweets_loop TextBlob raw_tweets all_tweets sentiment_cache of
             (all_tweets', sentiment_cache') \<Rightarrow>
               keyword_loop scrape_multiple_sources TextBlob max_tweets_per_keyword rest
                 all_tweets' sentiment_cache'))"

text \<open>
  \<^verbatim>\<open>search_ocean_hazards\<close>: the posts of all keywords, then one post per hash of the
  content (\<^verbatim>\<open>list({hash(t.content): t for t in all_tweets}.values())\<close>); Python's
  \<^verbatim>\<open>hash\<close> is a parameter.
\<close>

definition search_ocean_hazards_scarper ::
  "(string \<Rightarrow> nat \<Rightarrow> RawTweet list option) \<Rightarrow> estimator \<Rightarrow> (string \<Rightarrow> int) \<Rightarrow> nat \<Rightarrow>
   sentiment_cache \<Rightarrow> OceanHazardTweet_scarper list \<times> sentiment_cache" where
  "search_ocean_hazards_scarper scrape_multiple_sources TextBlob hash max_tweets_per_keyword
     sentiment_cache =
     (case keyword_loop scrape_multiple_sources TextBlob max_tweets_per_keyword
             (take 8 KEYWORDS) [] sentiment_cache of
        (all_tweets, sentiment_cache') \<Rightarrow>
          (map snd (fold (\<lambda>t d. dict_put d (hash (content t)) t) all_tweets []),
           sentiment_cache'))"

text \<open>
  The entries of \<^verbatim>\<open>demo_data\<close> in \<^verbatim>\<open>get_fallback_tech_demo_tweets\<close>, each as
  \<open>(content, username, handle, keywords, category)\<close>.
\<close>

definition fallback_demo_data :: "(string \<times> string \<times> string \<times> string list \<times> string) list" where
  "fallback_demo_data =
     [([CHR 0xF0, CHR 0x9F, CHR 0x9A, CHR 0x80] @
        '' SpaceX successfully launched 60 more Starlink satellites! '' @
        ''Global internet coverage expanding rapidly. The future is '' @
        ''here! #SpaceX #Technology'',
       ''SpaceFan2024'', ''spacefan2024'',
       [], ''tech''),
      (''AI breakthrough: New machine learning model achieves 99% '' @
        ''accuracy in medical diagnosis. Healthcare will never be the '' @ ''same! '' @
        [CHR 0xF0, CHR 0x9F, CHR 0x8F, CHR 0xA5, CHR 0xF0, CHR 0x9F, CHR 0x92, CHR 0xA1] @
        '' #AI #HealthTech'',
       ''TechNews'', ''technews'',
       [], ''tech''),
      (''Crypto market is crashing again '' @ [CHR 0xF0, CHR 0x9F, CHR 0x93, CHR 0x89] @
        '' Bitcoin down 15% today. HODL or sell? This volatility is '' @
        ''insane! #Bitcoin #Crypto'',
       ''CryptoTrader'', ''cryptotrader'',
       [], ''finance''),
      (''Just tried the new iPhone 15 Pro Max camera. The photo '' @
        ''quality is absolutely incredible! Apple keeps raising the '' @ ''bar '' @
        [CHR 0xF0, CHR 0x9F, CHR 0x93, CHR 0xB8, CHR 0xE2, CHR 0x9C, CHR 0xA8] @
        '' #iPhone15 #Photography'',
       ''TechReviewer'', ''techreviewer'',
       [], ''tech''),
      (''Electric vehicle sales surged 40% this quarter! Tesla, '' @
        ''Ford, and GM leading the charge. Goodbye gas stations! '' @
        [CHR 0xE2, CHR 0x9A, CHR 0xA1, CHR 0xF0, CHR 0x9F, CHR 0x9A, CHR 0x97] @
        '' #EV #CleanEnergy'',
       ''GreenTech'', ''greentech'',
       [], ''eco'')]"

text \<open>
  \<^verbatim>\<open>get_fallback_tech_demo_tweets\<close>: \<open>rnd i\<close> gives entry \<open>i\<close>'s draws for
  retweets, likes, replies and the verification flag. There is no \<^verbatim>\<open>try\<close> around the
  call of \<^verbatim>\<open>analyze_sentiment\<close>.
\<close>

fun fallback_loop ::
  "estimator \<Rightarrow> (nat \<Rightarrow> string) \<Rightarrow> (nat \<Rightarrow> int \<times> int \<times> int \<times> bool) \<Rightarrow> nat \<Rightarrow>
   (string \<times> string \<times> string \<times> string list \<times> string) list \<Rightarrow>
   OceanHazardTweet_scarper list \<Rightarrow> sentiment_cache \<Rightarrow>
   error + OceanHazardTweet_scarper list \<times> sentiment_cache" where
  "fallback_loop TextBlob now rnd i [] tweets sentiment_cache = Inr (tweets, sentiment_cache)"
| "fallback_loop TextBlob now rnd i
     ((d_content, d_username, d_handle, d_keywords, d_category) # rest) tweets sentiment_cache =
     (case analyze_sentiment_scarper TextBlob sentiment_cache d_content of
        Inl e \<Rightarrow> Inl e
      | Inr ((score, label, conf), sentiment_cache') \<Rightarrow>
          (case rnd i of
             (r_retweets, r_likes, r_replies, r_verified) \<Rightarrow>
               (let tweet =
                      \<lparr>username = d_username,
                       handle = d_handle,
                       content = d_content,
                       timestamp = now i,
                       retweets = r_retweets,
                       likes = r_likes,
                       replies = r_replies,
                       tweet_id = ''fallback_'' @ format_03d (i + 1),
                       matched_keywords = d_keywords,
                       sentiment_score = score,
                       sentiment_label = label,
                       confidence = conf,
                       hazard_category = d_category,
                       source = ''FALLBACK_DEMO'',
                       location = None,
                       verified = r_verified\<rparr>
                in fallback_loop TextBlob now rnd (i + 1) rest (tweets @ [tweet])
                     sentiment_cache')))"

definition get_fallback_tech_demo_tweets_scarper ::
  "estimator \<Rightarrow> (nat \<Rightarrow> string) \<Rightarrow> (nat \<Rightarrow> int \<times> int \<times> int \<times> bool) \<Rightarrow> sentiment_cache \<Rightarrow>
   error + OceanHazardTweet_scarper list \<times> sentiment_cache" where
  "get_fallback_tech_demo_tweets_scarper TextBlob now rnd sentiment_cache =
     fallback_loop TextBlob now rnd 0 fallback_demo_data [] sentiment_cache"

section \<open>Report Aggregator\<close>

text \<open>
  The report is a nested Python dictionary; it is modelled as a JSON value whose
  dictionaries keep their insertion order.
\<close>

datatype json =
  JNull
| JBool bool
| JInt int
| JReal real
| JStr string
| JList "json list"
| JDict "(string \<times> json) list"

text \<open>\<^verbatim>\<open>j[k]\<close> when present, and a path of keys.\<close>

definition jget :: "json \<Rightarrow> string \<Rightarrow> json option" where
  "jget j k = (case j of JDict d \<Rightarrow> map_of d k | _ \<Rightarrow> None)"

fun jpath :: "json \<Rightarrow> string list \<Rightarrow> json option" where
  "jpath j [] = Some j"
| "jpath j (k # ks) = (case jget j k of None \<Rightarrow> None | Some j' \<Rightarrow> jpath j' ks)"

text \<open>
  \<^verbatim>\<open>collections.Counter\<close> over a sequence: a dictionary from each element to its
  number of occurrences, in order of first occurrence; \<^verbatim>\<open>most_common(n)\<close> is the
  first \<open>n\<close> items of a stable sort by decreasing count.
\<close>

fun counter_add :: "(string \<times> nat) list \<Rightarrow> string \<Rightarrow> (string \<times> nat) list" where
  "counter_add [] x = [(x, 1)]"
| "counter_add ((k, n) # c) x =
     (if k = x then (k, n + 1) # c else (k, n) # counter_add c x)"

definition Counter :: "string list \<Rightarrow> (string \<times> nat) list" where
  "Counter xs = fold (\<lambda>x c. counter_add c x) xs []"

definition most_common :: "nat \<Rightarrow> (string \<times> nat) list \<Rightarrow> (string \<times> nat) list" where
  "most_common n c = take n (sort_key (\<lambda>(k, cnt). - int cnt) c)"

text \<open>\<^verbatim>\<open>dict(counter)\<close> as a JSON dictionary.\<close>

definition json_of_counts :: "(string \<times> nat) list \<Rightarrow> json" where
  "json_of_counts c = JDict (map (\<lambda>(k, n). (k, JInt (int n))) c)"

text \<open>
  \<^verbatim>\<open>set(xs)\<close> as the sequence a loop over it visits. Python leaves the order open; the
  model takes one, and no statement below depends on it.
\<close>

definition py_set :: "string list \<Rightarrow> string list" where
  "py_set xs = remdups xs"

text \<open>
  The report computes with Python's floats: \<^verbatim>\<open>sum\<close> over floats, true division and
  \<^verbatim>\<open>round(x, ndigits)\<close>. These round to binary doubles, which is Python's doing and not
  the repository's, so they are parameters: a float is carried as the real number it
  denotes, and the three operations come as a record. The operations are total: scores
  and counts are taken in the range of the finite floats, where Python's operations
  return a float (no NaN, no infinity, no quotient of integers beyond the floats).
\<close>

record float_ops =
  float_sum :: "real list \<Rightarrow> real"
  float_div :: "real \<Rightarrow> real \<Rightarrow> real"
  float_round :: "real \<Rightarrow> nat \<Rightarrow> real"

text \<open>\<^verbatim>\<open>x / n\<close> with \<open>n\<close> a length: true division, \<^verbatim>\<open>ZeroDivisionError\<close> on zero.\<close>

definition py_div :: "float_ops \<Rightarrow> real \<Rightarrow> nat \<Rightarrow> error + real" where
  "py_div fl x n = (if n = 0 then Inl ZeroDivisionError else Inr (float_div fl x (real n)))"

text \<open>
  The operations without rounding error: the sum and the quotient of the reals, and the
  nearest multiple of \<open>10\<^sup>-\<^sup>n\<close>, a tie going to the even one. Python's operations give
  these values wherever the arguments and the value are doubles; they serve in the
  concrete runs below, which stay in that range.
\<close>

definition round_half_even :: "real \<Rightarrow> int" where
  "round_half_even x =
     (let f = \<lfloor>x\<rfloor>; d = x - of_int f
      in if d < 1 / 2 then f else if 1 / 2 < d then f + 1 else if even f then f else f + 1)"

definition exact_ops :: float_ops where
  "exact_ops =
     \<lparr>float_sum = sum_list,
      float_div = (\<lambda>x y. x / y),
      float_round = (\<lambda>x ndigits. of_int (round_half_even (x * 10 ^ ndigits)) / 10 ^ ndigits)\<rparr>"

text \<open>
  \<^verbatim>\<open>min(xs, key=f)\<close> and \<^verbatim>\<open>max(xs, key=f)\<close>: the first element with the least
  (greatest) key; \<^verbatim>\<open>ValueError\<close> on an empty sequence.
\<close>

fun py_min :: "('a \<Rightarrow> 'b::linorder) \<Rightarrow> 'a list \<Rightarrow> error + 'a" where
  "py_min f [] = Inl ValueError"
| "py_min f (x # xs) = Inr (fold (\<lambda>y best. if f y < f best then y else best) xs x)"

fun py_max :: "('a \<Rightarrow> 'b::linorder) \<Rightarrow> 'a list \<Rightarrow> error + 'a" where
  "py_max f [] = Inl ValueError"
| "py_max f (x # xs) = Inr (fold (\<lambda>y best. if f best < f y then y else best) xs x)"

text \<open>Sequencing of steps that may raise.\<close>

definition and_then :: "error + 'a \<Rightarrow> ('a \<Rightarrow> error + 'b) \<Rightarrow> error + 'b" where
  "and_then m f = (case m of Inl e \<Rightarrow> Inl e | Inr x \<Rightarrow> f x)"

subsection \<open>\<^verbatim>\<open>web_scraper.py\<close>\<close>

text \<open>The dictionary built for the posts of one category.\<close>

definition category_stats :: "float_ops \<Rightarrow> 'a OceanHazardTweet_scheme list \<Rightarrow> error + json" where
  "category_stats fl cat_tweets =
     and_then (py_div fl (float_sum fl (map sentiment_score cat_tweets)) (length cat_tweets))
       (\<lambda>avg_score.
     and_then (py_div fl (real_of_int (sum_list (map likes cat_tweets))) (length cat_tweets))
       (\<lambda>avg_likes.
     and_then (py_div fl (real_of_int (sum_list (map retweets cat_tweets))) (length cat_tweets))
       (\<lambda>avg_retweets.
     and_then (py_div fl (real_of_int (sum_list (map replies cat_tweets))) (length cat_tweets))
       (\<lambda>avg_replies.
     Inr (JDict
       [(''total_tweets'', JInt (int (length cat_tweets))),
        (''sentiment_distribution'', json_of_counts (Counter (map sentiment_label cat_tweets))),
        (''avg_sentiment_score'', JReal (float_round fl avg_score 3)),
        (''avg_engagement'', JDict
           [(''likes'', JReal (float_round fl avg_likes 1)),
            (''retweets'', JReal (float_round fl avg_retweets 1)),
            (''replies'', JReal (float_round fl avg_replies 1))])])))))"

fun categories_loop ::
  "float_ops \<Rightarrow> 'a OceanHazardTweet_scheme list \<Rightarrow> string list \<Rightarrow>
   (string \<times> json) list \<Rightarrow> error + (string \<times> json) list" where
  "categories_loop fl tweets [] categories = Inr categories"
| "categories_loop fl tweets (category # rest) categories =
     (let cat_tweets = [t \<leftarrow> tweets. hazard_category t = category] in
      and_then (category_stats fl cat_tweets)
        (\<lambda>stats. categories_loop fl tweets rest (dict_put categories category stats)))"

definition generate_sentiment_report ::
  "float_ops \<Rightarrow> 'a OceanHazardTweet_scheme list \<Rightarrow> error + json" where
  "generate_sentiment_report fl tweets =
     (if tweets = [] then Inr (JDict [(''error'', JStr ''No tweets to analyze'')])
      else
        (let sentiment_counts = Counter (map sentiment_label tweets) in
         and_then (categories_loop fl tweets (py_set (map hazard_category tweets)) [])
           (\<lambda>categories.
         (let all_keywords = concat (map matched_keywords tweets);
              keyword_counts = Counter all_keywords in
         and_then (py_min sentiment_score tweets) (\<lambda>most_negative.
         and_then (py_max sentiment_score tweets) (\<lambda>most_positive.
         and_then (py_max (\<lambda>t. likes t + retweets t) tweets) (\<lambda>most_engaging.
         and_then (py_div fl (float_sum fl (map sentiment_score tweets)) (length tweets)) (\<lambda>avg_score.
         Inr (JDict
           [(''summary'', JDict
               [(''total_tweets'', JInt (int (length tweets))),
                (''sentiment_distribution'', json_of_counts sentiment_counts),
                (''avg_sentiment_score'', JReal (float_round fl avg_score 3)),
                (''total_engagement'', JDict
                   [(''likes'', JInt (sum_list (map likes tweets))),
                    (''retweets'', JInt (sum_list (map retweets tweets))),
                    (''replies'', JInt (sum_list (map replies tweets)))])]),
            (''by_hazard_category'', JDict categories),
            (''top_keywords'', json_of_counts (most_common 15 keyword_counts)),
            (''notable_tweets'', JDict
               [(''most_negative'', JDict
                   [(''content'', JStr (content most_negative)),
                    (''score'', JReal (sentiment_score most_negative)),
                    (''category'', JStr (hazard_category most_negative)),
                    (''handle'', JStr (handle most_negative))]),
                (''most_positive'', JDict
                   [(''content'', JStr (content most_positive)),
                    (''score'', JReal (sentiment_score most_positive)),
                    (''category'', JStr (hazard_category most_positive)),
                    (''handle'', JStr (handle most_positive))]),
                (''most_engaging'', JDict
                   [(''content'', JStr (content most_engaging)),
                    (''likes'', JInt (likes most_engaging)),
                    (''retweets'', JInt (retweets most_engaging)),
                    (''category'', JStr (hazard_category most_engaging)),
                    (''handle'', JStr (handle most_engaging))])])])))))))))"

subsection \<open>\<^verbatim>\<open>web_scarper.py\<close>\<close>

text \<open>\<^verbatim>\<open>dataclasses.asdict\<close> of a post.\<close>

definition asdict :: "OceanHazardTweet_scarper \<Rightarrow> json" where
  "asdict t =
     JDict
       [(''username'', JStr (username t)),
        (''handle'', JStr (handle t)),
        (''content'', JStr (content t)),
        (''timestamp'', JStr (timestamp t)),
        (''retweets'', JInt (retweets t)),
        (''likes'', JInt (likes t)),
        (''replies'', JInt (replies t)),
        (''tweet_id'', JStr (tweet_id t)),
        (''matched_keywords'', JList (map JStr (matched_keywords t))),
        (''sentiment_score'', JReal (sentiment_score t)),
        (''sentiment_label'', JStr (sentiment_label t)),
        (''confidence'', JReal (confidence t)),
        (''hazard_category'', JStr (hazard_category t)),
        (''source'', JStr (source t)),
        (''location'', (case location t of None \<Rightarrow> JNull | Some l \<Rightarrow> JStr l)),
        (''verified'', JBool (verified t))]"

definition category_stats_scarper ::
  "float_ops \<Rightarrow> 'a OceanHazardTweet_scheme list \<Rightarrow> error + json" where
  "category_stats_scarper fl cat_tweets =
     and_then (py_div fl (float_sum fl (map sentiment_score cat_tweets)) (length cat_tweets))
       (\<lambda>avg_score.
     and_then (py_div fl (real_of_int (sum_list (map likes cat_tweets))) (length cat_tweets))
       (\<lambda>avg_likes.
     and_then (py_div fl (real_of_int (sum_list (map retweets cat_tweets))) (length cat_tweets))
       (\<lambda>avg_retweets.
     Inr (JDict
       [(''total_tweets'', JInt (int (length cat_tweets))),
        (''sentiment_distribution'', json_of_counts (Counter (map sentiment_label cat_tweets))),
        (''avg_sentiment_score'', JReal (float_round fl avg_score 3)),
        (''avg_engagement'', JDict
           [(''likes'', JReal (float_round fl avg_likes 1)),
            (''retweets'', JReal (float_round fl avg_retweets 1))])]))))"

fun categories_loop_scarper ::
  "float_ops \<Rightarrow> 'a OceanHazardTweet_scheme list \<Rightarrow> string list \<Rightarrow>
   (string \<times> json) list \<Rightarrow> error + (string \<times> json) list" where
  "categories_loop_scarper fl tweets [] categories = Inr categories"
| "categories_loop_scarper fl tweets (category # rest) categories =
     (let cat_tweets = [t \<leftarrow> tweets. hazard_category t = category] in
      if cat_tweets = [] then categories_loop_scarper fl tweets rest categories
      else
        and_then (category_stats_scarper fl cat_tweets)
          (\<lambda>stats. categories_loop_scarper fl tweets rest (dict_put categories category stats)))"

definition generate_sentiment_report_scarper ::
  "float_ops \<Rightarrow> OceanHazardTweet_scarper list \<Rightarrow> error + json" where
  "generate_sentiment_report_scarper fl tweets =
     (if tweets = [] then Inr (JDict [(''error'', JStr ''No tweets to analyze'')])
      else
        (let sentiment_counts = Counter (map sentiment_label tweets) in
         and_then (categories_loop_scarper fl tweets (py_set (map hazard_category tweets)) [])
           (\<lambda>categories.
         (let all_keywords = concat (map matched_keywords tweets) in
         and_then (py_min sentiment_score tweets) (\<lambda>most_negative.
         and_then (py_max sentiment_score tweets) (\<lambda>most_positive.
         and_then (py_max (\<lambda>t. likes t + retweets t) tweets) (\<lambda>most_engaging.
         and_then (py_div fl (float_sum fl (map sentiment_score tweets)) (length tweets)) (\<lambda>avg_score.
         Inr (JDict
           [(''summary'', JDict
               [(''total_tweets'', JInt (int (length tweets))),
                (''sentiment_distribution'', json_of_counts sentiment_counts),
                (''avg_sentiment_score'', JReal (float_round fl avg_score 3))]),
            (''by_hazard_category'', JDict categories),
            (''top_keywords'', json_of_counts (most_common 15 (Counter all_keywords))),
            (''notable_tweets'', JDict
               [(''most_negative'', asdict most_negative),
                (''most_positive'', asdict most_positive),
                (''most_engaging'', asdict most_engaging)])])))))))))"

section \<open>Predicates used in the statements\<close>

text \<open>The sentiment triple a post carries.\<close>

definition tweet_sentiment :: "'a OceanHazardTweet_scheme \<Rightarrow> sentiment" where
  "tweet_sentiment t = (sentiment_score t, sentiment_label t, confidence t)"

text \<open>
  The label agrees with the score for a threshold: positive exactly above it, negative
  exactly below its negation, neutral exactly in between.
\<close>

definition label_coherent :: "real \<Rightarrow> sentiment \<Rightarrow> bool" where
  "label_coherent threshold r =
     (case r of
        (score, label, conf) \<Rightarrow>
          (label = ''positive'') = (score > threshold) \<and>
          (label = ''negative'') = (score < - threshold) \<and>
          (label = ''neutral'') = (\<not> score > threshold \<and> \<not> score < - threshold))"

text \<open>Every triple a cache holds has a property.\<close>

definition cache_all :: "(sentiment \<Rightarrow> bool) \<Rightarrow> sentiment_cache \<Rightarrow> bool" where
  "cache_all P sentiment_cache = (\<forall>k r. sentiment_cache k = Some r \<longrightarrow> P r)"

text \<open>
  An element is the first one of a sequence with the least (greatest) key: the elements
  before it have a strictly greater (less) key, those after it none less (greater).
\<close>

definition first_least :: "('a \<Rightarrow> 'b::linorder) \<Rightarrow> 'a list \<Rightarrow> 'a \<Rightarrow> bool" where
  "first_least f xs m =
     (\<exists>before after. xs = before @ m # after \<and>
        (\<forall>x \<in> set before. f m < f x) \<and> (\<forall>x \<in> set after. f m \<le> f x))"

definition first_greatest :: "('a \<Rightarrow> 'b::linorder) \<Rightarrow> 'a list \<Rightarrow> 'a \<Rightarrow> bool" where
  "first_greatest f xs m =
     (\<exists>before after. xs = before @ m # after \<and>
        (\<forall>x \<in> set before. f x < f m) \<and> (\<forall>x \<in> set after. f x \<le> f m))"

text \<open>Polarity and confidence lie in their ranges.\<close>

definition in_bounds :: "sentiment \<Rightarrow> bool" where
  "in_bounds r =
     (case r of (score, label, conf) \<Rightarrow> - 1 \<le> score \<and> score \<le> 1 \<and> 0 \<le> conf \<and> conf \<le> 1)"

section \<open>Properties of the string operations\<close>

lemma str_in_sublist: "str_in needle haystack = sublist needle haystack"
  by (induction haystack) (auto simp: sublist_Cons_right)

lemma matching_loop_filter:
  "matching_loop L t ks acc = acc @ filter (\<lambda>kw. sublist (L kw) t) ks"
  by (induction ks arbitrary: acc) (simp_all add: str_in_sublist)

lemma vocabulary_distinct: "distinct (KEYWORDS @ EXTENDED_KEYWORDS)"
  by (simp add: KEYWORDS_def EXTENDED_KEYWORDS_def)

section \<open>Keyword Matcher: the matches, in vocabulary order\<close>

text \<open>
  C1. Whatever function lower-cases strings (Python's \<^verbatim>\<open>str.lower\<close> in the program), in
  both files the matcher returns, for every text, the vocabulary entries (primary keywords,
  then extended ones, in that order) whose lower-casing is a contiguous part of the
  lower-cased text, and no others; no entry comes twice; the result is empty exactly when
  no entry occurs. When lower-casing leaves every vocabulary entry as it is (the entries
  are written in lower case), these are the entries that are a contiguous part of the
  lower-cased text. For the empty text the result is empty as soon as lower-casing keeps
  the empty string empty and no vocabulary entry becomes empty. The function is total: it
  has a result on every text.
\<close>

theorem find_matching_keywords_exact:
  "find_matching_keywords str_lower text =
     filter (\<lambda>kw. sublist (str_lower kw) (str_lower text)) (KEYWORDS @ EXTENDED_KEYWORDS) \<and>
   find_matching_keywords_scarper str_lower text = find_matching_keywords str_lower text \<and>
   distinct (find_matching_keywords str_lower text) \<and>
   (find_matching_keywords str_lower text = []) =
     (\<not> list_ex (\<lambda>kw. sublist (str_lower kw) (str_lower text))
          (KEYWORDS @ EXTENDED_KEYWORDS)) \<and>
   (list_all (\<lambda>kw. str_lower kw = kw) (KEYWORDS @ EXTENDED_KEYWORDS) \<longrightarrow>
      find_matching_keywords str_lower text =
        filter (\<lambda>kw. sublist kw (str_lower text)) (KEYWORDS @ EXTENDED_KEYWORDS)) \<and>
   (str_lower [] = [] \<and> \<not> list_ex (\<lambda>kw. str_lower kw = []) (KEYWORDS @ EXTENDED_KEYWORDS) \<longrightarrow>
      find_matching_keywords str_lower [] = [])"
proof -
  let ?P = "\<lambda>t kw. sublist (str_lower kw) (str_lower t)"
  let ?V = "KEYWORDS @ EXTENDED_KEYWORDS"
  have a: "find_matching_keywords str_lower t = filter (?P t) ?V" for t
    by (simp add: find_matching_keywords_def matching_loop_filter)
  have b: "find_matching_keywords_scarper str_lower text = find_matching_keywords str_lower text"
    by (simp add: a find_matching_keywords_scarper_def str_in_sublist)
  have c: "distinct (find_matching_keywords str_lower text)"
    unfolding a using vocabulary_distinct by (rule distinct_filter)
  have d: "(find_matching_keywords str_lower text = []) = (\<not> list_ex (?P text) ?V)"
    unfolding a by (auto simp add: filter_empty_conv list_ex_iff)
  have e: "find_matching_keywords str_lower [] = []"
    if "str_lower [] = [] \<and> \<not> list_ex (\<lambda>kw. str_lower kw = []) ?V"
  proof -
    from that have "\<not> sublist (str_lower kw) (str_lower [])" if "kw \<in> set ?V" for kw
      using that by (auto simp: list_ex_iff)
    then show ?thesis
      unfolding a by (simp add: filter_empty_conv)
  qed
  have f: "find_matching_keywords str_lower text = filter (\<lambda>kw. sublist kw (str_lower text)) ?V"
    if "list_all (\<lambda>kw. str_lower kw = kw) ?V"
    unfolding a by (rule filter_cong) (use that in \<open>simp_all add: list_all_iff\<close>)
  from a [of "text"] b c d e f show ?thesis
    by blast
qed

text \<open>
  With the ASCII lower-casing, on ASCII texts; and with a lower-casing that, as Python's
  does, turns the two bytes of U+0130 into \<open>i\<close> and the two bytes of U+0307: the
  upper-case Turkish spelling is matched.
\<close>

theorem find_matching_keywords_exact_witness:
  "find_matching_keywords lower ''TSUNAMI warning: Coastal Flooding!'' =
     [''tsunami'', ''flood'', ''coastal flooding''] \<and>
   find_matching_keywords_scarper lower ''TSUNAMI warning: Coastal Flooding!'' =
     [''tsunami'', ''flood'', ''coastal flooding''] \<and>
   filter (\<lambda>kw. sublist (lower kw) (lower ''TSUNAMI warning: Coastal Flooding!''))
     (KEYWORDS @ EXTENDED_KEYWORDS) = [''tsunami'', ''flood'', ''coastal flooding''] \<and>
   list_all (\<lambda>kw. lower kw = kw) (KEYWORDS @ EXTENDED_KEYWORDS) \<and>
   filter (\<lambda>kw. sublist kw (lower ''TSUNAMI warning: Coastal Flooding!''))
     (KEYWORDS @ EXTENDED_KEYWORDS) = [''tsunami'', ''flood'', ''coastal flooding''] \<and>
   find_matching_keywords lower ''A calm day at the beach'' = [] \<and>
   lower [] = [] \<and> \<not> list_ex (\<lambda>kw. lower kw = []) (KEYWORDS @ EXTENDED_KEYWORDS) \<and>
   find_matching_keywords lower [] = [] \<and>
   find_matching_keywords_scarper
     (\<lambda>s. if s = ''TSUNAM'' @ [CHR 0xC4, CHR 0xB0] @ '' uyarisi''
          then ''tsunami'' @ [CHR 0xCC, CHR 0x87] @ '' uyarisi'' else lower s)
     (''TSUNAM'' @ [CHR 0xC4, CHR 0xB0] @ '' uyarisi'') = [''tsunami'']"
proof -
  let ?L = "\<lambda>s. if s = ''TSUNAM'' @ [CHR 0xC4, CHR 0xB0] @ '' uyarisi''
          then ''tsunami'' @ [CHR 0xCC, CHR 0x87] @ '' uyarisi'' else lower s"
  have e: "find_matching_keywords lower ''TSUNAMI warning: Coastal Flooding!'' =
      [''tsunami'', ''flood'', ''coastal flooding'']"
    and n: "find_matching_keywords lower ''A calm day at the beach'' = []"
    and l: "lower [] = []"
    and v: "\<not> list_ex (\<lambda>kw. lower kw = []) (KEYWORDS @ EXTENDED_KEYWORDS)"
    and u: "list_all (\<lambda>kw. lower kw = kw) (KEYWORDS @ EXTENDED_KEYWORDS)"
    and t: "find_matching_keywords ?L (''TSUNAM'' @ [CHR 0xC4, CHR 0xB0] @ '' uyarisi'') =
      [''tsunami'']"
    by code_simp+
  from find_matching_keywords_exact [of lower "''TSUNAMI warning: Coastal Flooding!''"] e
  have 1: "find_matching_keywords_scarper lower ''TSUNAMI warning: Coastal Flooding!'' =
       [''tsunami'', ''flood'', ''coastal flooding'']"
    and 2: "filter (\<lambda>kw. sublist (lower kw) (lower ''TSUNAMI warning: Coastal Flooding!''))
       (KEYWORDS @ EXTENDED_KEYWORDS) = [''tsunami'', ''flood'', ''coastal flooding'']"
    by simp_all
  from find_matching_keywords_exact [of lower "''TSUNAMI warning: Coastal Flooding!''",
      THEN conjunct2, THEN conjunct2, THEN conjunct2, THEN conjunct2, THEN conjunct1,
      THEN mp, OF u]
  have 5: "filter (\<lambda>kw. sublist kw (lower ''TSUNAMI warning: Coastal Flooding!''))
       (KEYWORDS @ EXTENDED_KEYWORDS) = [''tsunami'', ''flood'', ''coastal flooding'']"
    unfolding e by (rule sym)
  from find_matching_keywords_exact [of lower] l v
  have 3: "find_matching_keywords lower [] = []"
    by blast
  from find_matching_keywords_exact [of ?L "''TSUNAM'' @ [CHR 0xC4, CHR 0xB0] @ '' uyarisi''"] t
  have 4: "find_matching_keywords_scarper ?L (''TSUNAM'' @ [CHR 0xC4, CHR 0xB0] @ '' uyarisi'') =
      [''tsunami'']"
    by simp
  from e 1 2 u 5 n l v 3 4 show ?thesis
    by blast
qed

section \<open>Hazard Categorizer: the first category in scan order\<close>

lemma cat_keyword_loop_iff:
  "cat_keyword_loop kl cks = (\<exists>ck \<in> set cks. \<exists>kw \<in> set kl. sublist (lower ck) kw)"
  by (induction cks) (simp_all add: list_ex_iff str_in_sublist)

lemma category_hit_code [code]:
  "category_hit keywords category =
     (case map_of hazard_categories category of
        None \<Rightarrow> False
      | Some cks \<Rightarrow> cat_keyword_loop (map lower keywords) cks)"
  by (auto simp: category_hit_def cat_keyword_loop_iff split: option.splits)

lemma category_member_code [code]:
  "category_member keywords category =
     (case map_of hazard_categories category of
        None \<Rightarrow> False
      | Some cks \<Rightarrow> list_ex (\<lambda>kw. kw \<in> set cks) keywords)"
  by (auto simp: category_member_def list_ex_iff split: option.splits)

lemma category_loop_find:
  "set cats \<subseteq> fst ` set hazard_categories \<Longrightarrow>
   category_loop (map lower keywords) cats = Inr (find (category_hit keywords) cats)"
proof (induction cats)
  case Nil
  show ?case by simp
next
  case (Cons c cats)
  from Cons.prems obtain cks where c: "map_of hazard_categories c = Some cks"
    by (cases "map_of hazard_categories c") (auto simp: map_of_eq_None_iff)
  from Cons show ?case
    by (simp add: c category_hit_code)
qed

lemma category_priority_known: "set category_priority \<subseteq> fst ` set hazard_categories"
  by (simp add: category_priority_def hazard_categories_def)

lemma items_loop_find:
  "distinct (map fst items) \<Longrightarrow>
   items_loop items keywords =
     (case find (\<lambda>c. \<exists>cks. map_of items c = Some cks \<and> list_ex (\<lambda>kw. kw \<in> set cks) keywords)
             (map fst items) of
        Some c \<Rightarrow> c
      | None \<Rightarrow> ''general'')"
proof (induction items)
  case Nil
  show ?case by simp
next
  case (Cons item items)
  obtain c cks where item: "item = (c, cks)" by (cases item)
  from Cons.prems have fresh: "c \<notin> fst ` set items" and d: "distinct (map fst items)"
    by (auto simp: item)
  have same:
    "find (\<lambda>k. \<exists>v. map_of (item # items) k = Some v \<and> list_ex (\<lambda>kw. kw \<in> set v) keywords)
       (map fst items) =
     find (\<lambda>k. \<exists>v. map_of items k = Some v \<and> list_ex (\<lambda>kw. kw \<in> set v) keywords)
       (map fst items)"
    using fresh by (intro find_cong) (auto simp: item)
  have hd: "(\<exists>v. map_of (item # items) c = Some v \<and> list_ex (\<lambda>kw. kw \<in> set v) keywords)
      = list_ex (\<lambda>kw. kw \<in> set cks) keywords"
    by (simp add: item)
  show ?case
    unfolding list.map find.simps same hd
    using Cons.IH [OF d] by (simp add: item)
qed

text \<open>
  C2, as amended. \<^verbatim>\<open>web_scraper.py\<close> scans tsunami, storms, flooding, pollution,
  erosion, currents, climate, general and returns the first category that is hit
  (case-insensitive containment); when none is hit it returns general for a non-empty
  sequence and unknown for the empty one, and it never raises. \<^verbatim>\<open>web_scarper.py\<close>
  scans the dictionary in insertion order (erosion before pollution), takes a category
  only when a matched keyword equals one of its keywords, and returns general when none
  does.
\<close>

theorem categorize_hazard_first_in_scan_order:
  "categorize_hazard keywords =
     Inr (case find (category_hit keywords)
                 [''tsunami'', ''storms'', ''flooding'', ''pollution'', ''erosion'',
                  ''currents'', ''climate'', ''general''] of
            Some category \<Rightarrow> category
          | None \<Rightarrow> if keywords \<noteq> [] then ''general'' else ''unknown'') \<and>
   categorize_hazard_scarper keywords =
     (case find (category_member keywords)
             [''tsunami'', ''storms'', ''flooding'', ''erosion'', ''pollution'',
              ''currents'', ''climate'', ''general''] of
        Some category \<Rightarrow> category
      | None \<Rightarrow> ''general'')"
proof
  have "category_loop (map lower keywords) category_priority =
      Inr (find (category_hit keywords) category_priority)"
    using category_priority_known by (rule category_loop_find)
  then show "categorize_hazard keywords =
     Inr (case find (category_hit keywords)
                 [''tsunami'', ''storms'', ''flooding'', ''pollution'', ''erosion'',
                  ''currents'', ''climate'', ''general''] of
            Some category \<Rightarrow> category
          | None \<Rightarrow> if keywords \<noteq> [] then ''general'' else ''unknown'')"
    unfolding categorize_hazard_def Let_def
    by (simp add: category_priority_def split: option.splits)
next
  have keys: "map fst hazard_categories =
      [''tsunami'', ''storms'', ''flooding'', ''erosion'', ''pollution'',
       ''currents'', ''climate'', ''general'']"
    by (simp add: hazard_categories_def)
  have d: "distinct (map fst hazard_categories)"
    unfolding keys by simp
  have m: "(\<lambda>c. \<exists>cks. map_of hazard_categories c = Some cks \<and>
                list_ex (\<lambda>kw. kw \<in> set cks) keywords) = category_member keywords"
    by (rule ext) (simp add: category_member_def list_ex_iff)
  show "categorize_hazard_scarper keywords =
     (case find (category_member keywords)
             [''tsunami'', ''storms'', ''flooding'', ''erosion'', ''pollution'',
              ''currents'', ''climate'', ''general''] of
        Some category \<Rightarrow> category
      | None \<Rightarrow> ''general'')"
    unfolding categorize_hazard_scarper_def items_loop_find [OF d] m keys ..
qed

theorem categorize_hazard_first_in_scan_order_witness:
  "categorize_hazard [''coastal flooding'', ''storm damage''] = Inr ''storms'' \<and>
   find (category_hit [''coastal flooding'', ''storm damage''])
     [''tsunami'', ''storms'', ''flooding'', ''pollution'', ''erosion'',
      ''currents'', ''climate'', ''general''] = Some ''storms'' \<and>
   categorize_hazard_scarper [''coastal flooding'', ''storm damage''] = ''storms''"
proof -
  let ?ks = "[''coastal flooding'', ''storm damage'']"
  have f: "find (category_hit ?ks)
     [''tsunami'', ''storms'', ''flooding'', ''pollution'', ''erosion'',
      ''currents'', ''climate'', ''general''] = Some ''storms''"
    by code_simp
  have g: "find (category_member ?ks)
     [''tsunami'', ''storms'', ''flooding'', ''erosion'', ''pollution'',
      ''currents'', ''climate'', ''general''] = Some ''storms''"
    by code_simp
  from categorize_hazard_first_in_scan_order [of ?ks] f g show ?thesis
    by simp
qed

text \<open>
  On the matches of a text that names coastal erosion and marine pollution, the first hit
  in priority order is pollution, and \<^verbatim>\<open>web_scarper.py\<close> answers erosion.
\<close>

theorem categorize_hazard_scarper_counterexample:
  "find_matching_keywords_scarper lower ''Coastal erosion and marine pollution'' =
     [''coastal erosion'', ''marine pollution''] \<and>
   find (category_hit [''coastal erosion'', ''marine pollution''])
     [''tsunami'', ''storms'', ''flooding'', ''pollution'', ''erosion'',
      ''currents'', ''climate'', ''general''] = Some ''pollution'' \<and>
   categorize_hazard_scarper [''coastal erosion'', ''marine pollution''] = ''erosion''"
  by code_simp

section \<open>Sentiment Scorer: what every returned and every cached triple satisfies\<close>

lemma cache_all_empty: "cache_all P Map.empty"
  by (simp add: cache_all_def)

lemma cache_all_update: "cache_all P c \<Longrightarrow> P r \<Longrightarrow> cache_all P (c(k \<mapsto> r))"
  unfolding cache_all_def by (simp del: split_paired_All)

lemma cache_all_lookup: "cache_all P c \<Longrightarrow> c k = Some r \<Longrightarrow> P r"
  unfolding cache_all_def by blast

lemma analyze_sentiment_inv:
  assumes "cache_all P c" and "P (- 0.2, ''negative'', 0.6)"
    and "\<And>p. P (analyze_sentiment_try p text)"
  shows "P (fst (analyze_sentiment tb c text)) \<and> cache_all P (snd (analyze_sentiment tb c text))"
proof (cases "c (strip (lower text))")
  case None
  with assms show ?thesis
    by (cases "tb text") (simp_all add: analyze_sentiment_def Let_def cache_all_update)
next
  case (Some r)
  with assms cache_all_lookup [OF assms(1) Some] show ?thesis
    by (simp add: analyze_sentiment_def Let_def)
qed

lemma reachable_cache_all:
  assumes "reachable_cache c" and "P (- 0.2, ''negative'', 0.6)"
    and "\<And>p text. P (analyze_sentiment_try p text)"
  shows "cache_all P c"
  using assms(1)
proof (induction rule: reachable_cache.induct)
  case fresh
  show ?case by (rule cache_all_empty)
next
  case (call c tb s)
  with assms(2,3) show ?case by (simp add: analyze_sentiment_inv)
qed

lemma analyze_sentiment_scarper_inv:
  assumes "cache_all P c" and "\<And>p. P (analyze_sentiment_try_scarper p text)"
    and "analyze_sentiment_scarper tb c text = Inr (r, c')"
  shows "P r \<and> cache_all P c'"
proof (cases "c (strip (lower text))")
  case None
  with assms show ?thesis
    by (cases "tb text") (auto simp: analyze_sentiment_scarper_def Let_def cache_all_update)
next
  case (Some r')
  with assms cache_all_lookup [OF assms(1) Some] show ?thesis
    by (auto simp: analyze_sentiment_scarper_def Let_def)
qed

lemma reachable_cache_scarper_all:
  assumes "reachable_cache_scarper c"
    and "\<And>p text. P (analyze_sentiment_try_scarper p text)"
  shows "cache_all P c"
  using assms(1)
proof (induction rule: reachable_cache_scarper.induct)
  case fresh_scarper
  show ?case by (rule cache_all_empty)
next
  case (call_scarper c tb s r c')
  with assms(2) analyze_sentiment_scarper_inv [of P c s tb r c'] show ?case by simp
qed

lemma label_rule_coherent:
  "0 \<le> thr \<Longrightarrow>
   label_coherent thr
     (x, if thr < x then ''positive'' else if x < - thr then ''negative'' else ''neutral'', c)"
  by (auto simp: label_coherent_def)

lemma try_coherent: "label_coherent 0.15 (analyze_sentiment_try p text)"
  unfolding analyze_sentiment_try_def Let_def by (rule label_rule_coherent) simp

lemma try_scarper_coherent: "label_coherent 0.1 (analyze_sentiment_try_scarper p text)"
  unfolding analyze_sentiment_try_scarper_def Let_def by (rule label_rule_coherent) simp

lemma fallback_coherent: "label_coherent 0.15 (- 0.2, ''negative'', 0.6)"
  by (simp add: label_coherent_def)

lemma try_bounds: "in_bounds (analyze_sentiment_try p text)"
  by (simp add: in_bounds_def analyze_sentiment_try_def Let_def)

lemma try_scarper_bounds: "in_bounds (analyze_sentiment_try_scarper p text)"
  by (simp add: in_bounds_def analyze_sentiment_try_scarper_def Let_def)

lemma demo_loop_inv:
  assumes fb: "P (- 0.2, ''negative'', 0.6)" and tr: "\<And>p s. P (analyze_sentiment_try p s)"
    and new: "\<And>t d_content d_username d_handle d_keywords d_category.
      (d_content, d_username, d_handle, d_keywords, d_category) \<in> D \<Longrightarrow>
      P (tweet_sentiment t) \<Longrightarrow> content t = d_content \<Longrightarrow>
      matched_keywords t = d_keywords \<Longrightarrow> hazard_category t = d_category \<Longrightarrow> Q t"
  shows "set ds \<subseteq> D \<Longrightarrow> cache_all P c \<Longrightarrow> \<forall>t \<in> set tweets. Q t \<Longrightarrow>
     (\<forall>t \<in> set (fst (demo_loop tb now rnd i ds tweets c)). Q t) \<and>
     cache_all P (snd (demo_loop tb now rnd i ds tweets c))"
proof (induction ds arbitrary: i tweets c)
  case Nil
  then show ?case by simp
next
  case (Cons d ds)
  obtain d_content d_username d_handle d_keywords d_category
    where d: "d = (d_content, d_username, d_handle, d_keywords, d_category)"
    by (cases d)
  obtain score label conf c'
    where a: "analyze_sentiment tb c d_content = ((score, label, conf), c')"
    by (metis prod.exhaust)
  obtain b u1 u2 u3 where r: "rnd i = (b, u1, u2, u3)"
    by (metis prod.exhaust)
  from analyze_sentiment_inv [OF Cons.prems(2) fb tr, of tb d_content] a
  have P: "P (score, label, conf)" and c': "cache_all P c'"
    by simp_all
  from Cons.prems(1) have in_D: "(d_content, d_username, d_handle, d_keywords, d_category) \<in> D"
    and rest: "set ds \<subseteq> D"
    by (simp_all add: d)
  show ?case
    unfolding d demo_loop.simps a r prod.case Let_def
    by (rule Cons.IH [OF rest c'])
      (use Cons.prems(3) P in \<open>simp add: new [OF in_D] tweet_sentiment_def\<close>)
qed

lemma demo_loop_length:
  "length (fst (demo_loop tb now rnd i ds tweets c)) = length tweets + length ds"
proof (induction ds arbitrary: i tweets c)
  case Nil
  show ?case by simp
next
  case (Cons d ds)
  obtain d_content d_username d_handle d_keywords d_category
    where d: "d = (d_content, d_username, d_handle, d_keywords, d_category)"
    by (cases d)
  obtain score label conf c'
    where a: "analyze_sentiment tb c d_content = ((score, label, conf), c')"
    by (metis prod.exhaust)
  obtain b u1 u2 u3 where r: "rnd i = (b, u1, u2, u3)"
    by (metis prod.exhaust)
  show ?case
    unfolding d demo_loop.simps a r prod.case Let_def Cons.IH by simp
qed

lemma raw_tweets_loop_inv:
  assumes tr: "\<And>p s. P (analyze_sentiment_try_scarper p s)"
    and new: "\<And>t. P (tweet_sentiment t) \<Longrightarrow>
      matched_keywords t = find_matching_keywords_scarper lower (content t) \<Longrightarrow>
      matched_keywords t \<noteq> [] \<Longrightarrow>
      hazard_category t = categorize_hazard_scarper (matched_keywords t) \<Longrightarrow> Q t"
  shows "cache_all P c \<Longrightarrow> \<forall>t \<in> set tweets. Q t \<Longrightarrow>
     (\<forall>t \<in> set (fst (raw_tweets_loop tb raws tweets c)). Q t) \<and>
     cache_all P (snd (raw_tweets_loop tb raws tweets c))"
proof (induction raws arbitrary: tweets c)
  case Nil
  then show ?case by simp
next
  case (Cons raw raws)
  show ?case
  proof (cases "find_matching_keywords_scarper lower (raw_content raw) = []")
    case True
    with Cons show ?thesis by simp
  next
    case False
    show ?thesis
    proof (cases "analyze_sentiment_scarper tb c (raw_content raw)")
      case (Inl e)
      with False Cons.prems show ?thesis by simp
    next
      case (Inr x)
      obtain score label conf c' where x: "x = ((score, label, conf), c')"
        by (metis prod.exhaust)
      from analyze_sentiment_scarper_inv [OF Cons.prems(1) tr Inr [unfolded x]]
      have P: "P (score, label, conf)" and c': "cache_all P c'"
        by simp_all
      show ?thesis
        unfolding raw_tweets_loop.simps Let_def Inr x using False
        by simp (rule Cons.IH [OF c'], use Cons.prems(2) P False in \<open>simp add: new tweet_sentiment_def\<close>)
    qed
  qed
qed

lemma keyword_loop_inv:
  assumes tr: "\<And>p s. P (analyze_sentiment_try_scarper p s)"
    and new: "\<And>t. P (tweet_sentiment t) \<Longrightarrow>
      matched_keywords t = find_matching_keywords_scarper lower (content t) \<Longrightarrow>
      matched_keywords t \<noteq> [] \<Longrightarrow>
      hazard_category t = categorize_hazard_scarper (matched_keywords t) \<Longrightarrow> Q t"
  shows "cache_all P c \<Longrightarrow> \<forall>t \<in> set tweets. Q t \<Longrightarrow>
     (\<forall>t \<in> set (fst (keyword_loop scrape tb n kws tweets c)). Q t) \<and>
     cache_all P (snd (keyword_loop scrape tb n kws tweets c))"
proof (induction kws arbitrary: tweets c)
  case Nil
  then show ?case by simp
next
  case (Cons kw kws)
  show ?case
  proof (cases "scrape kw n")
    case None
    with Cons show ?thesis by simp
  next
    case (Some raws)
    obtain tweets' c' where l: "raw_tweets_loop tb raws tweets c = (tweets', c')"
      by (metis prod.exhaust)
    from raw_tweets_loop_inv [of P Q, OF tr new Cons.prems, of tb raws] l
    have "\<forall>t \<in> set tweets'. Q t" and "cache_all P c'"
      by simp_all
    from Cons.IH [OF this(2) this(1)] show ?thesis
      by (simp add: Some l)
  qed
qed

lemma dict_put_values: "snd ` set (dict_put d k v) \<subseteq> insert v (snd ` set d)"
  by (induction d k v rule: dict_put.induct) auto

lemma fold_dict_put_values:
  "snd ` set (fold (\<lambda>t d. dict_put d (h t) t) ts d) \<subseteq> snd ` set d \<union> set ts"
proof (induction ts arbitrary: d)
  case Nil
  show ?case by simp
next
  case (Cons t ts)
  from Cons.IH [of "dict_put d (h t) t"] dict_put_values [of d "h t" t]
  show ?case by auto
qed

lemma search_ocean_hazards_scarper_inv:
  assumes tr: "\<And>p s. P (analyze_sentiment_try_scarper p s)"
    and new: "\<And>t. P (tweet_sentiment t) \<Longrightarrow>
      matched_keywords t = find_matching_keywords_scarper lower (content t) \<Longrightarrow>
      matched_keywords t \<noteq> [] \<Longrightarrow>
      hazard_category t = categorize_hazard_scarper (matched_keywords t) \<Longrightarrow> Q t"
    and c: "cache_all P c"
  shows "(\<forall>t \<in> set (fst (search_ocean_hazards_scarper scrape tb hash n c)). Q t) \<and>
     cache_all P (snd (search_ocean_hazards_scarper scrape tb hash n c))"
proof -
  obtain all_tweets c' where l: "keyword_loop scrape tb n (take 8 KEYWORDS) [] c = (all_tweets, c')"
    by (metis prod.exhaust)
  from keyword_loop_inv [of P Q, OF tr new c, of "[]" scrape tb n "take 8 KEYWORDS"] l
  have Q: "\<forall>t \<in> set all_tweets. Q t" and c': "cache_all P c'"
    by simp_all
  from fold_dict_put_values [of "\<lambda>t. hash (content t)" all_tweets "[]"] Q
  have "\<forall>t \<in> set (map snd (fold (\<lambda>t d. dict_put d (hash (content t)) t) all_tweets [])). Q t"
    by auto
  with c' show ?thesis
    by (simp add: search_ocean_hazards_scarper_def l)
qed

lemma fallback_loop_inv:
  assumes tr: "\<And>p s. P (analyze_sentiment_try_scarper p s)"
    and new: "\<And>t d_content d_username d_handle d_keywords d_category.
      (d_content, d_username, d_handle, d_keywords, d_category) \<in> D \<Longrightarrow>
      P (tweet_sentiment t) \<Longrightarrow> content t = d_content \<Longrightarrow>
      matched_keywords t = d_keywords \<Longrightarrow> hazard_category t = d_category \<Longrightarrow> Q t"
  shows "set ds \<subseteq> D \<Longrightarrow> cache_all P c \<Longrightarrow> \<forall>t \<in> set tweets. Q t \<Longrightarrow>
     fallback_loop tb now rnd i ds tweets c = Inr (out, c_out) \<Longrightarrow>
     (\<forall>t \<in> set out. Q t) \<and> cache_all P c_out"
proof (induction ds arbitrary: i tweets c)
  case Nil
  then show ?case by simp
next
  case (Cons d ds)
  obtain d_content d_username d_handle d_keywords d_category
    where d: "d = (d_content, d_username, d_handle, d_keywords, d_category)"
    by (cases d)
  from Cons.prems(1) have in_D: "(d_content, d_username, d_handle, d_keywords, d_category) \<in> D"
    and rest: "set ds \<subseteq> D"
    by (simp_all add: d)
  show ?case
  proof (cases "analyze_sentiment_scarper tb c d_content")
    case (Inl e)
    with Cons.prems(4) show ?thesis by (simp add: d)
  next
    case (Inr x)
    obtain score label conf c' where x: "x = ((score, label, conf), c')"
      by (metis prod.exhaust)
    obtain r1 r2 r3 r4 where r: "rnd i = (r1, r2, r3, r4)"
      by (metis prod.exhaust)
    from analyze_sentiment_scarper_inv [OF Cons.prems(2) tr Inr [unfolded x]]
    have P: "P (score, label, conf)" and c': "cache_all P c'"
      by simp_all
    from Cons.prems(4) show ?thesis
      unfolding d fallback_loop.simps Inr x r prod.case Let_def sum.case
      by (rule Cons.IH [OF rest c', rotated])
        (use Cons.prems(3) P in \<open>simp add: new [OF in_D] tweet_sentiment_def\<close>)
  qed
qed

lemma demo_data_length: "length demo_data = 25"
  unfolding demo_data_def by (simp only: list.size)

lemma fallback_demo_data_length: "length fallback_demo_data = 5"
  unfolding fallback_demo_data_def by (simp only: list.size)

lemma get_demo_tweets_length:
  "length (fst (get_demo_tweets tb now rnd c)) = 25"
  by (simp only: get_demo_tweets_def demo_loop_length demo_data_length list.size)

lemma analyze_sentiment_scarper_total:
  assumes "tb s \<noteq> None"
  shows "\<exists>x. analyze_sentiment_scarper tb c s = Inr x"
proof (cases "c (strip (lower s))")
  case None
  from assms obtain p where "tb s = Some p" by blast
  with None show ?thesis
    by (simp add: analyze_sentiment_scarper_def Let_def del: split_paired_Ex)
next
  case (Some r)
  then show ?thesis
    by (simp add: analyze_sentiment_scarper_def Let_def del: split_paired_Ex)
qed

lemma fallback_loop_total:
  assumes "\<And>s. tb s \<noteq> None"
  shows "\<exists>out c'. fallback_loop tb now rnd i ds tweets c = Inr (out, c') \<and>
           length out = length tweets + length ds"
proof (induction ds arbitrary: i tweets c)
  case Nil
  show ?case by simp
next
  case (Cons d ds)
  obtain d_content d_username d_handle d_keywords d_category
    where d: "d = (d_content, d_username, d_handle, d_keywords, d_category)"
    by (cases d)
  from analyze_sentiment_scarper_total [of tb d_content c] assms [of d_content]
  obtain r c' where x: "analyze_sentiment_scarper tb c d_content = Inr (r, c')"
    by (metis prod.exhaust)
  obtain score label conf where x': "r = (score, label, conf)"
    by (cases r)
  obtain r1 r2 r3 r4 where r: "rnd i = (r1, r2, r3, r4)"
    by (cases "rnd i")
  define tweet :: OceanHazardTweet_scarper where "tweet =
     \<lparr>username = d_username, handle = d_handle, content = d_content, timestamp = now i,
      retweets = r1, likes = r2, replies = r3, tweet_id = ''fallback_'' @ format_03d (i + 1),
      matched_keywords = d_keywords, sentiment_score = score, sentiment_label = label,
      confidence = conf, hazard_category = d_category, source = ''FALLBACK_DEMO'',
      location = None, verified = r4\<rparr>"
  have step: "fallback_loop tb now rnd i (d # ds) tweets c =
      fallback_loop tb now rnd (i + 1) ds (tweets @ [tweet]) c'"
    by (simp only: d fallback_loop.simps x x' r prod.case Let_def sum.case tweet_def)
  from Cons.IH [of "i + 1" "tweets @ [tweet]" c'] show ?case
    unfolding step by simp
qed

text \<open>
  C4. From a fresh analyzer on, every triple \<^verbatim>\<open>analyze_sentiment\<close> returns (computed,
  cached or the \<^verbatim>\<open>except\<close> branch's) carries the label positive exactly when its
  score is above the file's threshold, negative exactly when it is below the negated
  threshold, and neutral exactly otherwise: 0.15 in \<^verbatim>\<open>web_scraper.py\<close>, 0.1 in
  \<^verbatim>\<open>web_scarper.py\<close>. So does every post the two files build: the demo posts, the
  scraped posts and the fallback posts.
\<close>

theorem sentiment_label_matches_score:
  "(reachable_cache c \<longrightarrow>
      label_coherent 0.15 (fst (analyze_sentiment TextBlob c text)) \<and>
      (\<forall>t \<in> set (fst (get_demo_tweets TextBlob now rnd c)).
         label_coherent 0.15 (tweet_sentiment t))) \<and>
   (reachable_cache_scarper c \<longrightarrow>
      (\<forall>r c'. analyze_sentiment_scarper TextBlob c text = Inr (r, c') \<longrightarrow>
         label_coherent 0.1 r) \<and>
      (\<forall>t \<in> set (fst (search_ocean_hazards_scarper scrape TextBlob hash n c)).
         label_coherent 0.1 (tweet_sentiment t)) \<and>
      (\<forall>tweets c'. get_fallback_tech_demo_tweets_scarper TextBlob now rnd' c = Inr (tweets, c') \<longrightarrow>
         (\<forall>t \<in> set tweets. label_coherent 0.1 (tweet_sentiment t))))"
proof (intro conjI impI allI)
  assume r: "reachable_cache c"
  have c: "cache_all (label_coherent 0.15) c"
    using r fallback_coherent try_coherent by (rule reachable_cache_all)
  from analyze_sentiment_inv [OF c fallback_coherent try_coherent]
  show "label_coherent 0.15 (fst (analyze_sentiment TextBlob c text))"
    by simp
  have "(\<forall>t \<in> set (fst (demo_loop TextBlob now rnd 0 demo_data [] c)).
        label_coherent 0.15 (tweet_sentiment t)) \<and>
      cache_all (label_coherent 0.15) (snd (demo_loop TextBlob now rnd 0 demo_data [] c))"
    by (rule demo_loop_inv [where D = UNIV, OF fallback_coherent try_coherent _ _ c]) simp_all
  then show "\<forall>t \<in> set (fst (get_demo_tweets TextBlob now rnd c)).
      label_coherent 0.15 (tweet_sentiment t)"
    unfolding get_demo_tweets_def by (rule conjunct1)
next
  fix r c'
  assume "reachable_cache_scarper c"
  then have c: "cache_all (label_coherent 0.1) c"
    using try_scarper_coherent by (rule reachable_cache_scarper_all)
  assume "analyze_sentiment_scarper TextBlob c text = Inr (r, c')"
  with analyze_sentiment_scarper_inv [OF c try_scarper_coherent]
  show "label_coherent 0.1 r"
    by blast
next
  assume "reachable_cache_scarper c"
  then have c: "cache_all (label_coherent 0.1) c"
    using try_scarper_coherent by (rule reachable_cache_scarper_all)
  have "(\<forall>t \<in> set (fst (search_ocean_hazards_scarper scrape TextBlob hash n c)).
        label_coherent 0.1 (tweet_sentiment t)) \<and>
      cache_all (label_coherent 0.1) (snd (search_ocean_hazards_scarper scrape TextBlob hash n c))"
    by (rule search_ocean_hazards_scarper_inv [OF try_scarper_coherent _ c])
  then show "\<forall>t \<in> set (fst (search_ocean_hazards_scarper scrape TextBlob hash n c)).
      label_coherent 0.1 (tweet_sentiment t)"
    by (rule conjunct1)
next
  fix tweets c'
  assume "reachable_cache_scarper c"
  then have c: "cache_all (label_coherent 0.1) c"
    using try_scarper_coherent by (rule reachable_cache_scarper_all)
  assume "get_fallback_tech_demo_tweets_scarper TextBlob now rnd' c = Inr (tweets, c')"
  then have l: "fallback_loop TextBlob now rnd' 0 fallback_demo_data [] c = Inr (tweets, c')"
    by (simp only: get_fallback_tech_demo_tweets_scarper_def)
  have "(\<forall>t \<in> set tweets. label_coherent 0.1 (tweet_sentiment t)) \<and>
      cache_all (label_coherent 0.1) c'"
    by (rule fallback_loop_inv [where D = UNIV, OF try_scarper_coherent _ _ c _ l]) simp_all
  then show "\<forall>t \<in> set tweets. label_coherent 0.1 (tweet_sentiment t)"
    by (rule conjunct1)
qed

theorem sentiment_label_matches_score_witness:
  "reachable_cache Map.empty \<and>
   fst (analyze_sentiment (\<lambda>s. Some 0.05) Map.empty ''Hope restored'') =
     (0.45, ''positive'', 0.65) \<and>
   label_coherent 0.15 (0.45, ''positive'', 0.65) \<and>
   length (fst (get_demo_tweets (\<lambda>s. Some 0.05) (\<lambda>i. ''2024-01-01 00:00'')
     (\<lambda>i. (100, 0.5, 1, 0.2)) Map.empty)) = 25 \<and>
   list_all (\<lambda>t. label_coherent 0.15 (tweet_sentiment t))
     (fst (get_demo_tweets (\<lambda>s. Some 0.05) (\<lambda>i. ''2024-01-01 00:00'')
       (\<lambda>i. (100, 0.5, 1, 0.2)) Map.empty)) \<and>
   reachable_cache_scarper Map.empty \<and>
   map_sum id fst (analyze_sentiment_scarper (\<lambda>s. Some 0.05) Map.empty ''Hope restored'') =
     Inr (0.45, ''positive'', 0.675) \<and>
   label_coherent 0.1 (0.45, ''positive'', 0.675) \<and>
   map tweet_sentiment
     (fst (search_ocean_hazards_scarper
       (\<lambda>keyword n. if keyword = ''tsunami'' then
          Some [\<lparr>raw_username = ''A'', raw_handle = ''a'', raw_content = ''Tsunami hope'',
                 raw_timestamp = ''now'', raw_retweets = 1, raw_likes = 2, raw_replies = 3,
                 raw_tweet_id = ''nitter_1'', raw_verified = Some True,
                 raw_source = ''NITTER_SCRAPE''\<rparr>] else None)
       (\<lambda>s. Some 0.05) (\<lambda>s. int (length s)) 20 Map.empty)) =
     [(0.25, ''positive'', 0.375)] \<and>
   label_coherent 0.1 (0.25, ''positive'', 0.375) \<and>
   (case get_fallback_tech_demo_tweets_scarper (\<lambda>s. Some 0.05) (\<lambda>i. ''2024-01-01 00:00'')
           (\<lambda>i. (10, 50, 5, True)) Map.empty of
      Inl e \<Rightarrow> False
    | Inr (tweets, c') \<Rightarrow>
        length tweets = 5 \<and> list_all (\<lambda>t. label_coherent 0.1 (tweet_sentiment t)) tweets)"
proof -
  let ?tb = "\<lambda>s::string. Some (0.05::real)"
  let ?now = "\<lambda>i::nat. ''2024-01-01 00:00''"
  let ?rnd = "\<lambda>i::nat. (100::int, 0.5::real, 1::real, 0.2::real)"
  let ?rnd' = "\<lambda>i::nat. (10::int, 50::int, 5::int, True)"
  let ?scrape = "\<lambda>keyword (n::nat). if keyword = ''tsunami'' then
          Some [\<lparr>raw_username = ''A'', raw_handle = ''a'', raw_content = ''Tsunami hope'',
                 raw_timestamp = ''now'', raw_retweets = 1, raw_likes = 2, raw_replies = 3,
                 raw_tweet_id = ''nitter_1'', raw_verified = Some True,
                 raw_source = ''NITTER_SCRAPE''\<rparr>] else None"
  let ?hash = "\<lambda>s::string. int (length s)"
  note inst = sentiment_label_matches_score
    [of Map.empty ?tb "''Hope restored''" ?now ?rnd ?scrape ?hash 20 ?rnd']
  have r: "reachable_cache Map.empty"
    by (rule reachable_cache.fresh)
  have r': "reachable_cache_scarper Map.empty"
    by (rule reachable_cache_scarper.fresh_scarper)
  have e1: "fst (analyze_sentiment ?tb Map.empty ''Hope restored'') = (0.45, ''positive'', 0.65)"
    by code_simp
  have e2: "map_sum id fst (analyze_sentiment_scarper ?tb Map.empty ''Hope restored'') =
      Inr (0.45, ''positive'', 0.675)"
    by code_simp
  have e3: "map tweet_sentiment (fst (search_ocean_hazards_scarper ?scrape ?tb ?hash 20 Map.empty)) =
      [(0.25, ''positive'', 0.375)]"
    by code_simp
  from fallback_loop_total [of ?tb ?now ?rnd' 0 fallback_demo_data "[]" Map.empty]
  obtain tweets c' where
    f: "get_fallback_tech_demo_tweets_scarper ?tb ?now ?rnd' Map.empty = Inr (tweets, c')"
    and l: "length tweets = 5"
    by (auto simp: get_fallback_tech_demo_tweets_scarper_def fallback_demo_data_length)
  have c1: "label_coherent 0.15 (0.45, ''positive'', 0.65)"
    using inst r e1 by simp
  have c2: "list_all (\<lambda>t. label_coherent 0.15 (tweet_sentiment t))
      (fst (get_demo_tweets ?tb ?now ?rnd Map.empty))"
    using inst r by (simp add: list_all_iff)
  from e2 obtain c2' where
    "analyze_sentiment_scarper ?tb Map.empty ''Hope restored'' = Inr ((0.45, ''positive'', 0.675), c2')"
    by (cases "analyze_sentiment_scarper ?tb Map.empty ''Hope restored''") auto
  with inst r' have c3: "label_coherent 0.1 (0.45, ''positive'', 0.675)"
    by blast
  from inst r' have "list_all (\<lambda>t. label_coherent 0.1 (tweet_sentiment t))
      (fst (search_ocean_hazards_scarper ?scrape ?tb ?hash 20 Map.empty))"
    by (simp add: list_all_iff)
  then have "list_all (label_coherent 0.1)
      (map tweet_sentiment (fst (search_ocean_hazards_scarper ?scrape ?tb ?hash 20 Map.empty)))"
    by (simp add: list_all_iff)
  then have c4: "label_coherent 0.1 (0.25, ''positive'', 0.375)"
    unfolding e3 by simp
  from inst r' f have c5: "list_all (\<lambda>t. label_coherent 0.1 (tweet_sentiment t)) tweets"
    unfolding list_all_iff by blast
  show ?thesis
    using r r' e1 e2 e3 c1 c2 c3 c4 c5 l
    by (simp only: f get_demo_tweets_length sum.case prod.case simp_thms)
qed

lemma fallback_bounds: "in_bounds (- 0.2, ''negative'', 0.6)"
  by (simp add: in_bounds_def)

text \<open>
  C6. From a fresh analyzer on, whatever the estimator returns, every triple
  \<^verbatim>\<open>analyze_sentiment\<close> returns has its polarity in \<open>[-1, 1]\<close> and its confidence in
  \<open>[0, 1]\<close>: computed, read from the cache, or the \<^verbatim>\<open>except\<close> branch's, in both
  files.
\<close>

theorem sentiment_within_bounds:
  "(reachable_cache c \<longrightarrow>
      (\<forall>score label conf c'.
         analyze_sentiment TextBlob c text = ((score, label, conf), c') \<longrightarrow>
         - 1 \<le> score \<and> score \<le> 1 \<and> 0 \<le> conf \<and> conf \<le> 1)) \<and>
   (reachable_cache_scarper c \<longrightarrow>
      (\<forall>score label conf c'.
         analyze_sentiment_scarper TextBlob c text = Inr ((score, label, conf), c') \<longrightarrow>
         - 1 \<le> score \<and> score \<le> 1 \<and> 0 \<le> conf \<and> conf \<le> 1))"
proof (intro conjI impI allI)
  fix score label conf c'
  assume "reachable_cache c"
  then have c: "cache_all in_bounds c"
    using fallback_bounds try_bounds by (rule reachable_cache_all)
  assume "analyze_sentiment TextBlob c text = ((score, label, conf), c')"
  with analyze_sentiment_inv [OF c fallback_bounds try_bounds, of TextBlob "text"]
  have "in_bounds (score, label, conf)"
    by simp
  then show "- 1 \<le> score" and "score \<le> 1" and "0 \<le> conf" and "conf \<le> 1"
    by (simp_all add: in_bounds_def)
next
  fix score label conf c'
  assume "reachable_cache_scarper c"
  then have c: "cache_all in_bounds c"
    using try_scarper_bounds by (rule reachable_cache_scarper_all)
  assume "analyze_sentiment_scarper TextBlob c text = Inr ((score, label, conf), c')"
  with analyze_sentiment_scarper_inv [OF c try_scarper_bounds]
  have "in_bounds (score, label, conf)"
    by blast
  then show "- 1 \<le> score" and "score \<le> 1" and "0 \<le> conf" and "conf \<le> 1"
    by (simp_all add: in_bounds_def)
qed

theorem sentiment_within_bounds_witness:
  "reachable_cache Map.empty \<and>
   reachable_cache (snd (analyze_sentiment (\<lambda>s. Some 7) Map.empty ''  Saved, amazing!  '')) \<and>
   fst (analyze_sentiment (\<lambda>s. None)
          (snd (analyze_sentiment (\<lambda>s. Some 7) Map.empty ''  Saved, amazing!  ''))
          ''saved, AMAZING!'') = (1, ''positive'', 1) \<and>
   fst (analyze_sentiment (\<lambda>s. Some (- 7)) Map.empty ''Disaster'') = (- 1, ''negative'', 1) \<and>
   fst (analyze_sentiment (\<lambda>s. None) Map.empty ''Disaster'') = (- 0.2, ''negative'', 0.6) \<and>
   reachable_cache_scarper Map.empty \<and>
   map_sum id fst (analyze_sentiment_scarper (\<lambda>s. Some 7) Map.empty ''Saved'') =
     Inr (1, ''positive'', 1) \<and>
   (- 1 \<le> (1::real) \<and> (1::real) \<le> 1 \<and> (0::real) \<le> 1) \<and>
   (- 1 \<le> (- 0.2::real) \<and> (- 0.2::real) \<le> 1 \<and> (0::real) \<le> 0.6 \<and> (0.6::real) \<le> 1)"
proof -
  let ?c1 = "snd (analyze_sentiment (\<lambda>s. Some 7) Map.empty ''  Saved, amazing!  '')"
  have r: "reachable_cache Map.empty"
    by (rule reachable_cache.fresh)
  then have r1: "reachable_cache ?c1"
    by (rule reachable_cache.call)
  have r': "reachable_cache_scarper Map.empty"
    by (rule reachable_cache_scarper.fresh_scarper)
  have e1: "fst (analyze_sentiment (\<lambda>s. None) ?c1 ''saved, AMAZING!'') = (1, ''positive'', 1)"
    by code_simp
  have e2: "fst (analyze_sentiment (\<lambda>s. Some (- 7)) Map.empty ''Disaster'') = (- 1, ''negative'', 1)"
    by code_simp
  have e3: "fst (analyze_sentiment (\<lambda>s. None) Map.empty ''Disaster'') = (- 0.2, ''negative'', 0.6)"
    by code_simp
  have e4: "map_sum id fst (analyze_sentiment_scarper (\<lambda>s. Some 7) Map.empty ''Saved'') =
      Inr (1, ''positive'', 1)"
    by code_simp
  obtain c2 where a1: "analyze_sentiment (\<lambda>s. None) ?c1 ''saved, AMAZING!'' = ((1, ''positive'', 1), c2)"
    using e1 by (metis prod.collapse)
  obtain c3 where a3: "analyze_sentiment (\<lambda>s. None) Map.empty ''Disaster'' = ((- 0.2, ''negative'', 0.6), c3)"
    using e3 by (metis prod.collapse)
  from sentiment_within_bounds [of ?c1 "\<lambda>s. None" "''saved, AMAZING!''"] r1 a1
  have b1: "- 1 \<le> (1::real) \<and> (1::real) \<le> 1 \<and> (0::real) \<le> 1"
    by blast
  from sentiment_within_bounds [of Map.empty "\<lambda>s. None" "''Disaster''"] r a3
  have b3: "- 1 \<le> (- 0.2::real) \<and> (- 0.2::real) \<le> 1 \<and> (0::real) \<le> 0.6 \<and> (0.6::real) \<le> 1"
    by blast
  from r r1 r' e1 e2 e3 e4 b1 b3 show ?thesis
    by blast
qed

lemma analyze_sentiment_cache_inv:
  assumes "cache_all P c" and "\<And>p. P (analyze_sentiment_try p s)"
  shows "cache_all P (snd (analyze_sentiment tb c s))"
proof (cases "c (strip (lower s))")
  case None
  with assms show ?thesis
    by (cases "tb s") (simp_all add: analyze_sentiment_def Let_def cache_all_update)
next
  case (Some r)
  with assms show ?thesis
    by (simp add: analyze_sentiment_def Let_def)
qed

lemma reachable_cache_computed:
  assumes "reachable_cache c" and "\<And>p s. P (analyze_sentiment_try p s)"
  shows "cache_all P c"
  using assms(1)
proof (induction rule: reachable_cache.induct)
  case fresh
  show ?case by (rule cache_all_empty)
next
  case (call c tb s)
  with assms(2) show ?case by (simp add: analyze_sentiment_cache_inv)
qed

lemma analyze_sentiment_cases:
  "(\<exists>r. c (strip (lower s)) = Some r \<and> analyze_sentiment tb c s = (r, c)) \<or>
   (c (strip (lower s)) = None \<and> tb s = None \<and>
      analyze_sentiment tb c s = ((- 0.2, ''negative'', 0.6), c)) \<or>
   (\<exists>p. c (strip (lower s)) = None \<and> tb s = Some p \<and>
      analyze_sentiment tb c s =
        (analyze_sentiment_try p s, c(strip (lower s) \<mapsto> analyze_sentiment_try p s)))"
  by (cases "c (strip (lower s))"; cases "tb s")
    (simp_all add: analyze_sentiment_def Let_def del: split_paired_Ex)

text \<open>
  C10. In \<^verbatim>\<open>web_scraper.py\<close>, from a fresh analyzer on, the confidence of every
  returned triple is at least 0.2, hence never zero: it is either
  \<open>min (\<bar>polarity\<bar> + 0.2) 1\<close> of the triple's own polarity or the 0.6 of the
  \<^verbatim>\<open>except\<close> branch's triple, and every cached triple is of the first kind.
\<close>

theorem demo_confidence_at_least_one_fifth:
  "reachable_cache c \<Longrightarrow>
   analyze_sentiment TextBlob c text = ((score, label, conf), c') \<Longrightarrow>
   0.2 \<le> conf \<and> conf \<noteq> 0 \<and>
   (conf = min (\<bar>score\<bar> + 0.2) 1 \<or> (score, label, conf) = (- 0.2, ''negative'', 0.6)) \<and>
   (\<forall>k s l cf. c' k = Some (s, l, cf) \<longrightarrow> cf = min (\<bar>s\<bar> + 0.2) 1 \<and> 0.2 \<le> cf)"
proof -
  let ?Q = "\<lambda>r. case r of (s::real, l::string, cf) \<Rightarrow> cf = min (\<bar>s\<bar> + 0.2) 1 \<and> 0.2 \<le> cf"
  assume r: "reachable_cache c"
    and a: "analyze_sentiment TextBlob c text = ((score, label, conf), c')"
  have try_Q: "?Q (analyze_sentiment_try p s)" for p s
  proof -
    have "(0.2 :: real) \<le> min (\<bar>x\<bar> + 0.2) 1.0" for x :: real
      by (simp add: min_def)
    then show ?thesis
      unfolding analyze_sentiment_try_def Let_def prod.case by simp
  qed
  from r have c: "cache_all ?Q c"
    by (rule reachable_cache_computed) (rule try_Q)
  have "reachable_cache (snd (analyze_sentiment TextBlob c text))"
    using r by (rule reachable_cache.call)
  then have "reachable_cache c'"
    by (simp add: a)
  then have c': "cache_all ?Q c'"
    by (rule reachable_cache_computed) (rule try_Q)
  from analyze_sentiment_cases [of c "text" TextBlob]
  have "?Q (score, label, conf) \<or> (score, label, conf) = (- 0.2, ''negative'', 0.6)"
  proof (elim disjE exE conjE)
    fix r'
    assume "c (strip (lower text)) = Some r'" and "analyze_sentiment TextBlob c text = (r', c)"
    with a cache_all_lookup [OF c] show ?thesis by auto
  next
    assume "analyze_sentiment TextBlob c text = ((- 0.2, ''negative'', 0.6), c)"
    with a show ?thesis by simp
  next
    fix p
    assume "analyze_sentiment TextBlob c text =
        (analyze_sentiment_try p text, c(strip (lower text) \<mapsto> analyze_sentiment_try p text))"
    with a try_Q [of p "text"] show ?thesis by simp
  qed
  then have 1: "0.2 \<le> conf \<and> conf \<noteq> 0 \<and>
      (conf = min (\<bar>score\<bar> + 0.2) 1 \<or> (score, label, conf) = (- 0.2, ''negative'', 0.6))"
    by auto
  have 2: "\<forall>k s l cf. c' k = Some (s, l, cf) \<longrightarrow> cf = min (\<bar>s\<bar> + 0.2) 1 \<and> 0.2 \<le> cf"
    using cache_all_lookup [OF c'] by fastforce
  from 1 2 show ?thesis by blast
qed

theorem demo_confidence_at_least_one_fifth_witness:
  "reachable_cache Map.empty \<and>
   analyze_sentiment (\<lambda>s. Some 0) Map.empty ''Calm sea'' =
     ((0, ''neutral'', 0.2), [''calm sea'' \<mapsto> (0, ''neutral'', 0.2)]) \<and>
   (0.2::real) \<le> 0.2 \<and> (0.2::real) \<noteq> 0 \<and> (0.2::real) = min (\<bar>0\<bar> + 0.2) 1 \<and>
   analyze_sentiment (\<lambda>s. None) Map.empty ''Calm sea'' =
     ((- 0.2, ''negative'', 0.6), Map.empty) \<and>
   (0.2::real) \<le> 0.6"
proof -
  have r: "reachable_cache Map.empty"
    by (rule reachable_cache.fresh)
  have k: "strip (lower ''Calm sea'') = ''calm sea''"
    by code_simp
  have b: "boost disaster_negative ''Calm sea'' = 0" "boost disaster_positive ''Calm sea'' = 0"
    by code_simp+
  have e1: "analyze_sentiment (\<lambda>s. Some 0) Map.empty ''Calm sea'' =
      ((0, ''neutral'', 0.2), [''calm sea'' \<mapsto> (0, ''neutral'', 0.2)])"
    by (simp add: analyze_sentiment_def analyze_sentiment_try_def Let_def k b)
  have e2: "analyze_sentiment (\<lambda>s. None) Map.empty ''Calm sea'' =
      ((- 0.2, ''negative'', 0.6), Map.empty)"
    by (simp add: analyze_sentiment_def)
  from demo_confidence_at_least_one_fifth [OF r e1]
  have 1: "(0.2::real) \<le> 0.2 \<and> (0.2::real) \<noteq> 0 \<and> (0.2::real) = min (\<bar>0\<bar> + 0.2) 1"
    by simp
  from demo_confidence_at_least_one_fifth [OF r e2]
  have 2: "(0.2::real) \<le> 0.6"
    by simp
  from r e1 e2 1 2 show ?thesis
    by blast
qed

section \<open>Sentiment Scorer: a failing estimator\<close>

text \<open>
  C7, as amended. In \<^verbatim>\<open>web_scraper.py\<close>, a call in which TextBlob raises (it is asked
  only when the text's key is not cached) returns the triple \<open>(-0.2, negative, 0.6)\<close>
  and leaves the cache as it was; the call itself never raises, so
  \<^verbatim>\<open>get_demo_tweets\<close> builds all its 25 posts whatever the estimator does.
\<close>

theorem estimator_failure_gives_fallback:
  "(TextBlob text = None \<longrightarrow>
      analyze_sentiment TextBlob c text =
        (case c (strip (lower text)) of
           None \<Rightarrow> ((- 0.2, ''negative'', 0.6), c)
         | Some cached \<Rightarrow> (cached, c))) \<and>
   length (fst (get_demo_tweets TextBlob now rnd c)) = 25"
proof (intro conjI impI)
  assume raises: "TextBlob text = None"
  show "analyze_sentiment TextBlob c text =
      (case c (strip (lower text)) of
         None \<Rightarrow> ((- 0.2, ''negative'', 0.6), c)
       | Some cached \<Rightarrow> (cached, c))"
  proof (cases "c (strip (lower text))")
    case None
    with raises show ?thesis
      by (simp add: analyze_sentiment_def Let_def)
  next
    case (Some cached)
    then show ?thesis
      by (simp add: analyze_sentiment_def Let_def)
  qed
next
  show "length (fst (get_demo_tweets TextBlob now rnd c)) = 25"
    by (rule get_demo_tweets_length)
qed

theorem estimator_failure_gives_fallback_witness:
  "(\<lambda>s. if s = ''Tsunami'' then None else Some (0.5::real)) ''Tsunami'' = None \<and>
   analyze_sentiment (\<lambda>s. if s = ''Tsunami'' then None else Some 0.5) Map.empty ''Tsunami'' =
     ((- 0.2, ''negative'', 0.6), Map.empty) \<and>
   length (fst (get_demo_tweets (\<lambda>s. None) (\<lambda>i. ''2024-01-01 00:00'')
     (\<lambda>i. (100, 0.5, 1, 0.2)) Map.empty)) = 25"
  using estimator_failure_gives_fallback
    [of "\<lambda>s. if s = ''Tsunami'' then None else Some 0.5" "''Tsunami''" Map.empty]
    estimator_failure_gives_fallback
    [of "\<lambda>s. None" "''Tsunami''" Map.empty "\<lambda>i. ''2024-01-01 00:00''" "\<lambda>i. (100, 0.5, 1, 0.2)"]
  by simp

text \<open>
  In \<^verbatim>\<open>web_scarper.py\<close> the same failure leaves \<^verbatim>\<open>analyze_sentiment\<close> as an
  exception: the fallback posts are not built, and of the posts scraped for a keyword
  the one that failed and all after it are lost.
\<close>

theorem analyze_sentiment_scarper_counterexample:
  "analyze_sentiment_scarper (\<lambda>s. None) Map.empty ''Tsunami'' = Inl EstimatorError \<and>
   get_fallback_tech_demo_tweets_scarper (\<lambda>s. None) (\<lambda>i. ''2024-01-01 00:00'')
     (\<lambda>i. (10, 50, 5, True)) Map.empty = Inl EstimatorError \<and>
   fst (search_ocean_hazards_scarper
     (\<lambda>keyword n. if keyword = ''tsunami'' then
        Some [\<lparr>raw_username = ''A'', raw_handle = ''a'', raw_content = ''Tsunami'',
               raw_timestamp = ''now'', raw_retweets = 1, raw_likes = 2, raw_replies = 3,
               raw_tweet_id = ''nitter_1'', raw_verified = None,
               raw_source = ''NITTER_SCRAPE''\<rparr>,
              \<lparr>raw_username = ''B'', raw_handle = ''b'', raw_content = ''Flood'',
               raw_timestamp = ''now'', raw_retweets = 1, raw_likes = 2, raw_replies = 3,
               raw_tweet_id = ''nitter_2'', raw_verified = None,
               raw_source = ''NITTER_SCRAPE''\<rparr>] else None)
     (\<lambda>s. if s = ''Tsunami'' then None else Some 0.5) (\<lambda>s. int (length s)) 20 Map.empty) = []"
proof -
  have 1: "analyze_sentiment_scarper (\<lambda>s. None) Map.empty ''Tsunami'' = Inl EstimatorError"
    by (simp add: analyze_sentiment_scarper_def)
  have 2: "get_fallback_tech_demo_tweets_scarper (\<lambda>s. None) (\<lambda>i. ''2024-01-01 00:00'')
     (\<lambda>i. (10, 50, 5, True)) Map.empty = Inl EstimatorError"
    unfolding get_fallback_tech_demo_tweets_scarper_def fallback_demo_data_def
    by (simp only: fallback_loop.simps analyze_sentiment_scarper_def Let_def option.case sum.case)
  have 3: "fst (search_ocean_hazards_scarper
     (\<lambda>keyword n. if keyword = ''tsunami'' then
        Some [\<lparr>raw_username = ''A'', raw_handle = ''a'', raw_content = ''Tsunami'',
               raw_timestamp = ''now'', raw_retweets = 1, raw_likes = 2, raw_replies = 3,
               raw_tweet_id = ''nitter_1'', raw_verified = None,
               raw_source = ''NITTER_SCRAPE''\<rparr>,
              \<lparr>raw_username = ''B'', raw_handle = ''b'', raw_content = ''Flood'',
               raw_timestamp = ''now'', raw_retweets = 1, raw_likes = 2, raw_replies = 3,
               raw_tweet_id = ''nitter_2'', raw_verified = None,
               raw_source = ''NITTER_SCRAPE''\<rparr>] else None)
     (\<lambda>s. if s = ''Tsunami'' then None else Some 0.5) (\<lambda>s. int (length s)) 20 Map.empty) = []"
    by code_simp
  from 1 2 3 show ?thesis by blast
qed

section \<open>Sentiment Scorer: the second call on an equal key\<close>




section \<open>The category of a post\<close>

lemma demo_data_categorized:
  "list_all (\<lambda>(d_content, d_username, d_handle, d_keywords, d_category).
       categorize_hazard d_keywords = Inr d_category) demo_data"
  by code_simp

lemma items_loop_range: "items_loop items kws \<in> insert ''general'' (fst ` set items)"
  by (induction items kws rule: items_loop.induct) auto

lemma categorize_hazard_scarper_range:
  "categorize_hazard_scarper keywords \<in>
     set [''tsunami'', ''storms'', ''flooding'', ''pollution'', ''erosion'', ''currents'',
          ''climate'', ''general'']"
  using items_loop_range [of hazard_categories "keywords"]
  by (simp add: categorize_hazard_scarper_def hazard_categories_def)

lemma categorize_hazard_range:
  "\<exists>g. categorize_hazard keywords = Inr g \<and>
     (g \<in> set category_priority \<or> g = ''general'' \<or> g = ''unknown'')"
proof -
  have l: "category_loop (map lower keywords) category_priority =
      Inr (find (category_hit keywords) category_priority)"
    using category_priority_known by (rule category_loop_find)
  show ?thesis
  proof (cases "find (category_hit keywords) category_priority")
    case None
    then show ?thesis
      by (simp add: categorize_hazard_def l)
  next
    case (Some g)
    then have "g \<in> set category_priority"
      by (auto simp: find_Some_iff)
    with Some show ?thesis
      by (simp add: categorize_hazard_def l)
  qed
qed

lemma fallback_loop_fields:
  "fallback_loop tb now rnd i ds tweets c = Inr (out, c_out) \<Longrightarrow>
   map (\<lambda>t. (matched_keywords t, hazard_category t)) out =
     map (\<lambda>t. (matched_keywords t, hazard_category t)) tweets @
     map (\<lambda>(d_content, d_username, d_handle, d_keywords, d_category).
            (d_keywords, d_category)) ds"
proof (induction ds arbitrary: i tweets c)
  case Nil
  then show ?case by simp
next
  case (Cons d ds)
  obtain d_content d_username d_handle d_keywords d_category
    where d: "d = (d_content, d_username, d_handle, d_keywords, d_category)"
    by (cases d)
  show ?case
  proof (cases "analyze_sentiment_scarper tb c d_content")
    case (Inl e)
    with Cons.prems show ?thesis by (simp add: d)
  next
    case (Inr x)
    obtain score label conf c' where x: "x = ((score, label, conf), c')"
      by (metis prod.exhaust)
    obtain r1 r2 r3 r4 where r: "rnd i = (r1, r2, r3, r4)"
      by (metis prod.exhaust)
    from Cons.prems have "map (\<lambda>t. (matched_keywords t, hazard_category t)) out =
        map (\<lambda>t. (matched_keywords t, hazard_category t))
          (tweets @
           [\<lparr>username = d_username, handle = d_handle, content = d_content, timestamp = now i,
             retweets = r1, likes = r2, replies = r3,
             tweet_id = ''fallback_'' @ format_03d (i + 1), matched_keywords = d_keywords,
             sentiment_score = score, sentiment_label = label, confidence = conf,
             hazard_category = d_category, source = ''FALLBACK_DEMO'', location = None,
             verified = r4\<rparr>]) @
        map (\<lambda>(d_content, d_username, d_handle, d_keywords, d_category).
               (d_keywords, d_category)) ds"
      unfolding d fallback_loop.simps Inr x r prod.case Let_def sum.case
      by (rule Cons.IH)
    then show ?thesis
      by (simp only: d list.map prod.case map_append append_Cons append_Nil append_assoc
          OceanHazardTweet.select_convs)
  qed
qed

text \<open>
  C3, as amended. Every post \<^verbatim>\<open>search_ocean_hazards\<close> builds, in either file, carries
  one of the eight labels tsunami, storms, flooding, pollution, erosion, currents, climate,
  general, and that label is what the file's \<^verbatim>\<open>categorize_hazard\<close> gives for the post's
  matched keywords; so two such posts with the same matched keywords carry the same
  category. (In \<^verbatim>\<open>web_scraper.py\<close> these are the demo posts, whose written category
  agrees with the categorizer on their written keywords.)
\<close>

theorem classified_post_category:
  "(\<forall>t \<in> set (fst (search_ocean_hazards_scarper scrape TextBlob hash n c)).
      matched_keywords t \<noteq> [] \<and>
      hazard_category t = categorize_hazard_scarper (matched_keywords t) \<and>
      hazard_category t \<in>
        set [''tsunami'', ''storms'', ''flooding'', ''pollution'', ''erosion'', ''currents'',
             ''climate'', ''general'']) \<and>
   (\<forall>t \<in> set (fst (search_ocean_hazards TextBlob now rnd c)).
      categorize_hazard (matched_keywords t) = Inr (hazard_category t) \<and>
      hazard_category t \<in>
        set [''tsunami'', ''storms'', ''flooding'', ''pollution'', ''erosion'', ''currents'',
             ''climate'', ''general'']) \<and>
   (\<forall>t \<in> set (fst (search_ocean_hazards_scarper scrape TextBlob hash n c)).
    \<forall>t' \<in> set (fst (search_ocean_hazards_scarper scrape TextBlob hash n c)).
      matched_keywords t = matched_keywords t' \<longrightarrow> hazard_category t = hazard_category t') \<and>
   (\<forall>t \<in> set (fst (search_ocean_hazards TextBlob now rnd c)).
    \<forall>t' \<in> set (fst (search_ocean_hazards TextBlob now rnd c)).
      matched_keywords t = matched_keywords t' \<longrightarrow> hazard_category t = hazard_category t')"
proof -
  let ?labels = "set [''tsunami'', ''storms'', ''flooding'', ''pollution'', ''erosion'',
    ''currents'', ''climate'', ''general'']"
  let ?Q = "\<lambda>t::OceanHazardTweet_scarper. matched_keywords t \<noteq> [] \<and>
      hazard_category t = categorize_hazard_scarper (matched_keywords t) \<and>
      hazard_category t \<in> ?labels"
  let ?R = "\<lambda>t::OceanHazardTweet. categorize_hazard (matched_keywords t) = Inr (hazard_category t) \<and>
      hazard_category t \<in> ?labels"
  have "(\<forall>t \<in> set (fst (search_ocean_hazards_scarper scrape TextBlob hash n c)). ?Q t) \<and>
      cache_all (\<lambda>r. True) (snd (search_ocean_hazards_scarper scrape TextBlob hash n c))"
    by (rule search_ocean_hazards_scarper_inv)
      (use categorize_hazard_scarper_range in \<open>simp_all add: cache_all_def\<close>)
  then have 1: "\<forall>t \<in> set (fst (search_ocean_hazards_scarper scrape TextBlob hash n c)). ?Q t"
    by (rule conjunct1)
  have known: "d_category \<in> ?labels" and agree: "categorize_hazard d_keywords = Inr d_category"
    if "(d_content, d_username, d_handle, d_keywords, d_category) \<in> set demo_data"
    for d_content d_username d_handle d_keywords d_category
  proof -
    from that demo_data_categorized show agree: "categorize_hazard d_keywords = Inr d_category"
      by (auto simp: list_all_iff)
    from categorize_hazard_range [of d_keywords] agree
    have "d_category \<in> set category_priority \<or> d_category = ''general'' \<or> d_category = ''unknown''"
      by auto
    moreover have "d_category \<noteq> ''unknown''"
    proof
      assume u: "d_category = ''unknown''"
      have "list_all (\<lambda>(d_content, d_username, d_handle, d_keywords, d_category).
          d_category \<noteq> ''unknown'') demo_data"
        unfolding demo_data_def by (simp only: list_all_Cons_iff list_all_Nil_iff prod.case) simp
      with that u show False
        by (auto simp: list_all_iff)
    qed
    ultimately show "d_category \<in> ?labels"
      by (auto simp: category_priority_def)
  qed
  have "(\<forall>t \<in> set (fst (demo_loop TextBlob now rnd 0 demo_data [] c)). ?R t) \<and>
      cache_all (\<lambda>r. True) (snd (demo_loop TextBlob now rnd 0 demo_data [] c))"
    by (rule demo_loop_inv [where D = "set demo_data" and P = "\<lambda>r. True"])
      (use known agree in \<open>simp_all add: cache_all_def\<close>)
  then have 2: "\<forall>t \<in> set (fst (search_ocean_hazards TextBlob now rnd c)). ?R t"
    unfolding search_ocean_hazards_def get_demo_tweets_def by (rule conjunct1)
  from 1 have 3: "\<forall>t \<in> set (fst (search_ocean_hazards_scarper scrape TextBlob hash n c)).
    \<forall>t' \<in> set (fst (search_ocean_hazards_scarper scrape TextBlob hash n c)).
      matched_keywords t = matched_keywords t' \<longrightarrow> hazard_category t = hazard_category t'"
    by simp
  from 2 have 4: "\<forall>t \<in> set (fst (search_ocean_hazards TextBlob now rnd c)).
    \<forall>t' \<in> set (fst (search_ocean_hazards TextBlob now rnd c)).
      matched_keywords t = matched_keywords t' \<longrightarrow> hazard_category t = hazard_category t'"
    by (metis sum.inject(2))
  from 1 2 3 4 show ?thesis
    by blast
qed

theorem classified_post_category_witness:
  "map (\<lambda>t. (matched_keywords t, hazard_category t))
     (fst (search_ocean_hazards_scarper
       (\<lambda>keyword n. if keyword = ''flood'' then
          Some [\<lparr>raw_username = ''A'', raw_handle = ''a'',
                 raw_content = ''Coastal flooding after the storm surge'',
                 raw_timestamp = ''now'', raw_retweets = 1, raw_likes = 2, raw_replies = 3,
                 raw_tweet_id = ''nitter_1'', raw_verified = Some True,
                 raw_source = ''NITTER_SCRAPE''\<rparr>] else None)
       (\<lambda>s. Some 0) (\<lambda>s. int (length s)) 20 Map.empty)) =
     [([''storm surge'', ''flood'', ''coastal flooding''], ''storms'')] \<and>
   categorize_hazard_scarper [''storm surge'', ''flood'', ''coastal flooding''] = ''storms'' \<and>
   length (fst (search_ocean_hazards (\<lambda>s. Some 0) (\<lambda>i. ''2024-01-01 00:00'')
     (\<lambda>i. (100, 0.5, 1, 0.2)) Map.empty)) = 25 \<and>
   list_all (\<lambda>t. categorize_hazard (matched_keywords t) = Inr (hazard_category t))
     (fst (search_ocean_hazards (\<lambda>s. Some 0) (\<lambda>i. ''2024-01-01 00:00'')
       (\<lambda>i. (100, 0.5, 1, 0.2)) Map.empty))"
proof -
  let ?scrape = "\<lambda>keyword (n::nat). if keyword = ''flood'' then
          Some [\<lparr>raw_username = ''A'', raw_handle = ''a'',
                 raw_content = ''Coastal flooding after the storm surge'',
                 raw_timestamp = ''now'', raw_retweets = 1, raw_likes = 2, raw_replies = 3,
                 raw_tweet_id = ''nitter_1'', raw_verified = Some True,
                 raw_source = ''NITTER_SCRAPE''\<rparr>] else None"
  let ?tb = "\<lambda>s::string. Some (0::real)"
  let ?hash = "\<lambda>s::string. int (length s)"
  let ?now = "\<lambda>i::nat. ''2024-01-01 00:00''"
  let ?rnd = "\<lambda>i::nat. (100::int, 0.5::real, 1::real, 0.2::real)"
  let ?posts = "fst (search_ocean_hazards_scarper ?scrape ?tb ?hash 20 Map.empty)"
  let ?demo = "fst (search_ocean_hazards ?tb ?now ?rnd Map.empty)"
  note inst = classified_post_category [of ?scrape ?tb ?hash 20 Map.empty ?now ?rnd]
  have e: "map (\<lambda>t. (matched_keywords t, hazard_category t)) ?posts =
      [([''storm surge'', ''flood'', ''coastal flooding''], ''storms'')]"
    by code_simp
  define posts where "posts = ?posts"
  define demo where "demo = ?demo"
  have 1: "\<forall>t \<in> set posts. matched_keywords t \<noteq> [] \<and>
      hazard_category t = categorize_hazard_scarper (matched_keywords t) \<and>
      hazard_category t \<in>
        set [''tsunami'', ''storms'', ''flooding'', ''pollution'', ''erosion'', ''currents'',
             ''climate'', ''general'']"
    unfolding posts_def by (rule inst [THEN conjunct1])
  have 2: "\<forall>t \<in> set demo. categorize_hazard (matched_keywords t) = Inr (hazard_category t) \<and>
      hazard_category t \<in>
        set [''tsunami'', ''storms'', ''flooding'', ''pollution'', ''erosion'', ''currents'',
             ''climate'', ''general'']"
    unfolding demo_def by (rule inst [THEN conjunct2, THEN conjunct1])
  from e obtain t0 where t0: "posts = [t0]"
    and "(matched_keywords t0, hazard_category t0) =
      ([''storm surge'', ''flood'', ''coastal flooding''], ''storms'')"
    unfolding posts_def [symmetric] by (cases posts) auto
  then have m: "matched_keywords t0 = [''storm surge'', ''flood'', ''coastal flooding'']"
    and h: "hazard_category t0 = ''storms''"
    by simp_all
  from 1 t0 have "hazard_category t0 = categorize_hazard_scarper (matched_keywords t0)"
    by simp
  then have s: "categorize_hazard_scarper [''storm surge'', ''flood'', ''coastal flooding''] = ''storms''"
    unfolding m h by (rule sym)
  have l: "length ?demo = 25"
    by (simp only: search_ocean_hazards_def get_demo_tweets_length)
  from 2 have d: "list_all (\<lambda>t. categorize_hazard (matched_keywords t) = Inr (hazard_category t)) demo"
    unfolding list_all_iff by blast
  show ?thesis
    by (intro conjI) (rule e, rule s, rule l, rule d [unfolded demo_def])
qed

text \<open>
  The fallback posts of \<^verbatim>\<open>web_scarper.py\<close> carry the labels written in their entries:
  tech, finance and eco, none of the eight, on the same empty keyword list.
\<close>

theorem fallback_post_category_counterexample:
  "(case get_fallback_tech_demo_tweets_scarper (\<lambda>s. Some 0) (\<lambda>i. ''2024-01-01 00:00'')
           (\<lambda>i. (10, 50, 5, True)) Map.empty of
      Inl e \<Rightarrow> False
    | Inr (tweets, c') \<Rightarrow>
        map (\<lambda>t. (matched_keywords t, hazard_category t)) tweets =
          [([], ''tech''), ([], ''tech''), ([], ''finance''), ([], ''tech''), ([], ''eco'')]) \<and>
   ''tech'' \<notin> set [''tsunami'', ''storms'', ''flooding'', ''pollution'', ''erosion'',
                   ''currents'', ''climate'', ''general''] \<and>
   ''tech'' \<noteq> ''finance''"
proof -
  let ?tb = "\<lambda>s::string. Some (0::real)"
  let ?now = "\<lambda>i::nat. ''2024-01-01 00:00''"
  let ?rnd = "\<lambda>i::nat. (10::int, 50::int, 5::int, True)"
  from fallback_loop_total [of ?tb ?now ?rnd 0 fallback_demo_data "[]" Map.empty]
  obtain tweets c' where
    f: "get_fallback_tech_demo_tweets_scarper ?tb ?now ?rnd Map.empty = Inr (tweets, c')"
    by (auto simp: get_fallback_tech_demo_tweets_scarper_def)
  have m: "map (\<lambda>(d_content, d_username, d_handle, d_keywords, d_category).
            (d_keywords, d_category)) fallback_demo_data =
      [([], ''tech''), ([], ''tech''), ([], ''finance''), ([], ''tech''), ([], ''eco'')]"
    unfolding fallback_demo_data_def by (simp only: list.map prod.case)
  from fallback_loop_fields [OF f [unfolded get_fallback_tech_demo_tweets_scarper_def]]
  have "map (\<lambda>t. (matched_keywords t, hazard_category t)) tweets =
      [([], ''tech''), ([], ''tech''), ([], ''finance''), ([], ''tech''), ([], ''eco'')]"
    by (simp only: m list.map append_Nil)
  then show ?thesis
    by (simp add: f)
qed

section \<open>Report Aggregator: the building blocks\<close>

lemma and_then_Inr [simp]: "and_then (Inr x) f = f x"
  by (simp add: and_then_def)

lemma and_then_Inl [simp]: "and_then (Inl e) f = Inl e"
  by (simp add: and_then_def)

lemma py_div_pos: "0 < n \<Longrightarrow> py_div fl x n = Inr (float_div fl x (real n))"
  by (simp add: py_div_def)

lemma first_least_snoc:
  assumes "first_least f pre best"
  shows "first_least f (pre @ [y]) (if f y < f best then y else best)"
proof -
  from assms obtain before after where pre: "pre = before @ best # after"
    and b: "\<forall>x \<in> set before. f best < f x" and a: "\<forall>x \<in> set after. f best \<le> f x"
    unfolding first_least_def by blast
  show ?thesis
  proof (cases "f y < f best")
    case True
    have "pre @ [y] = pre @ y # []"
      by simp
    moreover have "\<forall>x \<in> set pre. f y < f x"
      using True a b by (auto simp: pre intro: less_trans less_le_trans)
    ultimately have "first_least f (pre @ [y]) y"
      unfolding first_least_def by (metis empty_iff empty_set)
    with True show ?thesis by simp
  next
    case False
    have "pre @ [y] = before @ best # (after @ [y])"
      by (simp add: pre)
    moreover have "\<forall>x \<in> set (after @ [y]). f best \<le> f x"
      using False a by auto
    ultimately have "first_least f (pre @ [y]) best"
      unfolding first_least_def using b by blast
    with False show ?thesis by simp
  qed
qed

lemma fold_first_least:
  "first_least f pre best \<Longrightarrow>
   first_least f (pre @ xs) (fold (\<lambda>y b. if f y < f b then y else b) xs best)"
proof (induction xs arbitrary: pre best)
  case Nil
  then show ?case by simp
next
  case (Cons y ys)
  from Cons.IH [OF first_least_snoc [OF Cons.prems, of y]] show ?case
    by simp
qed

lemma py_min_first_least: "xs \<noteq> [] \<Longrightarrow> \<exists>m. py_min f xs = Inr m \<and> first_least f xs m"
proof (cases xs)
  case Nil
  moreover assume "xs \<noteq> []"
  ultimately show ?thesis by simp
next
  case (Cons x rest)
  have "first_least f [x] x"
    unfolding first_least_def by (rule exI [of _ "[]"], rule exI [of _ "[]"]) simp
  from fold_first_least [OF this, of rest] show ?thesis
    by (simp add: Cons)
qed

lemma first_greatest_snoc:
  assumes "first_greatest f pre best"
  shows "first_greatest f (pre @ [y]) (if f best < f y then y else best)"
proof -
  from assms obtain before after where pre: "pre = before @ best # after"
    and b: "\<forall>x \<in> set before. f x < f best" and a: "\<forall>x \<in> set after. f x \<le> f best"
    unfolding first_greatest_def by blast
  show ?thesis
  proof (cases "f best < f y")
    case True
    have "pre @ [y] = pre @ y # []"
      by simp
    moreover have "\<forall>x \<in> set pre. f x < f y"
      using True a b by (auto simp: pre intro: less_trans le_less_trans)
    ultimately have "first_greatest f (pre @ [y]) y"
      unfolding first_greatest_def by (metis empty_iff empty_set)
    with True show ?thesis by simp
  next
    case False
    have "pre @ [y] = before @ best # (after @ [y])"
      by (simp add: pre)
    moreover have "\<forall>x \<in> set (after @ [y]). f x \<le> f best"
      using False a by auto
    ultimately have "first_greatest f (pre @ [y]) best"
      unfolding first_greatest_def using b by blast
    with False show ?thesis by simp
  qed
qed

lemma fold_first_greatest:
  "first_greatest f pre best \<Longrightarrow>
   first_greatest f (pre @ xs) (fold (\<lambda>y b. if f b < f y then y else b) xs best)"
proof (induction xs arbitrary: pre best)
  case Nil
  then show ?case by simp
next
  case (Cons y ys)
  from Cons.IH [OF first_greatest_snoc [OF Cons.prems, of y]] show ?case
    by simp
qed

lemma py_max_first_greatest:
  "xs \<noteq> [] \<Longrightarrow> \<exists>m. py_max f xs = Inr m \<and> first_greatest f xs m"
proof (cases xs)
  case Nil
  moreover assume "xs \<noteq> []"
  ultimately show ?thesis by simp
next
  case (Cons x rest)
  have "first_greatest f [x] x"
    unfolding first_greatest_def by (rule exI [of _ "[]"], rule exI [of _ "[]"]) simp
  from fold_first_greatest [OF this, of rest] show ?thesis
    by (simp add: Cons)
qed

lemma map_of_dict_put: "map_of (dict_put d k v) = (map_of d)(k \<mapsto> v)"
  by (induction d k v rule: dict_put.induct) (auto simp: fun_eq_iff)

lemma keys_dict_put: "set (map fst (dict_put d k v)) = insert k (set (map fst d))"
  by (induction d k v rule: dict_put.induct) auto

lemma distinct_dict_put: "distinct (map fst d) \<Longrightarrow> distinct (map fst (dict_put d k v))"
proof (induction d k v rule: dict_put.induct)
  case (1 k v)
  show ?case by simp
next
  case (2 k' v' d k v)
  show ?case
  proof (cases "k' = k")
    case True
    with "2.prems" show ?thesis by simp
  next
    case False
    with "2.prems" "2.IH" keys_dict_put [of d k v] show ?thesis
      by auto
  qed
qed

lemma map_of_counter_add:
  "map_of (counter_add c x) =
     (map_of c)(x \<mapsto> (case map_of c x of None \<Rightarrow> 1 | Some n \<Rightarrow> n + 1))"
  by (induction c x rule: counter_add.induct) (auto simp: fun_eq_iff)

lemma map_of_fold_counter_add:
  "map_of (fold (\<lambda>x c. counter_add c x) xs c) k =
     (if k \<in> set xs
      then Some ((case map_of c k of None \<Rightarrow> 0 | Some n \<Rightarrow> n) + length [x \<leftarrow> xs. x = k])
      else map_of c k)"
proof (induction xs arbitrary: c)
  case Nil
  show ?case by simp
next
  case (Cons x xs)
  show ?case
    unfolding fold_Cons comp_apply Cons.IH
    by (auto simp: map_of_counter_add filter_empty_conv split: option.splits)
qed

lemma map_of_Counter:
  "map_of (Counter xs) k = (if k \<in> set xs then Some (length [x \<leftarrow> xs. x = k]) else None)"
  by (simp add: Counter_def map_of_fold_counter_add)

lemma jget_json_of_counts:
  "jget (json_of_counts c) k = map_option (\<lambda>n. JInt (int n)) (map_of c k)"
  by (simp add: jget_def json_of_counts_def map_of_map)

lemma jget_label_counts:
  "jget (json_of_counts (Counter (map sentiment_label ts))) l =
     (if l \<in> sentiment_label ` set ts
      then Some (JInt (int (length [t \<leftarrow> ts. sentiment_label t = l])))
      else None)"
proof -
  have "length [x \<leftarrow> map sentiment_label ts. x = l] = length [t \<leftarrow> ts. sentiment_label t = l]"
    by (induction ts) simp_all
  then show ?thesis
    by (simp add: jget_json_of_counts map_of_Counter)
qed

lemma category_stats_nonempty:
  "ct \<noteq> [] \<Longrightarrow>
   category_stats fl ct =
     Inr (JDict
       [(''total_tweets'', JInt (int (length ct))),
        (''sentiment_distribution'', json_of_counts (Counter (map sentiment_label ct))),
        (''avg_sentiment_score'',
           JReal (float_round fl
             (float_div fl (float_sum fl (map sentiment_score ct)) (real (length ct))) 3)),
        (''avg_engagement'', JDict
           [(''likes'',
               JReal (float_round fl
                 (float_div fl (real_of_int (sum_list (map likes ct))) (real (length ct))) 1)),
            (''retweets'',
               JReal (float_round fl
                 (float_div fl (real_of_int (sum_list (map retweets ct))) (real (length ct))) 1)),
            (''replies'',
               JReal (float_round fl
                 (float_div fl (real_of_int (sum_list (map replies ct))) (real (length ct))) 1))])])"
  by (simp add: category_stats_def py_div_pos)

lemma category_stats_scarper_nonempty:
  "ct \<noteq> [] \<Longrightarrow>
   category_stats_scarper fl ct =
     Inr (JDict
       [(''total_tweets'', JInt (int (length ct))),
        (''sentiment_distribution'', json_of_counts (Counter (map sentiment_label ct))),
        (''avg_sentiment_score'',
           JReal (float_round fl
             (float_div fl (float_sum fl (map sentiment_score ct)) (real (length ct))) 3)),
        (''avg_engagement'', JDict
           [(''likes'',
               JReal (float_round fl
                 (float_div fl (real_of_int (sum_list (map likes ct))) (real (length ct))) 1)),
            (''retweets'',
               JReal (float_round fl
                 (float_div fl (real_of_int (sum_list (map retweets ct))) (real (length ct))) 1))])])"
  by (simp add: category_stats_scarper_def py_div_pos)

lemma categories_loop_result:
  assumes "\<forall>c \<in> set cats. [t \<leftarrow> tweets. hazard_category t = c] \<noteq> []"
    and "distinct (map fst acc)"
  shows "\<exists>d. categories_loop fl tweets cats acc = Inr d \<and> distinct (map fst d) \<and>
     (\<forall>c. map_of d c =
        (if c \<in> set cats
         then (case category_stats fl [t \<leftarrow> tweets. hazard_category t = c] of
                 Inl e \<Rightarrow> None | Inr stats \<Rightarrow> Some stats)
         else map_of acc c))"
  using assms
proof (induction cats arbitrary: acc)
  case Nil
  then show ?case by simp
next
  case (Cons c cats)
  let ?ct = "[t \<leftarrow> tweets. hazard_category t = c]"
  from Cons.prems have ne: "?ct \<noteq> []"
    and rest: "\<forall>c \<in> set cats. [t \<leftarrow> tweets. hazard_category t = c] \<noteq> []"
    by simp_all
  from category_stats_nonempty [OF ne] obtain stats where s: "category_stats fl ?ct = Inr stats"
    by blast
  from Cons.IH [OF rest distinct_dict_put [OF Cons.prems(2)], of c stats]
  obtain d where d: "categories_loop fl tweets cats (dict_put acc c stats) = Inr d"
    and dd: "distinct (map fst d)"
    and m: "\<forall>k. map_of d k =
        (if k \<in> set cats
         then (case category_stats fl [t \<leftarrow> tweets. hazard_category t = k] of
                 Inl e \<Rightarrow> None | Inr stats \<Rightarrow> Some stats)
         else map_of (dict_put acc c stats) k)"
    by blast
  have "categories_loop fl tweets (c # cats) acc = Inr d"
    by (simp add: Let_def s d)
  moreover have "\<forall>k. map_of d k =
        (if k \<in> set (c # cats)
         then (case category_stats fl [t \<leftarrow> tweets. hazard_category t = k] of
                 Inl e \<Rightarrow> None | Inr stats \<Rightarrow> Some stats)
         else map_of acc k)"
    using m s by (simp add: map_of_dict_put)
  ultimately show ?case using dd by blast
qed

lemma categories_loop_scarper_result:
  assumes "\<forall>c \<in> set cats. [t \<leftarrow> tweets. hazard_category t = c] \<noteq> []"
    and "distinct (map fst acc)"
  shows "\<exists>d. categories_loop_scarper fl tweets cats acc = Inr d \<and> distinct (map fst d) \<and>
     (\<forall>c. map_of d c =
        (if c \<in> set cats
         then (case category_stats_scarper fl [t \<leftarrow> tweets. hazard_category t = c] of
                 Inl e \<Rightarrow> None | Inr stats \<Rightarrow> Some stats)
         else map_of acc c))"
  using assms
proof (induction cats arbitrary: acc)
  case Nil
  then show ?case by simp
next
  case (Cons c cats)
  let ?ct = "[t \<leftarrow> tweets. hazard_category t = c]"
  from Cons.prems have ne: "?ct \<noteq> []"
    and rest: "\<forall>c \<in> set cats. [t \<leftarrow> tweets. hazard_category t = c] \<noteq> []"
    by simp_all
  from category_stats_scarper_nonempty [OF ne]
  obtain stats where s: "category_stats_scarper fl ?ct = Inr stats"
    by blast
  from Cons.IH [OF rest distinct_dict_put [OF Cons.prems(2)], of c stats]
  obtain d where d: "categories_loop_scarper fl tweets cats (dict_put acc c stats) = Inr d"
    and dd: "distinct (map fst d)"
    and m: "\<forall>k. map_of d k =
        (if k \<in> set cats
         then (case category_stats_scarper fl [t \<leftarrow> tweets. hazard_category t = k] of
                 Inl e \<Rightarrow> None | Inr stats \<Rightarrow> Some stats)
         else map_of (dict_put acc c stats) k)"
    by blast
  have "categories_loop_scarper fl tweets (c # cats) acc = Inr d"
    using ne by (simp add: Let_def s d)
  moreover have "\<forall>k. map_of d k =
        (if k \<in> set (c # cats)
         then (case category_stats_scarper fl [t \<leftarrow> tweets. hazard_category t = k] of
                 Inl e \<Rightarrow> None | Inr stats \<Rightarrow> Some stats)
         else map_of acc k)"
    using m s by (simp add: map_of_dict_put)
  ultimately show ?case using dd by blast
qed

lemma present_category_nonempty:
  "\<forall>c \<in> set (py_set (map hazard_category tweets)). [t \<leftarrow> tweets. hazard_category t = c] \<noteq> []"
  by (auto simp: py_set_def filter_empty_conv)

lemma occurring_category_nonempty:
  "c \<in> hazard_category ` set tweets \<Longrightarrow> [t \<leftarrow> tweets. hazard_category t = c] \<noteq> []"
  by (auto simp: filter_empty_conv)

lemma first_least_pair: "first_least f [a, b] m \<Longrightarrow> m = (if f b < f a then b else a)"
  unfolding first_least_def
  by (auto simp: Cons_eq_append_conv append_eq_Cons_conv)

lemma first_greatest_pair: "first_greatest f [a, b] m \<Longrightarrow> m = (if f a < f b then b else a)"
  unfolding first_greatest_def
  by (auto simp: Cons_eq_append_conv append_eq_Cons_conv)
section \<open>Report Aggregator: the report of a non-empty sequence\<close>

lemma generate_sentiment_report_shape:
  fixes tweets :: "'a OceanHazardTweet_scheme list"
  assumes "tweets \<noteq> []"
  shows "\<exists>categories most_negative most_positive most_engaging.
     first_least sentiment_score tweets most_negative \<and>
     first_greatest sentiment_score tweets most_positive \<and>
     first_greatest (\<lambda>t. likes t + retweets t) tweets most_engaging \<and>
     distinct (map fst categories) \<and>
     (\<forall>c. map_of categories c =
        (if c \<in> hazard_category ` set tweets
         then Some (JDict
           [(''total_tweets'', JInt (int (length [t \<leftarrow> tweets. hazard_category t = c]))),
            (''sentiment_distribution'',
               json_of_counts
                 (Counter (map sentiment_label [t \<leftarrow> tweets. hazard_category t = c]))),
            (''avg_sentiment_score'',
               JReal (float_round fl
                 (float_div fl
                    (float_sum fl (map sentiment_score [t \<leftarrow> tweets. hazard_category t = c]))
                    (real (length [t \<leftarrow> tweets. hazard_category t = c]))) 3)),
            (''avg_engagement'', JDict
               [(''likes'',
                   JReal (float_round fl
                     (float_div fl
                        (real_of_int (sum_list (map likes [t \<leftarrow> tweets. hazard_category t = c])))
                        (real (length [t \<leftarrow> tweets. hazard_category t = c]))) 1)),
                (''retweets'',
                   JReal (float_round fl
                     (float_div fl
                        (real_of_int
                           (sum_list (map retweets [t \<leftarrow> tweets. hazard_category t = c])))
                        (real (length [t \<leftarrow> tweets. hazard_category t = c]))) 1)),
                (''replies'',
                   JReal (float_round fl
                     (float_div fl
                        (real_of_int
                           (sum_list (map replies [t \<leftarrow> tweets. hazard_category t = c])))
                        (real (length [t \<leftarrow> tweets. hazard_category t = c]))) 1))])])
         else None)) \<and>
     generate_sentiment_report fl tweets =
       Inr (JDict
         [(''summary'', JDict
             [(''total_tweets'', JInt (int (length tweets))),
              (''sentiment_distribution'',
                 json_of_counts (Counter (map sentiment_label tweets))),
              (''avg_sentiment_score'',
                 JReal (float_round fl
                   (float_div fl (float_sum fl (map sentiment_score tweets))
                      (real (length tweets))) 3)),
              (''total_engagement'', JDict
                 [(''likes'', JInt (sum_list (map likes tweets))),
                  (''retweets'', JInt (sum_list (map retweets tweets))),
                  (''replies'', JInt (sum_list (map replies tweets)))])]),
          (''by_hazard_category'', JDict categories),
          (''top_keywords'',
             json_of_counts (most_common 15 (Counter (concat (map matched_keywords tweets))))),
          (''notable_tweets'', JDict
             [(''most_negative'', JDict
                 [(''content'', JStr (content most_negative)),
                  (''score'', JReal (sentiment_score most_negative)),
                  (''category'', JStr (hazard_category most_negative)),
                  (''handle'', JStr (handle most_negative))]),
              (''most_positive'', JDict
                 [(''content'', JStr (content most_positive)),
                  (''score'', JReal (sentiment_score most_positive)),
                  (''category'', JStr (hazard_category most_positive)),
                  (''handle'', JStr (handle most_positive))]),
              (''most_engaging'', JDict
                 [(''content'', JStr (content most_engaging)),
                  (''likes'', JInt (likes most_engaging)),
                  (''retweets'', JInt (retweets most_engaging)),
                  (''category'', JStr (hazard_category most_engaging)),
                  (''handle'', JStr (handle most_engaging))])])])"
proof -
  from categories_loop_result [OF present_category_nonempty, of "[]" fl tweets]
  obtain d where d: "categories_loop fl tweets (py_set (map hazard_category tweets)) [] = Inr d"
    and dd: "distinct (map fst d)"
    and m: "\<forall>c. map_of d c =
        (if c \<in> set (py_set (map hazard_category tweets))
         then (case category_stats fl [t \<leftarrow> tweets. hazard_category t = c] of
                 Inl e \<Rightarrow> None | Inr stats \<Rightarrow> Some stats)
         else map_of [] c)"
    by auto
  from py_min_first_least [OF assms] obtain mn where mn: "py_min sentiment_score tweets = Inr mn"
    and mn_least: "first_least sentiment_score tweets mn"
    by blast
  from py_max_first_greatest [OF assms]
  obtain mp where mp: "py_max sentiment_score tweets = Inr mp"
    and mp_greatest: "first_greatest sentiment_score tweets mp"
    by blast
  from py_max_first_greatest [OF assms]
  obtain me where me: "py_max (\<lambda>t. likes t + retweets t) tweets = Inr me"
    and me_greatest: "first_greatest (\<lambda>t. likes t + retweets t) tweets me"
    by blast
  from assms have l: "0 < length tweets"
    by simp
  show ?thesis
    apply (rule exI [of _ d])
    apply (rule exI [of _ mn])
    apply (rule exI [of _ mp])
    apply (rule exI [of _ me])
    apply (intro conjI allI)
    subgoal by (rule mn_least)
    subgoal by (rule mp_greatest)
    subgoal by (rule me_greatest)
    subgoal by (rule dd)
    subgoal for c
    proof (cases "c \<in> hazard_category ` set tweets")
      case True
      from category_stats_nonempty [OF occurring_category_nonempty [OF True], of fl]
        m [rule_format, of c] True
      show ?thesis
        by (simp add: py_set_def)
    next
      case False
      with m [rule_format, of c] show ?thesis
        by (simp add: py_set_def)
    qed
    subgoal
      using assms
      by (simp add: generate_sentiment_report_def Let_def d mn mp me py_div_pos [OF l])
    done
qed

lemma generate_sentiment_report_scarper_shape:
  assumes "tweets \<noteq> []"
  shows "\<exists>categories most_negative most_positive most_engaging.
     first_least sentiment_score tweets most_negative \<and>
     first_greatest sentiment_score tweets most_positive \<and>
     first_greatest (\<lambda>t. likes t + retweets t) tweets most_engaging \<and>
     distinct (map fst categories) \<and>
     (\<forall>c. map_of categories c =
        (if c \<in> hazard_category ` set tweets
         then Some (JDict
           [(''total_tweets'', JInt (int (length [t \<leftarrow> tweets. hazard_category t = c]))),
            (''sentiment_distribution'',
               json_of_counts
                 (Counter (map sentiment_label [t \<leftarrow> tweets. hazard_category t = c]))),
            (''avg_sentiment_score'',
               JReal (float_round fl
                 (float_div fl
                    (float_sum fl (map sentiment_score [t \<leftarrow> tweets. hazard_category t = c]))
                    (real (length [t \<leftarrow> tweets. hazard_category t = c]))) 3)),
            (''avg_engagement'', JDict
               [(''likes'',
                   JReal (float_round fl
                     (float_div fl
                        (real_of_int (sum_list (map likes [t \<leftarrow> tweets. hazard_category t = c])))
                        (real (length [t \<leftarrow> tweets. hazard_category t = c]))) 1)),
                (''retweets'',
                   JReal (float_round fl
                     (float_div fl
                        (real_of_int
                           (sum_list (map retweets [t \<leftarrow> tweets. hazard_category t = c])))
                        (real (length [t \<leftarrow> tweets. hazard_category t = c]))) 1))])])
         else None)) \<and>
     generate_sentiment_report_scarper fl tweets =
       Inr (JDict
         [(''summary'', JDict
             [(''total_tweets'', JInt (int (length tweets))),
              (''sentiment_distribution'',
                 json_of_counts (Counter (map sentiment_label tweets))),
              (''avg_sentiment_score'',
                 JReal (float_round fl
                   (float_div fl (float_sum fl (map sentiment_score tweets))
                      (real (length tweets))) 3))]),
          (''by_hazard_category'', JDict categories),
          (''top_keywords'',
             json_of_counts (most_common 15 (Counter (concat (map matched_keywords tweets))))),
          (''notable_tweets'', JDict
             [(''most_negative'', asdict most_negative),
              (''most_positive'', asdict most_positive),
              (''most_engaging'', asdict most_engaging)])])"
proof -
  from categories_loop_scarper_result [OF present_category_nonempty, of "[]" fl tweets]
  obtain d where
    d: "categories_loop_scarper fl tweets (py_set (map hazard_category tweets)) [] = Inr d"
    and dd: "distinct (map fst d)"
    and m: "\<forall>c. map_of d c =
        (if c \<in> set (py_set (map hazard_category tweets))
         then (case category_stats_scarper fl [t \<leftarrow> tweets. hazard_category t = c] of
                 Inl e \<Rightarrow> None | Inr stats \<Rightarrow> Some stats)
         else map_of [] c)"
    by auto
  from py_min_first_least [OF assms] obtain mn where mn: "py_min sentiment_score tweets = Inr mn"
    and mn_least: "first_least sentiment_score tweets mn"
    by blast
  from py_max_first_greatest [OF assms]
  obtain mp where mp: "py_max sentiment_score tweets = Inr mp"
    and mp_greatest: "first_greatest sentiment_score tweets mp"
    by blast
  from py_max_first_greatest [OF assms]
  obtain me where me: "py_max (\<lambda>t. likes t + retweets t) tweets = Inr me"
    and me_greatest: "first_greatest (\<lambda>t. likes t + retweets t) tweets me"
    by blast
  from assms have l: "0 < length tweets"
    by simp
  show ?thesis
    apply (rule exI [of _ d])
    apply (rule exI [of _ mn])
    apply (rule exI [of _ mp])
    apply (rule exI [of _ me])
    apply (intro conjI allI)
    subgoal by (rule mn_least)
    subgoal by (rule mp_greatest)
    subgoal by (rule me_greatest)
    subgoal by (rule dd)
    subgoal for c
    proof (cases "c \<in> hazard_category ` set tweets")
      case True
      from category_stats_scarper_nonempty [OF occurring_category_nonempty [OF True], of fl]
        m [rule_format, of c] True
      show ?thesis
        by (simp add: py_set_def)
    next
      case False
      with m [rule_format, of c] show ?thesis
        by (simp add: py_set_def)
    qed
    subgoal
      using assms
      by (simp add: generate_sentiment_report_scarper_def Let_def d mn mp me py_div_pos [OF l])
    done
qed

text \<open>
  C8. On the empty sequence both files return the dictionary
  \<^verbatim>\<open>{"error": "No tweets to analyze"}\<close> and raise nothing. On every non-empty sequence they
  return, without raising, the full report, which is this dictionary and no other:

    \<^item> \<^verbatim>\<open>summary\<close>: the number of posts, the count of each label that occurs, the mean
      sentiment score rounded to 3 decimals and, in \<^verbatim>\<open>web_scraper.py\<close>, the sums of the
      likes, retweets and replies;

    \<^item> \<^verbatim>\<open>by_hazard_category\<close>: one entry for each category that occurs and for no other,
      each key once, holding the number of the category's posts, the count of each of their
      labels, their mean sentiment score rounded to 3 decimals and their mean likes and
      retweets (in \<^verbatim>\<open>web_scraper.py\<close> also replies) rounded to 1 decimal;

    \<^item> \<^verbatim>\<open>top_keywords\<close>: the 15 most frequent matched keywords with their counts;

    \<^item> \<^verbatim>\<open>notable_tweets\<close>: the first post with the least sentiment score, the first post
      with the greatest sentiment score and the first post with the greatest sum of likes
      and retweets; four or five fields of each in \<^verbatim>\<open>web_scraper.py\<close>, the whole post in
      \<^verbatim>\<open>web_scarper.py\<close>.

  The sum, the division and the rounding are Python's, whatever they compute.
\<close>

theorem report_no_data_or_full:
  fixes tweets :: "'a OceanHazardTweet_scheme list"
  shows
  "generate_sentiment_report fl [] = Inr (JDict [(''error'', JStr ''No tweets to analyze'')]) \<and>
   generate_sentiment_report_scarper fl [] =
     Inr (JDict [(''error'', JStr ''No tweets to analyze'')]) \<and>
   (tweets \<noteq> [] \<longrightarrow>
      (\<exists>categories most_negative most_positive most_engaging.
         first_least sentiment_score tweets most_negative \<and>
         first_greatest sentiment_score tweets most_positive \<and>
         first_greatest (\<lambda>t. likes t + retweets t) tweets most_engaging \<and>
         distinct (map fst categories) \<and>
         (\<forall>c. map_of categories c =
            (if c \<in> hazard_category ` set tweets
             then Some (JDict
               [(''total_tweets'', JInt (int (length [t \<leftarrow> tweets. hazard_category t = c]))),
                (''sentiment_distribution'',
                   json_of_counts
                     (Counter (map sentiment_label [t \<leftarrow> tweets. hazard_category t = c]))),
                (''avg_sentiment_score'',
                   JReal (float_round fl
                     (float_div fl
                        (float_sum fl
                           (map sentiment_score [t \<leftarrow> tweets. hazard_category t = c]))
                        (real (length [t \<leftarrow> tweets. hazard_category t = c]))) 3)),
                (''avg_engagement'', JDict
                   [(''likes'',
                       JReal (float_round fl
                         (float_div fl
                            (real_of_int
                               (sum_list (map likes [t \<leftarrow> tweets. hazard_category t = c])))
                            (real (length [t \<leftarrow> tweets. hazard_category t = c]))) 1)),
                    (''retweets'',
                       JReal (float_round fl
                         (float_div fl
                            (real_of_int
                               (sum_list (map retweets [t \<leftarrow> tweets. hazard_category t = c])))
                            (real (length [t \<leftarrow> tweets. hazard_category t = c]))) 1)),
                    (''replies'',
                       JReal (float_round fl
                         (float_div fl
                            (real_of_int
                               (sum_list (map replies [t \<leftarrow> tweets. hazard_category t = c])))
                            (real (length [t \<leftarrow> tweets. hazard_category t = c]))) 1))])])
             else None)) \<and>
         generate_sentiment_report fl tweets =
           Inr (JDict
             [(''summary'', JDict
                 [(''total_tweets'', JInt (int (length tweets))),
                  (''sentiment_distribution'',
                     json_of_counts (Counter (map sentiment_label tweets))),
                  (''avg_sentiment_score'',
                     JReal (float_round fl
                       (float_div fl (float_sum fl (map sentiment_score tweets))
                          (real (length tweets))) 3)),
                  (''total_engagement'', JDict
                     [(''likes'', JInt (sum_list (map likes tweets))),
                      (''retweets'', JInt (sum_list (map retweets tweets))),
                      (''replies'', JInt (sum_list (map replies tweets)))])]),
              (''by_hazard_category'', JDict categories),
              (''top_keywords'',
                 json_of_counts
                   (most_common 15 (Counter (concat (map matched_keywords tweets))))),
              (''notable_tweets'', JDict
                 [(''most_negative'', JDict
                     [(''content'', JStr (content most_negative)),
                      (''score'', JReal (sentiment_score most_negative)),
                      (''category'', JStr (hazard_category most_negative)),
                      (''handle'', JStr (handle most_negative))]),
                  (''most_positive'', JDict
                     [(''content'', JStr (content most_positive)),
                      (''score'', JReal (sentiment_score most_positive)),
                      (''category'', JStr (hazard_category most_positive)),
                      (''handle'', JStr (handle most_positive))]),
                  (''most_engaging'', JDict
                     [(''content'', JStr (content most_engaging)),
                      (''likes'', JInt (likes most_engaging)),
                      (''retweets'', JInt (retweets most_engaging)),
                      (''category'', JStr (hazard_category most_engaging)),
                      (''handle'', JStr (handle most_engaging))])])]))) \<and>
   (tweets' \<noteq> [] \<longrightarrow>
      (\<exists>categories most_negative most_positive most_engaging.
         first_least sentiment_score tweets' most_negative \<and>
         first_greatest sentiment_score tweets' most_positive \<and>
         first_greatest (\<lambda>t. likes t + retweets t) tweets' most_engaging \<and>
         distinct (map fst categories) \<and>
         (\<forall>c. map_of categories c =
            (if c \<in> hazard_category ` set tweets'
             then Some (JDict
               [(''total_tweets'', JInt (int (length [t \<leftarrow> tweets'. hazard_category t = c]))),
                (''sentiment_distribution'',
                   json_of_counts
                     (Counter (map sentiment_label [t \<leftarrow> tweets'. hazard_category t = c]))),
                (''avg_sentiment_score'',
                   JReal (float_round fl
                     (float_div fl
                        (float_sum fl
                           (map sentiment_score [t \<leftarrow> tweets'. hazard_category t = c]))
                        (real (length [t \<leftarrow> tweets'. hazard_category t = c]))) 3)),
                (''avg_engagement'', JDict
                   [(''likes'',
                       JReal (float_round fl
                         (float_div fl
                            (real_of_int
                               (sum_list (map likes [t \<leftarrow> tweets'. hazard_category t = c])))
                            (real (length [t \<leftarrow> tweets'. hazard_category t = c]))) 1)),
                    (''retweets'',
                       JReal (float_round fl
                         (float_div fl
                            (real_of_int
                               (sum_list (map retweets [t \<leftarrow> tweets'. hazard_category t = c])))
                            (real (length [t \<leftarrow> tweets'. hazard_category t = c]))) 1))])])
             else None)) \<and>
         generate_sentiment_report_scarper fl tweets' =
           Inr (JDict
             [(''summary'', JDict
                 [(''total_tweets'', JInt (int (length tweets'))),
                  (''sentiment_distribution'',
                     json_of_counts (Counter (map sentiment_label tweets'))),
                  (''avg_sentiment_score'',
                     JReal (float_round fl
                       (float_div fl (float_sum fl (map sentiment_score tweets'))
                          (real (length tweets'))) 3))]),
              (''by_hazard_category'', JDict categories),
              (''top_keywords'',
                 json_of_counts
                   (most_common 15 (Counter (concat (map matched_keywords tweets'))))),
              (''notable_tweets'', JDict
                 [(''most_negative'', asdict most_negative),
                  (''most_positive'', asdict most_positive),
                  (''most_engaging'', asdict most_engaging)])])))"
  apply (intro conjI impI)
  subgoal by (simp add: generate_sentiment_report_def)
  subgoal by (simp add: generate_sentiment_report_scarper_def)
  subgoal by (erule generate_sentiment_report_shape)
  subgoal by (erule generate_sentiment_report_scarper_shape)
  done

text \<open>
  Two posts in each file, run with the operations without rounding error. The two posts of
  \<^verbatim>\<open>web_scarper.py\<close> have the same sentiment score: the first one is picked, as the
  most negative and as the most positive.
\<close>

theorem report_no_data_or_full_witness:
  "[\<lparr>username = ''A'', handle = ''a'', content = ''Hope after the tsunami'',
           timestamp = ''now'', retweets = 3, likes = 10, replies = 1, tweet_id = ''demo_001'',
           matched_keywords = [''tsunami''], sentiment_score = 0.25,
           sentiment_label = ''positive'', confidence = 0.45, hazard_category = ''tsunami'',
           source = ''DEMO_DATA''\<rparr>,
     \<lparr>username = ''B'', handle = ''b'', content = ''Hurricane disaster'',
           timestamp = ''now'', retweets = 2, likes = 5, replies = 0, tweet_id = ''demo_002'',
           matched_keywords = [''hurricane''], sentiment_score = - 0.5,
           sentiment_label = ''negative'', confidence = 0.7, hazard_category = ''storms'',
           source = ''DEMO_DATA''\<rparr>] \<noteq> [] \<and>
   (\<exists>categories.
      distinct (map fst categories) \<and>
      map_of categories ''tsunami'' =
        Some (JDict
          [(''total_tweets'', JInt 1),
           (''sentiment_distribution'', JDict [(''positive'', JInt 1)]),
           (''avg_sentiment_score'', JReal 0.25),
           (''avg_engagement'', JDict
              [(''likes'', JReal 10), (''retweets'', JReal 3), (''replies'', JReal 1)])]) \<and>
      map_of categories ''storms'' =
        Some (JDict
          [(''total_tweets'', JInt 1),
           (''sentiment_distribution'', JDict [(''negative'', JInt 1)]),
           (''avg_sentiment_score'', JReal (- 0.5)),
           (''avg_engagement'', JDict
              [(''likes'', JReal 5), (''retweets'', JReal 2), (''replies'', JReal 0)])]) \<and>
      map_of categories ''flooding'' = None \<and>
      generate_sentiment_report exact_ops
        [\<lparr>username = ''A'', handle = ''a'', content = ''Hope after the tsunami'',
           timestamp = ''now'', retweets = 3, likes = 10, replies = 1, tweet_id = ''demo_001'',
           matched_keywords = [''tsunami''], sentiment_score = 0.25,
           sentiment_label = ''positive'', confidence = 0.45, hazard_category = ''tsunami'',
           source = ''DEMO_DATA''\<rparr>,
         \<lparr>username = ''B'', handle = ''b'', content = ''Hurricane disaster'',
           timestamp = ''now'', retweets = 2, likes = 5, replies = 0, tweet_id = ''demo_002'',
           matched_keywords = [''hurricane''], sentiment_score = - 0.5,
           sentiment_label = ''negative'', confidence = 0.7, hazard_category = ''storms'',
           source = ''DEMO_DATA''\<rparr>] =
        Inr (JDict
          [(''summary'', JDict
              [(''total_tweets'', JInt 2),
               (''sentiment_distribution'',
                  JDict [(''positive'', JInt 1), (''negative'', JInt 1)]),
               (''avg_sentiment_score'', JReal (- 0.125)),
               (''total_engagement'', JDict
                  [(''likes'', JInt 15), (''retweets'', JInt 5), (''replies'', JInt 1)])]),
           (''by_hazard_category'', JDict categories),
           (''top_keywords'', JDict [(''tsunami'', JInt 1), (''hurricane'', JInt 1)]),
           (''notable_tweets'', JDict
              [(''most_negative'', JDict
                  [(''content'', JStr ''Hurricane disaster''), (''score'', JReal (- 0.5)),
                   (''category'', JStr ''storms''), (''handle'', JStr ''b'')]),
               (''most_positive'', JDict
                  [(''content'', JStr ''Hope after the tsunami''), (''score'', JReal 0.25),
                   (''category'', JStr ''tsunami''), (''handle'', JStr ''a'')]),
               (''most_engaging'', JDict
                  [(''content'', JStr ''Hope after the tsunami''), (''likes'', JInt 10),
                   (''retweets'', JInt 3), (''category'', JStr ''tsunami''),
                   (''handle'', JStr ''a'')])])])) \<and>
   [\<lparr>username = ''C'', handle = ''c'', content = ''Hurricane disaster'',
           timestamp = ''now'', retweets = 2, likes = 5, replies = 0, tweet_id = ''nitter_1'',
           matched_keywords = [''hurricane''], sentiment_score = - 0.5,
           sentiment_label = ''negative'', confidence = 0.75, hazard_category = ''storms'',
           source = ''NITTER_SCRAPE'', location = None, verified = False\<rparr>,
    \<lparr>username = ''D'', handle = ''d'', content = ''Cyclone damage'',
           timestamp = ''now'', retweets = 3, likes = 10, replies = 1, tweet_id = ''nitter_2'',
           matched_keywords = [''cyclone''], sentiment_score = - 0.5,
           sentiment_label = ''negative'', confidence = 0.75, hazard_category = ''storms'',
           source = ''NITTER_SCRAPE'', location = None, verified = False\<rparr>] \<noteq> [] \<and>
   (\<exists>categories.
      distinct (map fst categories) \<and>
      map_of categories ''storms'' =
        Some (JDict
          [(''total_tweets'', JInt 2),
           (''sentiment_distribution'', JDict [(''negative'', JInt 2)]),
           (''avg_sentiment_score'', JReal (- 0.5)),
           (''avg_engagement'', JDict [(''likes'', JReal 7.5), (''retweets'', JReal 2.5)])]) \<and>
      map_of categories ''tsunami'' = None \<and>
      generate_sentiment_report_scarper exact_ops
        [\<lparr>username = ''C'', handle = ''c'', content = ''Hurricane disaster'',
           timestamp = ''now'', retweets = 2, likes = 5, replies = 0, tweet_id = ''nitter_1'',
           matched_keywords = [''hurricane''], sentiment_score = - 0.5,
           sentiment_label = ''negative'', confidence = 0.75, hazard_category = ''storms'',
           source = ''NITTER_SCRAPE'', location = None, verified = False\<rparr>,
         \<lparr>username = ''D'', handle = ''d'', content = ''Cyclone damage'',
           timestamp = ''now'', retweets = 3, likes = 10, replies = 1, tweet_id = ''nitter_2'',
           matched_keywords = [''cyclone''], sentiment_score = - 0.5,
           sentiment_label = ''negative'', confidence = 0.75, hazard_category = ''storms'',
           source = ''NITTER_SCRAPE'', location = None, verified = False\<rparr>] =
        Inr (JDict
          [(''summary'', JDict
              [(''total_tweets'', JInt 2),
               (''sentiment_distribution'', JDict [(''negative'', JInt 2)]),
               (''avg_sentiment_score'', JReal (- 0.5))]),
           (''by_hazard_category'', JDict categories),
           (''top_keywords'', JDict [(''hurricane'', JInt 1), (''cyclone'', JInt 1)]),
           (''notable_tweets'', JDict
              [(''most_negative'', asdict
                  \<lparr>username = ''C'', handle = ''c'', content = ''Hurricane disaster'',
           timestamp = ''now'', retweets = 2, likes = 5, replies = 0, tweet_id = ''nitter_1'',
           matched_keywords = [''hurricane''], sentiment_score = - 0.5,
           sentiment_label = ''negative'', confidence = 0.75, hazard_category = ''storms'',
           source = ''NITTER_SCRAPE'', location = None, verified = False\<rparr>),
               (''most_positive'', asdict
                  \<lparr>username = ''C'', handle = ''c'', content = ''Hurricane disaster'',
           timestamp = ''now'', retweets = 2, likes = 5, replies = 0, tweet_id = ''nitter_1'',
           matched_keywords = [''hurricane''], sentiment_score = - 0.5,
           sentiment_label = ''negative'', confidence = 0.75, hazard_category = ''storms'',
           source = ''NITTER_SCRAPE'', location = None, verified = False\<rparr>),
               (''most_engaging'', asdict
                  \<lparr>username = ''D'', handle = ''d'', content = ''Cyclone damage'',
           timestamp = ''now'', retweets = 3, likes = 10, replies = 1, tweet_id = ''nitter_2'',
           matched_keywords = [''cyclone''], sentiment_score = - 0.5,
           sentiment_label = ''negative'', confidence = 0.75, hazard_category = ''storms'',
           source = ''NITTER_SCRAPE'', location = None, verified = False\<rparr>)])]))"
proof -
  let ?t1 = "\<lparr>username = ''A'', handle = ''a'', content = ''Hope after the tsunami'',
           timestamp = ''now'', retweets = 3, likes = 10, replies = 1, tweet_id = ''demo_001'',
           matched_keywords = [''tsunami''], sentiment_score = 0.25,
           sentiment_label = ''positive'', confidence = 0.45, hazard_category = ''tsunami'',
           source = ''DEMO_DATA''\<rparr>"
  let ?t2 = "\<lparr>username = ''B'', handle = ''b'', content = ''Hurricane disaster'',
           timestamp = ''now'', retweets = 2, likes = 5, replies = 0, tweet_id = ''demo_002'',
           matched_keywords = [''hurricane''], sentiment_score = - 0.5,
           sentiment_label = ''negative'', confidence = 0.7, hazard_category = ''storms'',
           source = ''DEMO_DATA''\<rparr>"
  let ?s1 = "\<lparr>username = ''C'', handle = ''c'', content = ''Hurricane disaster'',
           timestamp = ''now'', retweets = 2, likes = 5, replies = 0, tweet_id = ''nitter_1'',
           matched_keywords = [''hurricane''], sentiment_score = - 0.5,
           sentiment_label = ''negative'', confidence = 0.75, hazard_category = ''storms'',
           source = ''NITTER_SCRAPE'', location = None, verified = False\<rparr>"
  let ?s2 = "\<lparr>username = ''D'', handle = ''d'', content = ''Cyclone damage'',
           timestamp = ''now'', retweets = 3, likes = 10, replies = 1, tweet_id = ''nitter_2'',
           matched_keywords = [''cyclone''], sentiment_score = - 0.5,
           sentiment_label = ''negative'', confidence = 0.75, hazard_category = ''storms'',
           source = ''NITTER_SCRAPE'', location = None, verified = False\<rparr>"
  note inst = report_no_data_or_full [of exact_ops "[?t1, ?t2]" "[?s1, ?s2]"]
  have n: "[?t1, ?t2] \<noteq> []" and n': "[?s1, ?s2] \<noteq> []"
    by simp_all
  have ops:
    "float_round exact_ops (float_div exact_ops (float_sum exact_ops [1 / 4, - (1 / 2)]) 2) 3 =
       - (1 / 8)"
    "float_round exact_ops (float_div exact_ops (float_sum exact_ops [- (1 / 2), - (1 / 2)]) 2) 3 =
       - (1 / 2)"
    "float_round exact_ops (float_div exact_ops (float_sum exact_ops [1 / 4]) 1) 3 = 1 / 4"
    "float_round exact_ops (float_div exact_ops (float_sum exact_ops [- (1 / 2)]) 1) 3 = - (1 / 2)"
    "float_round exact_ops (float_div exact_ops 10 1) (Suc 0) = 10"
    "float_round exact_ops (float_div exact_ops 3 1) (Suc 0) = 3"
    "float_round exact_ops (float_div exact_ops 1 1) (Suc 0) = 1"
    "float_round exact_ops (float_div exact_ops 5 1) (Suc 0) = 5"
    "float_round exact_ops (float_div exact_ops 2 1) (Suc 0) = 2"
    "float_round exact_ops (float_div exact_ops 0 1) (Suc 0) = 0"
    "float_round exact_ops (float_div exact_ops 15 2) (Suc 0) = 15 / 2"
    "float_round exact_ops (float_div exact_ops 5 2) (Suc 0) = 5 / 2"
    by code_simp+
  have counts: "json_of_counts (Counter [''positive'', ''negative'']) =
      JDict [(''positive'', JInt 1), (''negative'', JInt 1)]"
    "json_of_counts (Counter [''negative'', ''negative'']) = JDict [(''negative'', JInt 2)]"
    "json_of_counts (Counter [''positive'']) = JDict [(''positive'', JInt 1)]"
    "json_of_counts (Counter [''negative'']) = JDict [(''negative'', JInt 1)]"
    "json_of_counts (most_common 15 (Counter [''tsunami'', ''hurricane''])) =
      JDict [(''tsunami'', JInt 1), (''hurricane'', JInt 1)]"
    "json_of_counts (most_common 15 (Counter [''hurricane'', ''cyclone''])) =
      JDict [(''hurricane'', JInt 1), (''cyclone'', JInt 1)]"
    by code_simp+
  show ?thesis
  proof (intro conjI)
    show "[?t1, ?t2] \<noteq> []"
      by (rule n)
    show "[?s1, ?s2] \<noteq> []"
      by (rule n')
    from inst [THEN conjunct2, THEN conjunct2, THEN conjunct1, THEN mp, OF n]
    show "\<exists>categories.
      distinct (map fst categories) \<and>
      map_of categories ''tsunami'' =
        Some (JDict
          [(''total_tweets'', JInt 1),
           (''sentiment_distribution'', JDict [(''positive'', JInt 1)]),
           (''avg_sentiment_score'', JReal 0.25),
           (''avg_engagement'', JDict
              [(''likes'', JReal 10), (''retweets'', JReal 3), (''replies'', JReal 1)])]) \<and>
      map_of categories ''storms'' =
        Some (JDict
          [(''total_tweets'', JInt 1),
           (''sentiment_distribution'', JDict [(''negative'', JInt 1)]),
           (''avg_sentiment_score'', JReal (- 0.5)),
           (''avg_engagement'', JDict
              [(''likes'', JReal 5), (''retweets'', JReal 2), (''replies'', JReal 0)])]) \<and>
      map_of categories ''flooding'' = None \<and>
      generate_sentiment_report exact_ops [?t1, ?t2] =
        Inr (JDict
          [(''summary'', JDict
              [(''total_tweets'', JInt 2),
               (''sentiment_distribution'',
                  JDict [(''positive'', JInt 1), (''negative'', JInt 1)]),
               (''avg_sentiment_score'', JReal (- 0.125)),
               (''total_engagement'', JDict
                  [(''likes'', JInt 15), (''retweets'', JInt 5), (''replies'', JInt 1)])]),
           (''by_hazard_category'', JDict categories),
           (''top_keywords'', JDict [(''tsunami'', JInt 1), (''hurricane'', JInt 1)]),
           (''notable_tweets'', JDict
              [(''most_negative'', JDict
                  [(''content'', JStr ''Hurricane disaster''), (''score'', JReal (- 0.5)),
                   (''category'', JStr ''storms''), (''handle'', JStr ''b'')]),
               (''most_positive'', JDict
                  [(''content'', JStr ''Hope after the tsunami''), (''score'', JReal 0.25),
                   (''category'', JStr ''tsunami''), (''handle'', JStr ''a'')]),
               (''most_engaging'', JDict
                  [(''content'', JStr ''Hope after the tsunami''), (''likes'', JInt 10),
                   (''retweets'', JInt 3), (''category'', JStr ''tsunami''),
                   (''handle'', JStr ''a'')])])])"
      apply (elim exE conjE)
      subgoal premises p for categories most_negative most_positive most_engaging
      proof -
        from first_least_pair [OF p(1)] have mn: "most_negative = ?t2"
          by simp
        from first_greatest_pair [OF p(2)] have mp: "most_positive = ?t1"
          by simp
        from first_greatest_pair [OF p(3)] have me: "most_engaging = ?t1"
          by simp
        from p(5) [rule_format, of "''tsunami''"] p(5) [rule_format, of "''storms''"]
          p(5) [rule_format, of "''flooding''"] p(4) p(6)
        show ?thesis
          unfolding mn mp me
          by (intro exI [of _ categories]) (simp add: ops counts)
      qed
      done
    from inst [THEN conjunct2, THEN conjunct2, THEN conjunct2, THEN mp, OF n']
    show "\<exists>categories.
      distinct (map fst categories) \<and>
      map_of categories ''storms'' =
        Some (JDict
          [(''total_tweets'', JInt 2),
           (''sentiment_distribution'', JDict [(''negative'', JInt 2)]),
           (''avg_sentiment_score'', JReal (- 0.5)),
           (''avg_engagement'', JDict [(''likes'', JReal 7.5), (''retweets'', JReal 2.5)])]) \<and>
      map_of categories ''tsunami'' = None \<and>
      generate_sentiment_report_scarper exact_ops [?s1, ?s2] =
        Inr (JDict
          [(''summary'', JDict
              [(''total_tweets'', JInt 2),
               (''sentiment_distribution'', JDict [(''negative'', JInt 2)]),
               (''avg_sentiment_score'', JReal (- 0.5))]),
           (''by_hazard_category'', JDict categories),
           (''top_keywords'', JDict [(''hurricane'', JInt 1), (''cyclone'', JInt 1)]),
           (''notable_tweets'', JDict
              [(''most_negative'', asdict ?s1),
               (''most_positive'', asdict ?s1),
               (''most_engaging'', asdict ?s2)])])"
      apply (elim exE conjE)
      subgoal premises p for categories most_negative most_positive most_engaging
      proof -
        from first_least_pair [OF p(1)] have mn: "most_negative = ?s1"
          by simp
        from first_greatest_pair [OF p(2)] have mp: "most_positive = ?s1"
          by simp
        from first_greatest_pair [OF p(3)] have me: "most_engaging = ?s2"
          by simp
        from p(5) [rule_format, of "''storms''"] p(5) [rule_format, of "''tsunami''"] p(4) p(6)
        show ?thesis
          unfolding mn mp me
          by (intro exI [of _ categories]) (simp add: ops counts)
      qed
      done
  qed
qed

section \<open>Report Aggregator: the distributions and the categories\<close>

lemma jget_JDict: "jget (JDict d) k = map_of d k"
  by (simp add: jget_def)

lemma generate_sentiment_report_paths:
  fixes tweets :: "'a OceanHazardTweet_scheme list"
  assumes "tweets \<noteq> []"
  shows "\<exists>report. generate_sentiment_report fl tweets = Inr report \<and>
         (\<forall>l. jpath report [''summary'', ''sentiment_distribution'', l] =
            (if l \<in> sentiment_label ` set tweets
             then Some (JInt (int (length [t \<leftarrow> tweets. sentiment_label t = l])))
             else None)) \<and>
         (\<forall>c. c \<notin> hazard_category ` set tweets \<longrightarrow>
            jpath report [''by_hazard_category'', c] = None) \<and>
         (\<forall>c \<in> hazard_category ` set tweets.
            let ct = [t \<leftarrow> tweets. hazard_category t = c] in
            jpath report [''by_hazard_category'', c, ''total_tweets''] =
              Some (JInt (int (length ct))) \<and>
            (\<forall>l. jpath report [''by_hazard_category'', c, ''sentiment_distribution'', l] =
               (if l \<in> sentiment_label ` set ct
                then Some (JInt (int (length [t \<leftarrow> ct. sentiment_label t = l])))
                else None)) \<and>
            jpath report [''by_hazard_category'', c, ''avg_sentiment_score''] =
              Some (JReal (float_round fl
                (float_div fl (float_sum fl (map sentiment_score ct)) (real (length ct))) 3)) \<and>
            jpath report [''by_hazard_category'', c, ''avg_engagement'', ''likes''] =
              Some (JReal (float_round fl
                (float_div fl (real_of_int (sum_list (map likes ct))) (real (length ct))) 1)) \<and>
            jpath report [''by_hazard_category'', c, ''avg_engagement'', ''retweets''] =
              Some (JReal (float_round fl
                (float_div fl (real_of_int (sum_list (map retweets ct))) (real (length ct))) 1)) \<and>
            jpath report [''by_hazard_category'', c, ''avg_engagement'', ''replies''] =
              Some (JReal (float_round fl
                (float_div fl (real_of_int (sum_list (map replies ct))) (real (length ct))) 1)))"
  using generate_sentiment_report_shape [OF assms, of fl]
  apply (elim exE conjE)
  subgoal premises p for categories most_negative most_positive most_engaging
    apply (rule exI)
    apply (rule conjI)
     apply (rule p(6))
    apply (intro conjI allI impI ballI)
    subgoal for l
      by (simp add: jget_JDict jget_label_counts)
    subgoal for c
      using p(5) [rule_format, of c] by (simp add: jget_JDict)
    subgoal for c
      using p(5) [rule_format, of c]
      by (simp add: jget_JDict jget_label_counts Let_def)
    done
  done

lemma generate_sentiment_report_scarper_paths:
  assumes "tweets \<noteq> []"
  shows "\<exists>report. generate_sentiment_report_scarper fl tweets = Inr report \<and>
         (\<forall>l. jpath report [''summary'', ''sentiment_distribution'', l] =
            (if l \<in> sentiment_label ` set tweets
             then Some (JInt (int (length [t \<leftarrow> tweets. sentiment_label t = l])))
             else None)) \<and>
         (\<forall>c. c \<notin> hazard_category ` set tweets \<longrightarrow>
            jpath report [''by_hazard_category'', c] = None) \<and>
         (\<forall>c \<in> hazard_category ` set tweets.
            let ct = [t \<leftarrow> tweets. hazard_category t = c] in
            jpath report [''by_hazard_category'', c, ''total_tweets''] =
              Some (JInt (int (length ct))) \<and>
            (\<forall>l. jpath report [''by_hazard_category'', c, ''sentiment_distribution'', l] =
               (if l \<in> sentiment_label ` set ct
                then Some (JInt (int (length [t \<leftarrow> ct. sentiment_label t = l])))
                else None)) \<and>
            jpath report [''by_hazard_category'', c, ''avg_sentiment_score''] =
              Some (JReal (float_round fl
                (float_div fl (float_sum fl (map sentiment_score ct)) (real (length ct))) 3)) \<and>
            jpath report [''by_hazard_category'', c, ''avg_engagement'', ''likes''] =
              Some (JReal (float_round fl
                (float_div fl (real_of_int (sum_list (map likes ct))) (real (length ct))) 1)) \<and>
            jpath report [''by_hazard_category'', c, ''avg_engagement'', ''retweets''] =
              Some (JReal (float_round fl
                (float_div fl (real_of_int (sum_list (map retweets ct))) (real (length ct))) 1)) \<and>
            jpath report [''by_hazard_category'', c, ''avg_engagement'', ''replies''] = None)"
  using generate_sentiment_report_scarper_shape [OF assms, of fl]
  apply (elim exE conjE)
  subgoal premises p for categories most_negative most_positive most_engaging
    apply (rule exI)
    apply (rule conjI)
     apply (rule p(6))
    apply (intro conjI allI impI ballI)
    subgoal for l
      by (simp add: jget_JDict jget_label_counts)
    subgoal for c
      using p(5) [rule_format, of c] by (simp add: jget_JDict)
    subgoal for c
      using p(5) [rule_format, of c]
      by (simp add: jget_JDict jget_label_counts Let_def)
    done
  done

text \<open>
  C9, as amended. For every non-empty input the sentiment-label distribution of the
  summary has an entry exactly for the labels that occur, with their counts; a label that
  does not occur has no entry. The per-category breakdown has an entry exactly for the
  categories that occur; the entry of a category holds the number of its posts, the
  distribution of their labels (again only the labels that occur), their mean sentiment
  score rounded to 3 decimals and their mean likes and retweets rounded to 1 decimal, and
  in \<^verbatim>\<open>web_scraper.py\<close> also their mean replies rounded to 1 decimal;
  \<^verbatim>\<open>web_scarper.py\<close> has no entry for replies. A mean is Python's \<^verbatim>\<open>sum(...) / len(...)\<close>
  and the rounding is Python's \<^verbatim>\<open>round\<close>, whatever they compute on floats.
\<close>

theorem report_distributions:
  fixes tweets :: "'a OceanHazardTweet_scheme list"
  shows
  "(tweets \<noteq> [] \<longrightarrow>
      (\<exists>report. generate_sentiment_report fl tweets = Inr report \<and>
         (\<forall>l. jpath report [''summary'', ''sentiment_distribution'', l] =
            (if l \<in> sentiment_label ` set tweets
             then Some (JInt (int (length [t \<leftarrow> tweets. sentiment_label t = l])))
             else None)) \<and>
         (\<forall>c. c \<notin> hazard_category ` set tweets \<longrightarrow>
            jpath report [''by_hazard_category'', c] = None) \<and>
         (\<forall>c \<in> hazard_category ` set tweets.
            let ct = [t \<leftarrow> tweets. hazard_category t = c] in
            jpath report [''by_hazard_category'', c, ''total_tweets''] =
              Some (JInt (int (length ct))) \<and>
            (\<forall>l. jpath report [''by_hazard_category'', c, ''sentiment_distribution'', l] =
               (if l \<in> sentiment_label ` set ct
                then Some (JInt (int (length [t \<leftarrow> ct. sentiment_label t = l])))
                else None)) \<and>
            jpath report [''by_hazard_category'', c, ''avg_sentiment_score''] =
              Some (JReal (float_round fl
                (float_div fl (float_sum fl (map sentiment_score ct)) (real (length ct))) 3)) \<and>
            jpath report [''by_hazard_category'', c, ''avg_engagement'', ''likes''] =
              Some (JReal (float_round fl
                (float_div fl (real_of_int (sum_list (map likes ct))) (real (length ct))) 1)) \<and>
            jpath report [''by_hazard_category'', c, ''avg_engagement'', ''retweets''] =
              Some (JReal (float_round fl
                (float_div fl (real_of_int (sum_list (map retweets ct))) (real (length ct))) 1)) \<and>
            jpath report [''by_hazard_category'', c, ''avg_engagement'', ''replies''] =
              Some (JReal (float_round fl
                (float_div fl (real_of_int (sum_list (map replies ct))) (real (length ct))) 1))))) \<and>
   (tweets' \<noteq> [] \<longrightarrow>
      (\<exists>report. generate_sentiment_report_scarper fl tweets' = Inr report \<and>
         (\<forall>l. jpath report [''summary'', ''sentiment_distribution'', l] =
            (if l \<in> sentiment_label ` set tweets'
             then Some (JInt (int (length [t \<leftarrow> tweets'. sentiment_label t = l])))
             else None)) \<and>
         (\<forall>c. c \<notin> hazard_category ` set tweets' \<longrightarrow>
            jpath report [''by_hazard_category'', c] = None) \<and>
         (\<forall>c \<in> hazard_category ` set tweets'.
            let ct = [t \<leftarrow> tweets'. hazard_category t = c] in
            jpath report [''by_hazard_category'', c, ''total_tweets''] =
              Some (JInt (int (length ct))) \<and>
            (\<forall>l. jpath report [''by_hazard_category'', c, ''sentiment_distribution'', l] =
               (if l \<in> sentiment_label ` set ct
                then Some (JInt (int (length [t \<leftarrow> ct. sentiment_label t = l])))
                else None)) \<and>
            jpath report [''by_hazard_category'', c, ''avg_sentiment_score''] =
              Some (JReal (float_round fl
                (float_div fl (float_sum fl (map sentiment_score ct)) (real (length ct))) 3)) \<and>
            jpath report [''by_hazard_category'', c, ''avg_engagement'', ''likes''] =
              Some (JReal (float_round fl
                (float_div fl (real_of_int (sum_list (map likes ct))) (real (length ct))) 1)) \<and>
            jpath report [''by_hazard_category'', c, ''avg_engagement'', ''retweets''] =
              Some (JReal (float_round fl
                (float_div fl (real_of_int (sum_list (map retweets ct))) (real (length ct))) 1)) \<and>
            jpath report [''by_hazard_category'', c, ''avg_engagement'', ''replies''] = None)))"
  apply (intro conjI impI)
  subgoal by (erule generate_sentiment_report_paths)
  subgoal by (erule generate_sentiment_report_scarper_paths)
  done

text \<open>
  Two posts of one category in each file, run with the operations without rounding error;
  the means are \<open>-0.125\<close>, \<open>7.5\<close>, \<open>2.5\<close> and \<open>0.5\<close>, which Python's floats give too.
\<close>

theorem report_distributions_witness:
  "[\<lparr>username = ''A'', handle = ''a'', content = ''Hope after the tsunami'',
           timestamp = ''now'', retweets = 3, likes = 10, replies = 1, tweet_id = ''demo_001'',
           matched_keywords = [''tsunami''], sentiment_score = 0.25,
           sentiment_label = ''positive'', confidence = 0.45, hazard_category = ''tsunami'',
           source = ''DEMO_DATA''\<rparr>,
     \<lparr>username = ''B'', handle = ''b'', content = ''Tsunami disaster'',
           timestamp = ''now'', retweets = 2, likes = 5, replies = 0, tweet_id = ''demo_002'',
           matched_keywords = [''tsunami''], sentiment_score = - 0.5,
           sentiment_label = ''negative'', confidence = 0.7, hazard_category = ''tsunami'',
           source = ''DEMO_DATA''\<rparr>] \<noteq> [] \<and>
   (\<exists>report.
      generate_sentiment_report exact_ops
        [\<lparr>username = ''A'', handle = ''a'', content = ''Hope after the tsunami'',
           timestamp = ''now'', retweets = 3, likes = 10, replies = 1, tweet_id = ''demo_001'',
           matched_keywords = [''tsunami''], sentiment_score = 0.25,
           sentiment_label = ''positive'', confidence = 0.45, hazard_category = ''tsunami'',
           source = ''DEMO_DATA''\<rparr>,
         \<lparr>username = ''B'', handle = ''b'', content = ''Tsunami disaster'',
           timestamp = ''now'', retweets = 2, likes = 5, replies = 0, tweet_id = ''demo_002'',
           matched_keywords = [''tsunami''], sentiment_score = - 0.5,
           sentiment_label = ''negative'', confidence = 0.7, hazard_category = ''tsunami'',
           source = ''DEMO_DATA''\<rparr>] = Inr report \<and>
      jpath report [''summary'', ''sentiment_distribution'', ''positive''] = Some (JInt 1) \<and>
      jpath report [''summary'', ''sentiment_distribution'', ''neutral''] = None \<and>
      jpath report [''by_hazard_category'', ''storms''] = None \<and>
      jpath report [''by_hazard_category'', ''tsunami'', ''total_tweets''] = Some (JInt 2) \<and>
      jpath report [''by_hazard_category'', ''tsunami'', ''sentiment_distribution'', ''negative''] =
        Some (JInt 1) \<and>
      jpath report [''by_hazard_category'', ''tsunami'', ''sentiment_distribution'', ''neutral''] =
        None \<and>
      jpath report [''by_hazard_category'', ''tsunami'', ''avg_sentiment_score''] =
        Some (JReal (- 0.125)) \<and>
      jpath report [''by_hazard_category'', ''tsunami'', ''avg_engagement'', ''likes''] =
        Some (JReal 7.5) \<and>
      jpath report [''by_hazard_category'', ''tsunami'', ''avg_engagement'', ''retweets''] =
        Some (JReal 2.5) \<and>
      jpath report [''by_hazard_category'', ''tsunami'', ''avg_engagement'', ''replies''] =
        Some (JReal 0.5)) \<and>
   [\<lparr>username = ''C'', handle = ''c'', content = ''Hurricane disaster'',
           timestamp = ''now'', retweets = 2, likes = 5, replies = 0, tweet_id = ''nitter_1'',
           matched_keywords = [''hurricane''], sentiment_score = - 0.5,
           sentiment_label = ''negative'', confidence = 0.75, hazard_category = ''storms'',
           source = ''NITTER_SCRAPE'', location = None, verified = False\<rparr>,
    \<lparr>username = ''D'', handle = ''d'', content = ''Cyclone damage'',
           timestamp = ''now'', retweets = 3, likes = 10, replies = 1, tweet_id = ''nitter_2'',
           matched_keywords = [''cyclone''], sentiment_score = - 0.5,
           sentiment_label = ''negative'', confidence = 0.75, hazard_category = ''storms'',
           source = ''NITTER_SCRAPE'', location = None, verified = False\<rparr>] \<noteq> [] \<and>
   (\<exists>report.
      generate_sentiment_report_scarper exact_ops
        [\<lparr>username = ''C'', handle = ''c'', content = ''Hurricane disaster'',
           timestamp = ''now'', retweets = 2, likes = 5, replies = 0, tweet_id = ''nitter_1'',
           matched_keywords = [''hurricane''], sentiment_score = - 0.5,
           sentiment_label = ''negative'', confidence = 0.75, hazard_category = ''storms'',
           source = ''NITTER_SCRAPE'', location = None, verified = False\<rparr>,
         \<lparr>username = ''D'', handle = ''d'', content = ''Cyclone damage'',
           timestamp = ''now'', retweets = 3, likes = 10, replies = 1, tweet_id = ''nitter_2'',
           matched_keywords = [''cyclone''], sentiment_score = - 0.5,
           sentiment_label = ''negative'', confidence = 0.75, hazard_category = ''storms'',
           source = ''NITTER_SCRAPE'', location = None, verified = False\<rparr>] = Inr report \<and>
      jpath report [''summary'', ''sentiment_distribution'', ''negative''] = Some (JInt 2) \<and>
      jpath report [''summary'', ''sentiment_distribution'', ''positive''] = None \<and>
      jpath report [''by_hazard_category'', ''tsunami''] = None \<and>
      jpath report [''by_hazard_category'', ''storms'', ''total_tweets''] = Some (JInt 2) \<and>
      jpath report [''by_hazard_category'', ''storms'', ''sentiment_distribution'', ''negative''] =
        Some (JInt 2) \<and>
      jpath report [''by_hazard_category'', ''storms'', ''avg_sentiment_score''] =
        Some (JReal (- 0.5)) \<and>
      jpath report [''by_hazard_category'', ''storms'', ''avg_engagement'', ''likes''] =
        Some (JReal 7.5) \<and>
      jpath report [''by_hazard_category'', ''storms'', ''avg_engagement'', ''retweets''] =
        Some (JReal 2.5) \<and>
      jpath report [''by_hazard_category'', ''storms'', ''avg_engagement'', ''replies''] = None)"
proof -
  let ?t1 = "\<lparr>username = ''A'', handle = ''a'', content = ''Hope after the tsunami'',
           timestamp = ''now'', retweets = 3, likes = 10, replies = 1, tweet_id = ''demo_001'',
           matched_keywords = [''tsunami''], sentiment_score = 0.25,
           sentiment_label = ''positive'', confidence = 0.45, hazard_category = ''tsunami'',
           source = ''DEMO_DATA''\<rparr>"
  let ?t2 = "\<lparr>username = ''B'', handle = ''b'', content = ''Tsunami disaster'',
           timestamp = ''now'', retweets = 2, likes = 5, replies = 0, tweet_id = ''demo_002'',
           matched_keywords = [''tsunami''], sentiment_score = - 0.5,
           sentiment_label = ''negative'', confidence = 0.7, hazard_category = ''tsunami'',
           source = ''DEMO_DATA''\<rparr>"
  let ?s1 = "\<lparr>username = ''C'', handle = ''c'', content = ''Hurricane disaster'',
           timestamp = ''now'', retweets = 2, likes = 5, replies = 0, tweet_id = ''nitter_1'',
           matched_keywords = [''hurricane''], sentiment_score = - 0.5,
           sentiment_label = ''negative'', confidence = 0.75, hazard_category = ''storms'',
           source = ''NITTER_SCRAPE'', location = None, verified = False\<rparr>"
  let ?s2 = "\<lparr>username = ''D'', handle = ''d'', content = ''Cyclone damage'',
           timestamp = ''now'', retweets = 3, likes = 10, replies = 1, tweet_id = ''nitter_2'',
           matched_keywords = [''cyclone''], sentiment_score = - 0.5,
           sentiment_label = ''negative'', confidence = 0.75, hazard_category = ''storms'',
           source = ''NITTER_SCRAPE'', location = None, verified = False\<rparr>"
  let ?ts = "[?t1, ?t2]"
  let ?ss = "[?s1, ?s2]"
  note inst = report_distributions [of "?ts" exact_ops "?ss"]
  have n: "?ts \<noteq> []" and n': "?ss \<noteq> []"
    by simp_all
  have ops:
    "float_round exact_ops (float_div exact_ops (float_sum exact_ops [1 / 4, - (1 / 2)]) 2) 3 =
       - (1 / 8)"
    "float_round exact_ops (float_div exact_ops (float_sum exact_ops [- (1 / 2), - (1 / 2)]) 2) 3 =
       - (1 / 2)"
    "float_round exact_ops (float_div exact_ops 15 2) (Suc 0) = 15 / 2"
    "float_round exact_ops (float_div exact_ops 5 2) (Suc 0) = 5 / 2"
    "float_round exact_ops (float_div exact_ops 1 2) (Suc 0) = 1 / 2"
    by code_simp+
  have scraper: "(\<exists>report.
      generate_sentiment_report exact_ops
        ?ts = Inr report \<and>
      jpath report [''summary'', ''sentiment_distribution'', ''positive''] = Some (JInt 1) \<and>
      jpath report [''summary'', ''sentiment_distribution'', ''neutral''] = None \<and>
      jpath report [''by_hazard_category'', ''storms''] = None \<and>
      jpath report [''by_hazard_category'', ''tsunami'', ''total_tweets''] = Some (JInt 2) \<and>
      jpath report [''by_hazard_category'', ''tsunami'', ''sentiment_distribution'', ''negative''] =
        Some (JInt 1) \<and>
      jpath report [''by_hazard_category'', ''tsunami'', ''sentiment_distribution'', ''neutral''] =
        None \<and>
      jpath report [''by_hazard_category'', ''tsunami'', ''avg_sentiment_score''] =
        Some (JReal (- 0.125)) \<and>
      jpath report [''by_hazard_category'', ''tsunami'', ''avg_engagement'', ''likes''] =
        Some (JReal 7.5) \<and>
      jpath report [''by_hazard_category'', ''tsunami'', ''avg_engagement'', ''retweets''] =
        Some (JReal 2.5) \<and>
      jpath report [''by_hazard_category'', ''tsunami'', ''avg_engagement'', ''replies''] =
        Some (JReal 0.5))"
  proof -
    from inst [THEN conjunct1, THEN mp, OF n]
    obtain report where r: "generate_sentiment_report exact_ops ?ts = Inr report"
      and dist: "\<forall>l. jpath report [''summary'', ''sentiment_distribution'', l] =
            (if l \<in> sentiment_label ` set ?ts
             then Some (JInt (int (length [t \<leftarrow> ?ts. sentiment_label t = l])))
             else None)"
      and absent: "\<forall>c. c \<notin> hazard_category ` set ?ts \<longrightarrow>
            jpath report [''by_hazard_category'', c] = None"
      and present: "\<forall>c \<in> hazard_category ` set ?ts.
            let ct = [t \<leftarrow> ?ts. hazard_category t = c] in
            jpath report [''by_hazard_category'', c, ''total_tweets''] =
              Some (JInt (int (length ct))) \<and>
            (\<forall>l. jpath report [''by_hazard_category'', c, ''sentiment_distribution'', l] =
               (if l \<in> sentiment_label ` set ct
                then Some (JInt (int (length [t \<leftarrow> ct. sentiment_label t = l])))
                else None)) \<and>
            jpath report [''by_hazard_category'', c, ''avg_sentiment_score''] =
              Some (JReal (float_round exact_ops
                (float_div exact_ops (float_sum exact_ops (map sentiment_score ct))
                   (real (length ct))) 3)) \<and>
            jpath report [''by_hazard_category'', c, ''avg_engagement'', ''likes''] =
              Some (JReal (float_round exact_ops
                (float_div exact_ops (real_of_int (sum_list (map likes ct)))
                   (real (length ct))) 1)) \<and>
            jpath report [''by_hazard_category'', c, ''avg_engagement'', ''retweets''] =
              Some (JReal (float_round exact_ops
                (float_div exact_ops (real_of_int (sum_list (map retweets ct)))
                   (real (length ct))) 1)) \<and>
            jpath report [''by_hazard_category'', c, ''avg_engagement'', ''replies''] =
              Some (JReal (float_round exact_ops
                (float_div exact_ops (real_of_int (sum_list (map replies ct)))
                   (real (length ct))) 1))"
      by blast
    from dist [rule_format, of "''positive''"]
    have 1: "jpath report [''summary'', ''sentiment_distribution'', ''positive''] = Some (JInt 1)"
      by simp
    from dist [rule_format, of "''neutral''"]
    have 2: "jpath report [''summary'', ''sentiment_distribution'', ''neutral''] = None"
      by simp
    from absent [rule_format, of "''storms''"]
    have 3: "jpath report [''by_hazard_category'', ''storms''] = None"
      by simp
    have "''tsunami'' \<in> hazard_category ` set ?ts"
      by simp
    from present [rule_format, OF this]
    have 4: "jpath report [''by_hazard_category'', ''tsunami'', ''total_tweets''] =
        Some (JInt 2) \<and>
      jpath report [''by_hazard_category'', ''tsunami'', ''sentiment_distribution'', ''negative''] =
        Some (JInt 1) \<and>
      jpath report [''by_hazard_category'', ''tsunami'', ''sentiment_distribution'', ''neutral''] =
        None \<and>
      jpath report [''by_hazard_category'', ''tsunami'', ''avg_sentiment_score''] =
        Some (JReal (- 0.125)) \<and>
      jpath report [''by_hazard_category'', ''tsunami'', ''avg_engagement'', ''likes''] =
        Some (JReal 7.5) \<and>
      jpath report [''by_hazard_category'', ''tsunami'', ''avg_engagement'', ''retweets''] =
        Some (JReal 2.5) \<and>
      jpath report [''by_hazard_category'', ''tsunami'', ''avg_engagement'', ''replies''] =
        Some (JReal 0.5)"
      by (simp add: Let_def ops)
    from r 1 2 3 4 show ?thesis
      by blast
  qed
  have scarper: "(\<exists>report.
      generate_sentiment_report_scarper exact_ops
        ?ss = Inr report \<and>
      jpath report [''summary'', ''sentiment_distribution'', ''negative''] = Some (JInt 2) \<and>
      jpath report [''summary'', ''sentiment_distribution'', ''positive''] = None \<and>
      jpath report [''by_hazard_category'', ''tsunami''] = None \<and>
      jpath report [''by_hazard_category'', ''storms'', ''total_tweets''] = Some (JInt 2) \<and>
      jpath report [''by_hazard_category'', ''storms'', ''sentiment_distribution'', ''negative''] =
        Some (JInt 2) \<and>
      jpath report [''by_hazard_category'', ''storms'', ''avg_sentiment_score''] =
        Some (JReal (- 0.5)) \<and>
      jpath report [''by_hazard_category'', ''storms'', ''avg_engagement'', ''likes''] =
        Some (JReal 7.5) \<and>
      jpath report [''by_hazard_category'', ''storms'', ''avg_engagement'', ''retweets''] =
        Some (JReal 2.5) \<and>
      jpath report [''by_hazard_category'', ''storms'', ''avg_engagement'', ''replies''] = None)"
  proof -
    from inst [THEN conjunct2, THEN mp, OF n']
    obtain report where r: "generate_sentiment_report_scarper exact_ops ?ss = Inr report"
      and dist: "\<forall>l. jpath report [''summary'', ''sentiment_distribution'', l] =
            (if l \<in> sentiment_label ` set ?ss
             then Some (JInt (int (length [t \<leftarrow> ?ss. sentiment_label t = l])))
             else None)"
      and absent: "\<forall>c. c \<notin> hazard_category ` set ?ss \<longrightarrow>
            jpath report [''by_hazard_category'', c] = None"
      and present: "\<forall>c \<in> hazard_category ` set ?ss.
            let ct = [t \<leftarrow> ?ss. hazard_category t = c] in
            jpath report [''by_hazard_category'', c, ''total_tweets''] =
              Some (JInt (int (length ct))) \<and>
            (\<forall>l. jpath report [''by_hazard_category'', c, ''sentiment_distribution'', l] =
               (if l \<in> sentiment_label ` set ct
                then Some (JInt (int (length [t \<leftarrow> ct. sentiment_label t = l])))
                else None)) \<and>
            jpath report [''by_hazard_category'', c, ''avg_sentiment_score''] =
              Some (JReal (float_round exact_ops
                (float_div exact_ops (float_sum exact_ops (map sentiment_score ct))
                   (real (length ct))) 3)) \<and>
            jpath report [''by_hazard_category'', c, ''avg_engagement'', ''likes''] =
              Some (JReal (float_round exact_ops
                (float_div exact_ops (real_of_int (sum_list (map likes ct)))
                   (real (length ct))) 1)) \<and>
            jpath report [''by_hazard_category'', c, ''avg_engagement'', ''retweets''] =
              Some (JReal (float_round exact_ops
                (float_div exact_ops (real_of_int (sum_list (map retweets ct)))
                   (real (length ct))) 1)) \<and>
            jpath report [''by_hazard_category'', c, ''avg_engagement'', ''replies''] = None"
      by blast
    from dist [rule_format, of "''negative''"]
    have 1: "jpath report [''summary'', ''sentiment_distribution'', ''negative''] = Some (JInt 2)"
      by simp
    from dist [rule_format, of "''positive''"]
    have 2: "jpath report [''summary'', ''sentiment_distribution'', ''positive''] = None"
      by simp
    from absent [rule_format, of "''tsunami''"]
    have 3: "jpath report [''by_hazard_category'', ''tsunami''] = None"
      by simp
    have "''storms'' \<in> hazard_category ` set ?ss"
      by simp
    from present [rule_format, OF this]
    have 4: "jpath report [''by_hazard_category'', ''storms'', ''total_tweets''] =
        Some (JInt 2) \<and>
      jpath report [''by_hazard_category'', ''storms'', ''sentiment_distribution'', ''negative''] =
        Some (JInt 2) \<and>
      jpath report [''by_hazard_category'', ''storms'', ''avg_sentiment_score''] =
        Some (JReal (- 0.5)) \<and>
      jpath report [''by_hazard_category'', ''storms'', ''avg_engagement'', ''likes''] =
        Some (JReal 7.5) \<and>
      jpath report [''by_hazard_category'', ''storms'', ''avg_engagement'', ''retweets''] =
        Some (JReal 2.5) \<and>
      jpath report [''by_hazard_category'', ''storms'', ''avg_engagement'', ''replies''] = None"
      by (simp add: Let_def ops)
    from r 1 2 3 4 show ?thesis
      by blast
  qed
  from n scraper n' scarper show ?thesis
    by (intro conjI)
qed

text \<open>
  One positive post: the distribution is \<^verbatim>\<open>{"positive": 1}\<close>, with no entry for negative
  or neutral; and the category entry of \<^verbatim>\<open>web_scarper.py\<close> has no mean for replies.
\<close>

theorem report_distributions_counterexample:
  "map_sum id
     (\<lambda>report. (jpath report [''summary'', ''sentiment_distribution''],
                 jpath report [''summary'', ''sentiment_distribution'', ''negative''],
                 jpath report [''summary'', ''sentiment_distribution'', ''neutral'']))
     (generate_sentiment_report exact_ops
        [\<lparr>username = ''A'', handle = ''a'', content = ''Hope after the tsunami'',
           timestamp = ''now'', retweets = 3, likes = 10, replies = 1, tweet_id = ''demo_001'',
           matched_keywords = [''tsunami''], sentiment_score = 0.25,
           sentiment_label = ''positive'', confidence = 0.45, hazard_category = ''tsunami'',
           source = ''DEMO_DATA''\<rparr>]) =
     Inr (Some (JDict [(''positive'', JInt 1)]), None, None) \<and>
   map_sum id
     (\<lambda>report. (jpath report [''summary'', ''sentiment_distribution''],
                 jpath report [''by_hazard_category'', ''tsunami'', ''avg_engagement'']))
     (generate_sentiment_report_scarper exact_ops
        [\<lparr>username = ''A'', handle = ''a'', content = ''Hope after the tsunami'',
           timestamp = ''now'', retweets = 3, likes = 10, replies = 1, tweet_id = ''nitter_1'',
           matched_keywords = [''tsunami''], sentiment_score = 0.25,
           sentiment_label = ''positive'', confidence = 0.375, hazard_category = ''tsunami'',
           source = ''NITTER_SCRAPE'', location = None, verified = False\<rparr>]) =
     Inr (Some (JDict [(''positive'', JInt 1)]),
          Some (JDict [(''likes'', JReal 10), (''retweets'', JReal 3)]))"
  by code_simp

end
